theory Spec2Isabelle
  imports Complex_Main "HOL-Library.AList"
begin

section \<open>JavaScript values and strings\<close>

text \<open>
  The metadata block of a class is the result of \<^verbatim>\<open>Hjson.parse\<close>: a JSON-like
  JavaScript value. Reading a property that an object does not have yields
  \<^verbatim>\<open>undefined\<close>, so \<open>JUndefined\<close> is a value of the model as well. An object
  is the list of its own enumerable properties in enumeration order, and its
  prototype is \<^verbatim>\<open>Object.prototype\<close>; where a name is listed twice the first
  binding is the property's value. A string is the list of its code units; a code
  unit is a \<open>char\<close> of HOL, so the strings of the model are those whose code units
  are below 256. The case mappings defined below are the ASCII ones: the
  regular expression of \<^verbatim>\<open>guessSingularName\<close> ignores case on ASCII letters only,
  and on the text it matches they are the runtime's mappings. The runtime's
  \<^verbatim>\<open>String.prototype.toUpperCase\<close>, which capitalizes a member name, is a parameter
  of the model (\<open>ucase\<close> below). An own property named \<^verbatim>\<open>__proto__\<close> is not
  treated specially.
\<close>

datatype jsval =
    JUndefined
  | JNull
  | JBool bool
  | JNum rat
  | JStr string
  | JArr "jsval list"
  | JObj "(string \<times> jsval) list"

datatype jserror = Error string | TypeError

fun truthy :: "jsval \<Rightarrow> bool" where
  "truthy JUndefined = False"
| "truthy JNull = False"
| "truthy (JBool b) = b"
| "truthy (JNum r) = (r \<noteq> 0)"
| "truthy (JStr s) = (s \<noteq> [])"
| "truthy (JArr xs) = True"
| "truthy (JObj kvs) = True"

text \<open>\<^verbatim>\<open>v == null\<close>: true of \<^verbatim>\<open>null\<close> and \<^verbatim>\<open>undefined\<close> only.\<close>

fun nullish :: "jsval \<Rightarrow> bool" where
  "nullish JUndefined = True"
| "nullish JNull = True"
| "nullish v = False"

text \<open>\<^verbatim>\<open>a || b\<close> and \<^verbatim>\<open>a && b\<close> on values.\<close>

definition js_or :: "jsval \<Rightarrow> jsval \<Rightarrow> jsval" where
  "js_or a b = (if truthy a then a else b)"

definition js_and :: "jsval \<Rightarrow> jsval \<Rightarrow> jsval" where
  "js_and a b = (if truthy a then b else a)"

definition lowerAZ :: string where
  "lowerAZ = ''abcdefghijklmnopqrstuvwxyz''"

definition upperAZ :: string where
  "upperAZ = ''ABCDEFGHIJKLMNOPQRSTUVWXYZ''"

definition toUpperChar :: "char \<Rightarrow> char" where
  "toUpperChar c = (case map_of (zip lowerAZ upperAZ) c of Some u \<Rightarrow> u | None \<Rightarrow> c)"

definition toLowerChar :: "char \<Rightarrow> char" where
  "toLowerChar c = (case map_of (zip upperAZ lowerAZ) c of Some l \<Rightarrow> l | None \<Rightarrow> c)"

definition toUpperCase :: "string \<Rightarrow> string" where
  "toUpperCase s = map toUpperChar s"

definition toLowerCase :: "string \<Rightarrow> string" where
  "toLowerCase s = map toLowerChar s"

text \<open>
  \<^verbatim>\<open>s.slice(0, k)\<close>: a negative end counts from the end of the string, and the
  end is clamped to the string.
\<close>

definition slice0 :: "string \<Rightarrow> int \<Rightarrow> string" where
  "slice0 s k =
     (let n = int (length s);
          e = (if k < 0 then max (n + k) 0 else min k n)
      in take (nat e) s)"

section \<open>guessSingularName\<close>

text \<open>
  \<^verbatim>\<open>const rPlural = /(children|ies|ves|oes|ses|ches|shes|xes|s)$/i\<close>.
  The regular expression is tried at every start position from the left; at a
  position the alternatives are tried in order, and one matches when the rest of
  the input is that alternative, ignoring case (the \<^verbatim>\<open>$\<close> anchor).
\<close>

definition rPlural_alternatives :: "string list" where
  "rPlural_alternatives =
     [''children'', ''ies'', ''ves'', ''oes'', ''ses'', ''ches'', ''shes'', ''xes'', ''s'']"

definition rPlural_at :: "string \<Rightarrow> bool" where
  "rPlural_at rest =
     (find (\<lambda>alt. toUpperCase rest = toUpperCase alt) rPlural_alternatives \<noteq> None)"

text \<open>The first match: the text before it and the matched text (group 1).\<close>

fun rPlural_exec :: "string \<Rightarrow> (string \<times> string) option" where
  "rPlural_exec [] = None"
| "rPlural_exec (c # cs) =
     (if rPlural_at (c # cs) then Some ([], c # cs)
      else map_option (\<lambda>(pre, m). (c # pre, m)) (rPlural_exec cs))"

datatype repl = ReplStr string | ReplNum int

definition mSingular :: "(string \<times> repl) list" where
  "mSingular =
     [(''children'', ReplNum (- 3)),
      (''ies'', ReplStr ''y''),
      (''ves'', ReplStr ''f''),
      (''oes'', ReplNum (- 2)),
      (''ses'', ReplNum (- 2)),
      (''ches'', ReplNum (- 2)),
      (''shes'', ReplNum (- 2)),
      (''xes'', ReplNum (- 2)),
      (''s'', ReplNum (- 1))]"

text \<open>
  The replacer function of \<^verbatim>\<open>guessSingularName\<close>. A key that is not in
  \<open>mSingular\<close> gives \<^verbatim>\<open>sPlural.slice(0, undefined)\<close>, the matched text itself.
\<close>

definition replacer :: "string \<Rightarrow> string" where
  "replacer sPlural =
     (case map_of mSingular (toLowerCase sPlural) of
        Some (ReplStr vRepl) \<Rightarrow> vRepl
      | Some (ReplNum vRepl) \<Rightarrow> slice0 sPlural vRepl
      | None \<Rightarrow> sPlural)"

definition guessSingularName :: "string \<Rightarrow> string" where
  "guessSingularName sPluralName =
     (case rPlural_exec sPluralName of
        None \<Rightarrow> sPluralName
      | Some (pre, sPlural) \<Rightarrow> pre @ replacer sPlural)"

section \<open>Objects: own properties, enumeration, property reads\<close>

definition digitChar :: "nat \<Rightarrow> char" where
  "digitChar d = ''0123456789'' ! d"

text \<open>The property name of an array or string index: the index in decimal.\<close>

fun indexKey :: "nat \<Rightarrow> string" where
  "indexKey n =
     (if n < 10 then [digitChar n] else indexKey (n div 10) @ [digitChar (n mod 10)])"

text \<open>
  The own enumerable properties of a value: those of an object, the indices of a
  string (each a one-character string) or of an array; a number, a boolean,
  \<^verbatim>\<open>null\<close> and \<^verbatim>\<open>undefined\<close> have none.
\<close>

fun own_props :: "jsval \<Rightarrow> (string \<times> jsval) list" where
  "own_props (JObj kvs) = kvs"
| "own_props (JStr s) = map (\<lambda>i. (indexKey i, JStr [s ! i])) [0..<length s]"
| "own_props (JArr xs) = map (\<lambda>i. (indexKey i, xs ! i)) [0..<length xs]"
| "own_props v = []"

text \<open>Each name once, in the order of its first listing.\<close>

fun first_keys :: "string list \<Rightarrow> string list" where
  "first_keys [] = []"
| "first_keys (k # ks) = k # filter (\<lambda>x. x \<noteq> k) (first_keys ks)"

text \<open>\<^verbatim>\<open>for (let n in map) if (map.hasOwnProperty(n))\<close> visits these names.\<close>

definition own_keys :: "jsval \<Rightarrow> string list" where
  "own_keys v = first_keys (map fst (own_props v))"

text \<open>
  \<^verbatim>\<open>v[k]\<close> and \<^verbatim>\<open>v.k\<close> for a value that is neither \<^verbatim>\<open>null\<close> nor
  \<^verbatim>\<open>undefined\<close> (every read below is guarded so). The names the code reads are
  own properties or absent: no prototype of a parsed value has a property of one
  of these names.
\<close>

definition getp :: "jsval \<Rightarrow> string \<Rightarrow> jsval" where
  "getp v k = (case map_of (own_props v) k of Some x \<Rightarrow> x | None \<Rightarrow> JUndefined)"

section \<open>expandDefaultKey and upper\<close>

text \<open>The default key is \<open>None\<close> where the caller passes \<^verbatim>\<open>null\<close> (events).\<close>

definition expandDefaultKey :: "jsval \<Rightarrow> string option \<Rightarrow> jsval" where
  "expandDefaultKey node defaultKey =
     (if \<not> nullish node then
        (case (node, defaultKey) of
           (JStr s, Some k) \<Rightarrow> JObj [(k, node)]
         | _ \<Rightarrow> node)
      else node)"

text \<open>\<^verbatim>\<open>n.slice(0, 1).toUpperCase() + n.slice(1)\<close> on a string; \<open>ucase\<close> is the
  runtime's \<^verbatim>\<open>toUpperCase\<close>.\<close>

definition upper :: "(string \<Rightarrow> string) \<Rightarrow> string \<Rightarrow> string" where
  "upper ucase n = ucase (take 1 n) @ drop 1 n"

text \<open>
  \<^verbatim>\<open>upper\<close> applied to a value that need not be a string: only a string has both
  \<^verbatim>\<open>slice\<close> and, on the slice, \<^verbatim>\<open>toUpperCase\<close>; every other value raises a
  TypeError.
\<close>

fun upper_val :: "(string \<Rightarrow> string) \<Rightarrow> jsval \<Rightarrow> jserror + string" where
  "upper_val ucase (JStr s) = Inr (upper ucase s)"
| "upper_val ucase v = Inl TypeError"

section \<open>The class description\<close>

type_synonym method_map = "(string \<times> string) list"

record SpecialSetting =
  name :: string
  doc :: jsval
  since :: jsval
  deprecation :: jsval
  experimental :: jsval
  visibility :: jsval
  type :: jsval

record Property =
  name :: string
  doc :: jsval
  since :: jsval
  deprecation :: jsval
  experimental :: jsval
  visibility :: jsval
  type :: jsval
  defaultValue :: jsval
  bindable :: bool
  methods :: method_map

record Aggregation =
  name :: string
  doc :: jsval
  deprecation :: jsval
  since :: jsval
  experimental :: jsval
  visibility :: jsval
  type :: jsval
  altTypes :: jsval
  singularName :: jsval
  cardinality :: string
  bindable :: jsval
  methods :: method_map

record Association =
  name :: string
  doc :: jsval
  deprecation :: jsval
  since :: jsval
  experimental :: jsval
  visibility :: jsval
  type :: jsval
  singularName :: jsval
  cardinality :: string
  methods :: method_map

record EventParameter =
  name :: string
  doc :: jsval
  deprecation :: jsval
  since :: jsval
  experimental :: jsval
  type :: jsval

record UI5Event =
  name :: string
  doc :: jsval
  deprecation :: jsval
  since :: jsval
  experimental :: jsval
  visibility :: jsval
  allowPreventDefault :: bool
  enableEventBubbling :: bool
  parameters :: "(string \<times> EventParameter) list"
  methods :: method_map

record ClassInfo =
  name :: string
  interfaces :: jsval
  doc :: jsval
  deprecation :: jsval
  since :: jsval
  experimental :: jsval
  specialSettings :: "(string \<times> SpecialSetting) list"
  properties :: "(string \<times> Property) list"
  aggregations :: "(string \<times> Aggregation) list"
  associations :: "(string \<times> Association) list"
  events :: "(string \<times> UI5Event) list"
  methods :: jsval
  annotations :: jsval
  designtime :: jsval
  designTime :: jsval
  stereotype :: jsval
  metadataClass :: jsval
  defaultProperty :: jsval
  defaultAggregation :: jsval
  abstract :: bool
  final :: bool
  library :: jsval

section \<open>each\<close>

text \<open>
  \<^verbatim>\<open>console.warn\<close> appends to a log, which is threaded through the calls. A
  computation returns the log and either the error it raised or its result.
\<close>

type_synonym log = "string list"

type_synonym 'a outcome = "log \<times> (jserror + 'a)"

definition bind_outcome :: "'a outcome \<Rightarrow> ('a \<Rightarrow> log \<Rightarrow> 'b outcome) \<Rightarrow> 'b outcome" where
  "bind_outcome r f = (case r of (lg, Inl e) \<Rightarrow> (lg, Inl e) | (lg, Inr x) \<Rightarrow> f x lg)"

text \<open>The text that a template literal prints for the values the warning shows.\<close>

fun template_text :: "jsval \<Rightarrow> string" where
  "template_text JNull = ''null''"
| "template_text v = ''undefined''"

definition warning_text :: "string \<Rightarrow> jsval \<Rightarrow> string" where
  "warning_text n v =
     ''no valid metadata for '' @ n @ '' (AST type '' @ [CHR 0x27] @ template_text v @ [CHR 0x27] @ '')''"

text \<open>
  \<^verbatim>\<open>map.hasOwnProperty(n)\<close> calls the method that the map inherits, which answers
  \<^verbatim>\<open>true\<close> for every name that \<^verbatim>\<open>for ... in\<close> visits here. A map with an own
  property of the name \<^verbatim>\<open>hasOwnProperty\<close> hides that method behind a parsed value,
  which is not a function, and the call raises a TypeError.
\<close>

definition shadows_hasOwnProperty :: "jsval \<Rightarrow> bool" where
  "shadows_hasOwnProperty m = (map_of (own_props m) ''hasOwnProperty'' \<noteq> None)"

text \<open>
  The loop of \<^verbatim>\<open>each\<close> over the names of \<open>m\<close>. The callback receives the name, the
  expanded settings and the doclet (always \<^verbatim>\<open>null\<close>), and works on the member map
  that it assigns to; no callback of the source reads its fourth argument.
\<close>

fun each_loop ::
  "jsval \<Rightarrow> string option \<Rightarrow> (string \<Rightarrow> jsval \<Rightarrow> jsval \<Rightarrow> 'a \<Rightarrow> log \<Rightarrow> 'a outcome) \<Rightarrow>
   string list \<Rightarrow> 'a \<Rightarrow> log \<Rightarrow> 'a outcome" where
  "each_loop m defaultKey callback [] st lg = (lg, Inr st)"
| "each_loop m defaultKey callback (n # ns) st lg =
     (if shadows_hasOwnProperty m then (lg, Inl TypeError)
      else
        (let settings = expandDefaultKey (getp m n) defaultKey in
         if nullish settings then
           each_loop m defaultKey callback ns st (lg @ [warning_text n (getp m n)])
         else
           bind_outcome (callback n settings JNull st lg) (each_loop m defaultKey callback ns)))"

definition each ::
  "jsval \<Rightarrow> string option \<Rightarrow> (string \<Rightarrow> jsval \<Rightarrow> jsval \<Rightarrow> 'a \<Rightarrow> log \<Rightarrow> 'a outcome) \<Rightarrow>
   'a \<Rightarrow> log \<Rightarrow> 'a outcome" where
  "each m defaultKey callback st lg =
     (if truthy m then each_loop m defaultKey callback (own_keys m) st lg else (lg, Inr st))"

section \<open>collectClassInfo\<close>

text \<open>\<^verbatim>\<open>doclet && doclet.field\<close>.\<close>

definition doclet_field :: "jsval \<Rightarrow> string \<Rightarrow> jsval" where
  "doclet_field doclet k = js_and doclet (getp doclet k)"

definition new_specialSetting :: "string \<Rightarrow> jsval \<Rightarrow> jsval \<Rightarrow> SpecialSetting" where
  "new_specialSetting n settings doclet =
     \<lparr> SpecialSetting.name = n,
       SpecialSetting.doc = doclet_field doclet ''description'',
       SpecialSetting.since = doclet_field doclet ''since'',
       SpecialSetting.deprecation = doclet_field doclet ''deprecated'',
       SpecialSetting.experimental = doclet_field doclet ''experimental'',
       SpecialSetting.visibility =
         js_or (js_and (getp settings ''visibility'') (getp settings ''visibility''))
           (JStr ''public''),
       SpecialSetting.type =
         (if truthy (getp settings ''type'') then getp settings ''type'' else JStr ''any'') \<rparr>"

definition specialSetting_cb ::
  "string \<Rightarrow> jsval \<Rightarrow> jsval \<Rightarrow> (string \<times> SpecialSetting) list \<Rightarrow> log \<Rightarrow>
   (string \<times> SpecialSetting) list outcome" where
  "specialSetting_cb n settings doclet specials lg =
     (lg, Inr (AList.update n (new_specialSetting n settings doclet) specials))"

definition new_property :: "(string \<Rightarrow> string) \<Rightarrow> string \<Rightarrow> jsval \<Rightarrow> jsval \<Rightarrow> Property" where
  "new_property ucase n settings doclet =
     (let N = upper ucase n;
          p = \<lparr> Property.name = n,
                Property.doc = doclet_field doclet ''description'',
                Property.since = doclet_field doclet ''since'',
                Property.deprecation = doclet_field doclet ''deprecated'',
                Property.experimental = doclet_field doclet ''experimental'',
                Property.visibility = js_or (getp settings ''visibility'') (JStr ''public''),
                Property.type = js_or (getp settings ''type'') (JStr ''string''),
                Property.defaultValue = getp settings ''defaultValue'',
                Property.bindable =
                  (if truthy (getp settings ''bindable'') then truthy (getp settings ''bindable'')
                   else False),
                Property.methods = [(''get'', ''get'' @ N), (''set'', ''set'' @ N)] \<rparr>
      in if Property.bindable p then
           p\<lparr> Property.methods :=
                AList.update ''unbind'' (''unbind'' @ N)
                  (AList.update ''bind'' (''bind'' @ N) (Property.methods p)) \<rparr>
         else p)"

definition property_cb ::
  "(string \<Rightarrow> string) \<Rightarrow> string \<Rightarrow> jsval \<Rightarrow> jsval \<Rightarrow> (string \<times> Property) list \<Rightarrow> log \<Rightarrow>
   (string \<times> Property) list outcome" where
  "property_cb ucase n settings doclet props lg =
     (lg, Inr (AList.update n (new_property ucase n settings doclet) props))"

text \<open>
  The aggregation callback. The record is built with the methods \<^verbatim>\<open>get\<close> and
  \<^verbatim>\<open>destroy\<close>; the other methods are assigned afterwards, and
  \<^verbatim>\<open>upper(aggr.singularName)\<close> raises when the singular name is not a string.
\<close>

definition new_aggregation :: "(string \<Rightarrow> string) \<Rightarrow> string \<Rightarrow> jsval \<Rightarrow> jsval \<Rightarrow> jserror + Aggregation" where
  "new_aggregation ucase n settings doclet =
     (let N = upper ucase n;
          aggr = \<lparr> Aggregation.name = n,
                   Aggregation.doc = doclet_field doclet ''description'',
                   Aggregation.deprecation = doclet_field doclet ''deprecated'',
                   Aggregation.since = doclet_field doclet ''since'',
                   Aggregation.experimental = doclet_field doclet ''experimental'',
                   Aggregation.visibility =
                     js_or (js_and (getp settings ''visibility'') (getp settings ''visibility''))
                       (JStr ''public''),
                   Aggregation.type =
                     (if truthy (getp settings ''type'') then getp settings ''type''
                      else JStr ''sap.ui.core.Control''),
                   Aggregation.altTypes =
                     (if truthy (getp settings ''altTypes'') then getp settings ''altTypes''
                      else JUndefined),
                   Aggregation.singularName =
                     (if truthy (getp settings ''singularName'') then getp settings ''singularName''
                      else JStr (guessSingularName n)),
                   Aggregation.cardinality =
                     (if getp settings ''multiple'' \<noteq> JUndefined \<and> \<not> truthy (getp settings ''multiple'')
                      then ''0..1'' else ''0..n''),
                   Aggregation.bindable = getp settings ''bindable'',
                   Aggregation.methods = [(''get'', ''get'' @ N), (''destroy'', ''destroy'' @ N)] \<rparr>
      in case
           (if Aggregation.cardinality aggr = ''0..1'' then
              Inr (AList.update ''set'' (''set'' @ N) (Aggregation.methods aggr))
            else
              (case upper_val ucase (Aggregation.singularName aggr) of
                 Inl e \<Rightarrow> Inl e
               | Inr N1 \<Rightarrow>
                   Inr (AList.update ''removeAll'' (''removeAll'' @ N)
                       (AList.update ''indexOf'' (''indexOf'' @ N1)
                       (AList.update ''remove'' (''remove'' @ N1)
                       (AList.update ''add'' (''add'' @ N1)
                       (AList.update ''insert'' (''insert'' @ N1) (Aggregation.methods aggr))))))))
         of
           Inl e \<Rightarrow> Inl e
         | Inr ms \<Rightarrow>
             Inr (aggr\<lparr> Aggregation.methods :=
                    (if truthy (Aggregation.bindable aggr) then
                       AList.update ''unbind'' (''unbind'' @ N) (AList.update ''bind'' (''bind'' @ N) ms)
                     else ms) \<rparr>))"

definition aggregation_cb ::
  "(string \<Rightarrow> string) \<Rightarrow> string \<Rightarrow> jsval \<Rightarrow> jsval \<Rightarrow> (string \<times> Aggregation) list \<Rightarrow> log \<Rightarrow>
   (string \<times> Aggregation) list outcome" where
  "aggregation_cb ucase n settings doclet aggrs lg =
     (case new_aggregation ucase n settings doclet of
        Inl e \<Rightarrow> (lg, Inl e)
      | Inr aggr \<Rightarrow> (lg, Inr (AList.update n aggr aggrs)))"

definition new_association :: "(string \<Rightarrow> string) \<Rightarrow> string \<Rightarrow> jsval \<Rightarrow> jsval \<Rightarrow> jserror + Association" where
  "new_association ucase n settings doclet =
     (let N = upper ucase n;
          assoc = \<lparr> Association.name = n,
                    Association.doc = doclet_field doclet ''description'',
                    Association.deprecation = doclet_field doclet ''deprecated'',
                    Association.since = doclet_field doclet ''since'',
                    Association.experimental = doclet_field doclet ''experimental'',
                    Association.visibility =
                      js_or (js_and (getp settings ''visibility'') (getp settings ''visibility''))
                        (JStr ''public''),
                    Association.type =
                      (if truthy (getp settings ''type'') then getp settings ''type''
                       else JStr ''sap.ui.core.Control''),
                    Association.singularName =
                      (if truthy (getp settings ''singularName'') then getp settings ''singularName''
                       else JStr (guessSingularName n)),
                    Association.cardinality =
                      (if truthy (js_and (getp settings ''multiple'') (getp settings ''multiple''))
                       then ''0..n'' else ''0..1''),
                    Association.methods = [(''get'', ''get'' @ N)] \<rparr>
      in if Association.cardinality assoc = ''0..1'' then
           Inr (assoc\<lparr> Association.methods :=
                  AList.update ''set'' (''set'' @ N) (Association.methods assoc) \<rparr>)
         else
           (case upper_val ucase (Association.singularName assoc) of
              Inl e \<Rightarrow> Inl e
            | Inr N1 \<Rightarrow>
                Inr (assoc\<lparr> Association.methods :=
                       AList.update ''removeAll'' (''removeAll'' @ N)
                         (AList.update ''remove'' (''remove'' @ N1)
                         (AList.update ''add'' (''add'' @ N1) (Association.methods assoc))) \<rparr>)))"

definition association_cb ::
  "(string \<Rightarrow> string) \<Rightarrow> string \<Rightarrow> jsval \<Rightarrow> jsval \<Rightarrow> (string \<times> Association) list \<Rightarrow> log \<Rightarrow>
   (string \<times> Association) list outcome" where
  "association_cb ucase n settings doclet assocs lg =
     (case new_association ucase n settings doclet of
        Inl e \<Rightarrow> (lg, Inl e)
      | Inr assoc \<Rightarrow> (lg, Inr (AList.update n assoc assocs)))"

definition new_parameter :: "string \<Rightarrow> jsval \<Rightarrow> jsval \<Rightarrow> EventParameter" where
  "new_parameter pName pSettings pDoclet =
     \<lparr> EventParameter.name = pName,
       EventParameter.doc = doclet_field pDoclet ''description'',
       EventParameter.deprecation = doclet_field pDoclet ''deprecated'',
       EventParameter.since = doclet_field pDoclet ''since'',
       EventParameter.experimental = doclet_field pDoclet ''experimental'',
       EventParameter.type =
         (if truthy (js_and pSettings (getp pSettings ''type'')) then getp pSettings ''type''
          else JStr []) \<rparr>"

definition parameter_cb ::
  "string \<Rightarrow> jsval \<Rightarrow> jsval \<Rightarrow> (string \<times> EventParameter) list \<Rightarrow> log \<Rightarrow>
   (string \<times> EventParameter) list outcome" where
  "parameter_cb pName pSettings pDoclet params lg =
     (lg, Inr (AList.update pName (new_parameter pName pSettings pDoclet) params))"

text \<open>The event record as it is first assigned, with no parameters yet.\<close>

definition new_event :: "(string \<Rightarrow> string) \<Rightarrow> string \<Rightarrow> jsval \<Rightarrow> jsval \<Rightarrow> UI5Event" where
  "new_event ucase n settings doclet =
     (let N = upper ucase n in
      \<lparr> UI5Event.name = n,
        UI5Event.doc = doclet_field doclet ''description'',
        UI5Event.deprecation = doclet_field doclet ''deprecated'',
        UI5Event.since = doclet_field doclet ''since'',
        UI5Event.experimental = doclet_field doclet ''experimental'',
        UI5Event.visibility = JStr ''public'',
        UI5Event.allowPreventDefault =
          truthy (js_and (getp settings ''allowPreventDefault'') (getp settings ''allowPreventDefault'')),
        UI5Event.enableEventBubbling =
          truthy (js_and (getp settings ''enableEventBubbling'') (getp settings ''enableEventBubbling'')),
        UI5Event.parameters = [],
        UI5Event.methods =
          [(''attach'', ''attach'' @ N), (''detach'', ''detach'' @ N), (''fire'', ''fire'' @ N)] \<rparr>)"

definition event_cb ::
  "(string \<Rightarrow> string) \<Rightarrow> string \<Rightarrow> jsval \<Rightarrow> jsval \<Rightarrow> (string \<times> UI5Event) list \<Rightarrow> log \<Rightarrow>
   (string \<times> UI5Event) list outcome" where
  "event_cb ucase n settings doclet evs lg =
     (let info = new_event ucase n settings doclet in
      bind_outcome
        (each (getp settings ''parameters'') (Some ''type'') parameter_cb (UI5Event.parameters info) lg)
        (\<lambda>params lg'. (lg', Inr (AList.update n (info\<lparr> UI5Event.parameters := params \<rparr>) evs))))"

text \<open>\<^verbatim>\<open>typeof v === "string" || typeof v === "boolean"\<close>.\<close>

fun string_or_boolean :: "jsval \<Rightarrow> bool" where
  "string_or_boolean (JStr s) = True"
| "string_or_boolean (JBool b) = True"
| "string_or_boolean v = False"

text \<open>The class description before the metadata is read; \<^verbatim>\<open>classDoclet\<close> is \<^verbatim>\<open>null\<close>.\<close>

definition initialClassInfo :: "string \<Rightarrow> ClassInfo" where
  "initialClassInfo className =
     (let classDoclet = JNull in
      \<lparr> ClassInfo.name = className,
        ClassInfo.interfaces = JArr [],
        ClassInfo.doc = doclet_field classDoclet ''description'',
        ClassInfo.deprecation = doclet_field classDoclet ''deprecated'',
        ClassInfo.since = doclet_field classDoclet ''since'',
        ClassInfo.experimental = doclet_field classDoclet ''experimental'',
        ClassInfo.specialSettings = [],
        ClassInfo.properties = [],
        ClassInfo.aggregations = [],
        ClassInfo.associations = [],
        ClassInfo.events = [],
        ClassInfo.methods = JObj [],
        ClassInfo.annotations = JObj [],
        ClassInfo.designtime = JBool False,
        ClassInfo.designTime = JBool False,
        ClassInfo.stereotype = JNull,
        ClassInfo.metadataClass = JUndefined,
        ClassInfo.defaultProperty = JUndefined,
        ClassInfo.defaultAggregation = JUndefined,
        ClassInfo.abstract = False,
        ClassInfo.final = False,
        ClassInfo.library = JUndefined \<rparr>)"

text \<open>
  The assignments of the top-level fields read only the metadata, so the model
  makes them in one record update after the five member maps are filled; the
  maps are filled in the order of the source, and an error raised while filling
  one ends the call. The first argument is the runtime's \<^verbatim>\<open>toUpperCase\<close>.
\<close>

definition collectClassInfo ::
  "(string \<Rightarrow> string) \<Rightarrow> jsval \<Rightarrow> string \<Rightarrow> ClassInfo outcome" where
  "collectClassInfo ucase metadata className =
     (let oClassInfo = initialClassInfo className in
      if truthy metadata then
        bind_outcome
          (each (getp metadata ''specialSettings'') (Some ''type'') specialSetting_cb
             (ClassInfo.specialSettings oClassInfo) [])
        (\<lambda>specials lg1. bind_outcome
          (each (getp metadata ''properties'') (Some ''type'') (property_cb ucase)
             (ClassInfo.properties oClassInfo) lg1)
        (\<lambda>props lg2. bind_outcome
          (each (getp metadata ''aggregations'') (Some ''type'') (aggregation_cb ucase)
             (ClassInfo.aggregations oClassInfo) lg2)
        (\<lambda>aggrs lg3. bind_outcome
          (each (getp metadata ''associations'') (Some ''type'') (association_cb ucase)
             (ClassInfo.associations oClassInfo) lg3)
        (\<lambda>assocs lg4. bind_outcome
          (each (getp metadata ''events'') None (event_cb ucase) (ClassInfo.events oClassInfo)
             lg4)
        (\<lambda>evs lg5.
          (let designtime = js_or (getp metadata ''designtime'') (getp metadata ''designTime'') in
           (lg5, Inr (oClassInfo
             \<lparr> ClassInfo.stereotype :=
                 js_or (js_and (getp metadata ''stereotype'') (getp metadata ''stereotype'')) JUndefined,
               ClassInfo.library :=
                 js_or (js_and (getp metadata ''library'') (getp metadata ''library'')) JUndefined,
               ClassInfo.abstract :=
                 truthy (js_and (getp metadata ''abstract'') (getp metadata ''abstract'')),
               ClassInfo.final :=
                 truthy (js_and (getp metadata ''final'') (getp metadata ''final'')),
               ClassInfo.interfaces :=
                 (if truthy (getp metadata ''interfaces'') then getp metadata ''interfaces''
                  else ClassInfo.interfaces oClassInfo),
               ClassInfo.specialSettings := specials,
               ClassInfo.defaultProperty :=
                 js_or (js_and (getp metadata ''defaultProperty'') (getp metadata ''defaultProperty''))
                   JUndefined,
               ClassInfo.properties := props,
               ClassInfo.defaultAggregation :=
                 js_or (js_and (getp metadata ''defaultAggregation'') (getp metadata ''defaultAggregation''))
                   JUndefined,
               ClassInfo.aggregations := aggrs,
               ClassInfo.associations := assocs,
               ClassInfo.events := evs,
               ClassInfo.designtime :=
                 (if string_or_boolean designtime then designtime
                  else ClassInfo.designtime oClassInfo) \<rparr>))))))))
      else ([], Inr oClassInfo))"

section \<open>The singular form as the specification words it\<close>

text \<open>
  The specification of the pluralization heuristic: among the suffixes of a table
  that the name ends with (ignoring case), the longest one is rewritten by its
  rule; a name that ends with none of them is returned as it is. This definition
  follows the specification's words, not the code.
\<close>

datatype suffix_rule = DropLast nat | ReplaceBy string

definition singular_table :: "(string \<times> suffix_rule) list" where
  "singular_table =
     [(''children'', DropLast 3),
      (''ies'', ReplaceBy ''y''),
      (''ves'', ReplaceBy ''f''),
      (''oes'', DropLast 2),
      (''ses'', DropLast 2),
      (''ches'', DropLast 2),
      (''shes'', DropLast 2),
      (''xes'', DropLast 2),
      (''s'', DropLast 1)]"

definition suffix_applies :: "string \<Rightarrow> string \<Rightarrow> bool" where
  "suffix_applies suf s =
     (length suf \<le> length s \<and> toLowerCase (drop (length s - length suf) s) = toLowerCase suf)"

definition longest_rule :: "(string \<times> suffix_rule) list \<Rightarrow> (string \<times> suffix_rule) option" where
  "longest_rule rs =
     (case rs of
        [] \<Rightarrow> None
      | r # rs' \<Rightarrow>
          Some (fold (\<lambda>e best. if length (fst best) < length (fst e) then e else best) rs' r))"

definition singularOf_spec :: "string \<Rightarrow> string" where
  "singularOf_spec s =
     (case longest_rule (filter (\<lambda>(suf, r). suffix_applies suf s) singular_table) of
        None \<Rightarrow> s
      | Some (suf, DropLast k) \<Rightarrow> take (length s - k) s
      | Some (suf, ReplaceBy r) \<Rightarrow> take (length s - length suf) s @ r)"

section \<open>getInterestingBaseClass\<close>

datatype baseClass = ManagedObject | EventProvider | Element | Control



text \<open>
  The \<^verbatim>\<open>for\<close> loop over the base types: the first base type for which the
  recursive call \<open>f\<close> finds a base class ends the loop; \<^verbatim>\<open>undefined\<close> when none
  does. \<open>f\<close> returns \<open>None\<close> when the call does not return, and then neither does
  the loop.
\<close>

fun first_interesting ::
  "('ty \<Rightarrow> baseClass option option) \<Rightarrow> 'ty list \<Rightarrow> baseClass option option" where
  "first_interesting f [] = Some None"
| "first_interesting f (b # bs) =
     Option.bind (f b)
       (\<lambda>r. case r of Some c \<Rightarrow> Some (Some c) | None \<Rightarrow> first_interesting f bs)"

lemma first_interesting_mono [partial_function_mono]:
  assumes "\<And>b. mono_option (\<lambda>f. g f b)"
  shows "mono_option (\<lambda>f. first_interesting (g f) bs)"
proof (induction bs)
  case Nil
  show ?case by (simp add: option.const_mono)
next
  case (Cons b bs)
  show ?case
    unfolding first_interesting.simps
  proof (rule bind_mono)
    show "mono_option (\<lambda>f. g f b)" by (rule assms)
  next
    fix r
    show "mono_option (\<lambda>f. case r of Some c \<Rightarrow> Some (Some c) | None \<Rightarrow> first_interesting (g f) bs)"
      by (cases r) (simp_all add: option.const_mono Cons.IH)
  qed
qed


section \<open>generateInterface and generateInterfaces\<close>

text \<open>
  The functions of other modules that \<^verbatim>\<open>generateInterface\<close> calls are parameters
  of the model: the Hjson parser (it returns any JSON value, \<^verbatim>\<open>null\<close> included;
  \<open>Inl\<close> is the message of the error it throws), the runtime's
  \<^verbatim>\<open>String.prototype.toUpperCase\<close>, \<^verbatim>\<open>generateMethods\<close>, \<^verbatim>\<open>path.basename\<close> without
  the extension, and the printing of the interface file from the class
  description and its methods (the settings interface, the imports, the
  compiler's node factory and \<^verbatim>\<open>astToString\<close>).
\<close>

record 'm collaborators =
  hjson_parse :: "string \<Rightarrow> string + jsval"
  stringToUpperCase :: "string \<Rightarrow> string"
  generateMethods :: "ClassInfo \<Rightarrow> 'm list"
  moduleNameOf :: "string \<Rightarrow> string"
  printStatements :: "ClassInfo \<Rightarrow> string \<Rightarrow> bool \<Rightarrow> string \<Rightarrow> string \<Rightarrow> 'm list \<Rightarrow> string"

definition parse_error_text :: "string \<Rightarrow> string \<Rightarrow> string \<Rightarrow> string" where
  "parse_error_text className fileName message =
     ''When parsing the metadata of '' @ className @ '' in '' @ fileName @
     '': metadata is no valid JSON and could not be quick-fixed to be. Please make the metadata at least close to valid JSON. In particular, TypeScript type annotations cannot be used. Error: '' @
     message"

text \<open>\<^verbatim>\<open>buildAST\<close> followed by \<^verbatim>\<open>astToString\<close>; \<open>None\<close> when \<^verbatim>\<open>buildAST\<close> returns \<^verbatim>\<open>null\<close>.\<close>

definition buildAST ::
  "'m collaborators \<Rightarrow> ClassInfo \<Rightarrow> string \<Rightarrow> bool \<Rightarrow> string \<Rightarrow> string \<Rightarrow> string option" where
  "buildAST env classInfo classFileName constructorSignaturesAvailable moduleName settingsTypeFullName =
     (let methods = generateMethods env classInfo in
      if length methods = 0 then None
      else Some (printStatements env classInfo classFileName constructorSignaturesAvailable
                   moduleName settingsTypeFullName methods))"

datatype modifier =
  StaticKeyword | ReadonlyKeyword | PublicKeyword | PrivateKeyword | ProtectedKeyword

text \<open>
  What \<^verbatim>\<open>generateInterface\<close> reads of a class member: whether it is a property
  declaration, whether its name is an identifier and the identifier's text, its
  modifiers (the compiler leaves \<^verbatim>\<open>modifiers\<close> undefined, here \<open>None\<close>, for a
  member that has no modifier), and the source text of its initializer when it
  has one.
\<close>

record classElement =
  isPropertyDeclaration :: bool
  nameIsIdentifier :: bool
  escapedText :: string
  modifiers :: "modifier list option"
  initializer :: "string option"

record managedObjectInfo =
  fileName :: string
  className :: string
  classDeclaration :: "classElement list"
  settingsTypeFullName :: string
  interestingBaseClass :: baseClass
  constructorSignaturesAvailable :: bool

text \<open>
  The result is \<open>Inl\<close> the error thrown, \<open>Inr None\<close> when the function returns
  \<^verbatim>\<open>undefined\<close>, and \<open>Inr (Some text)\<close> when it returns the interface text. The
  warnings of \<^verbatim>\<open>collectClassInfo\<close> go to the console and are not part of the result.
\<close>

text \<open>
  The callback of the filter over the members. The conjunction is evaluated from
  the left, so \<^verbatim>\<open>member.modifiers.some(...)\<close> is reached only for a property
  declaration named \<open>metadata\<close>; there it raises a TypeError when the member has
  no modifiers.
\<close>

definition is_static_metadata :: "classElement \<Rightarrow> jserror + bool" where
  "is_static_metadata member =
     (if isPropertyDeclaration member \<and> nameIsIdentifier member \<and>
         escapedText member = ''metadata''
      then
        (case modifiers member of
           None \<Rightarrow> Inl TypeError
         | Some ms \<Rightarrow> Inr (list_ex (\<lambda>modifier. modifier = StaticKeyword) ms))
      else Inr False)"

text \<open>\<^verbatim>\<open>classDeclaration.members.filter(...)\<close>: an error of the callback ends it.\<close>

fun static_metadata_members :: "classElement list \<Rightarrow> jserror + classElement list" where
  "static_metadata_members [] = Inr []"
| "static_metadata_members (member # members) =
     (case is_static_metadata member of
        Inl e \<Rightarrow> Inl e
      | Inr keep \<Rightarrow>
          (case static_metadata_members members of
             Inl e \<Rightarrow> Inl e
           | Inr rest \<Rightarrow> Inr (if keep then member # rest else rest)))"

text \<open>
  Reading \<^verbatim>\<open>metadataObject.properties\<close> raises a TypeError when the parser
  returned \<^verbatim>\<open>null\<close>.
\<close>

definition generateInterface :: "'m collaborators \<Rightarrow> managedObjectInfo \<Rightarrow> jserror + string option" where
  "generateInterface env mo =
     (case static_metadata_members (classDeclaration mo) of
        Inl e \<Rightarrow> Inl e
      | Inr metadata \<Rightarrow>
          (case metadata of
             [member] \<Rightarrow>
               (case initializer member of
                  None \<Rightarrow> Inl TypeError
                | Some metadataText \<Rightarrow>
                    (case hjson_parse env metadataText of
                       Inl message \<Rightarrow>
                         Inl (Error (parse_error_text (className mo) (fileName mo) message))
                     | Inr metadataObject \<Rightarrow>
                         if nullish metadataObject then Inl TypeError
                         else if \<not> truthy (getp metadataObject ''properties'') \<and>
                                 \<not> truthy (getp metadataObject ''aggregations'') \<and>
                                 \<not> truthy (getp metadataObject ''associations'') \<and>
                                 \<not> truthy (getp metadataObject ''events'')
                         then Inr None
                         else
                           (case collectClassInfo (stringToUpperCase env) metadataObject
                                   (className mo) of
                              (lg, Inl e) \<Rightarrow> Inl e
                            | (lg, Inr classInfo) \<Rightarrow>
                                Inr (buildAST env classInfo (fileName mo)
                                       (constructorSignaturesAvailable mo)
                                       (moduleNameOf env (fileName mo))
                                       (settingsTypeFullName mo)))))
           | _ \<Rightarrow> Inr None))"

text \<open>
  \<^verbatim>\<open>generateInterfaces\<close> on the list that \<^verbatim>\<open>getManagedObjects\<close> returned for the
  source file. The result processor is the sink: a call of it appends the file
  name, the class name and the interface text. The result is what the sink
  received, and the error when one ended the \<^verbatim>\<open>forEach\<close>.
\<close>

type_synonym sink = "(string \<times> string \<times> string) list"

fun generateInterfaces_loop ::
  "'m collaborators \<Rightarrow> string \<Rightarrow> managedObjectInfo list \<Rightarrow> sink \<Rightarrow> sink \<times> jserror option" where
  "generateInterfaces_loop env sourceFileName [] out = (out, None)"
| "generateInterfaces_loop env sourceFileName (managedObjectOccurrence # mos) out =
     (case generateInterface env managedObjectOccurrence of
        Inl e \<Rightarrow> (out, Some e)
      | Inr interfaceText \<Rightarrow>
          (case interfaceText of
             None \<Rightarrow> generateInterfaces_loop env sourceFileName mos out
           | Some text \<Rightarrow>
               if text \<noteq> [] then
                 generateInterfaces_loop env sourceFileName mos
                   (out @ [(sourceFileName, className managedObjectOccurrence, text)])
               else generateInterfaces_loop env sourceFileName mos out))"

definition generateInterfaces ::
  "'m collaborators \<Rightarrow> string \<Rightarrow> managedObjectInfo list \<Rightarrow> sink \<times> jserror option" where
  "generateInterfaces env sourceFileName mos = generateInterfaces_loop env sourceFileName mos []"

section \<open>Type checkers for the base-class walk\<close>




section \<open>Sample classes and collaborators\<close>

text \<open>
  Collaborators for the examples: a parser that knows four metadata texts and
  rejects every other text (as Hjson rejects the text with a type annotation,
  whose unquoted string runs to the end of the line), the ASCII capitalization,
  methods named after the accessors of the properties, and a printer that writes
  one line.
\<close>

definition dq :: "string \<Rightarrow> string" where
  "dq s = CHR 0x22 # s @ [CHR 0x22]"

definition properties_text :: string where
  "properties_text = ''{ properties: { text: '' @ dq ''string'' @ '' } }''"

definition library_text :: string where
  "library_text = ''{ library: '' @ dq ''my.lib'' @ '' }''"

definition events_text :: string where
  "events_text = ''{ events: { press: {} } }''"

definition annotated_text :: string where
  "annotated_text = ''{ properties: { text: string as any } }''"

definition sample_collaborators :: "string collaborators" where
  "sample_collaborators =
     \<lparr> hjson_parse =
         (\<lambda>text.
            if text = properties_text then
              Inr (JObj [(''properties'', JObj [(''text'', JStr ''string'')])])
            else if text = library_text then
              Inr (JObj [(''library'', JStr ''my.lib'')])
            else if text = events_text then
              Inr (JObj [(''events'', JObj [(''press'', JObj [])])])
            else if text = ''null'' then Inr JNull
            else Inl ''End of input while parsing an object''),
       stringToUpperCase = toUpperCase,
       generateMethods =
         (\<lambda>classInfo. concat (map (\<lambda>(n, p). map snd (Property.methods p))
                                 (ClassInfo.properties classInfo))),
       moduleNameOf = (\<lambda>file. file),
       printStatements =
         (\<lambda>classInfo file ctors moduleName settingsType ms.
            ''interface '' @ ClassInfo.name classInfo) \<rparr>"

text \<open>
  A member \<^verbatim>\<open>static readonly metadata = ...\<close>, and a member \<^verbatim>\<open>metadata = ...\<close> of
  the instances, which has no modifier.
\<close>

definition metadata_member :: "string \<Rightarrow> classElement" where
  "metadata_member text =
     \<lparr> isPropertyDeclaration = True,
       nameIsIdentifier = True,
       escapedText = ''metadata'',
       modifiers = Some [StaticKeyword, ReadonlyKeyword],
       initializer = Some text \<rparr>"

definition instance_metadata_member :: "string \<Rightarrow> classElement" where
  "instance_metadata_member text =
     \<lparr> isPropertyDeclaration = True,
       nameIsIdentifier = True,
       escapedText = ''metadata'',
       modifiers = None,
       initializer = Some text \<rparr>"

definition sample_class :: "string \<Rightarrow> classElement list \<Rightarrow> managedObjectInfo" where
  "sample_class cls members =
     \<lparr> fileName = ''src/control/Controls.ts'',
       className = cls,
       classDeclaration = members,
       settingsTypeFullName = ''$ControlSettings'',
       interestingBaseClass = Control,
       constructorSignaturesAvailable = True \<rparr>"

section \<open>A sample metadata block\<close>

definition sample_metadata :: jsval where
  "sample_metadata =
     JObj
       [(''properties'',
           JObj [(''text'', JStr ''string''),
                 (''width'', JObj [(''type'', JStr ''sap.ui.core.CSSSize''),
                                   (''visibility'', JStr ''hidden''),
                                   (''bindable'', JBool True)]),
                 (''broken'', JNull)]),
        (''aggregations'',
           JObj [(''items'', JStr ''sap.m.Item''),
                 (''content'', JObj [(''multiple'', JBool False),
                                     (''bindable'', JBool True),
                                     (''visibility'', JStr ''hidden'')]),
                 (''gone'', JNull),
                 (''rows'', JArr [])]),
        (''associations'',
           JObj [(''ariaLabels'', JObj [(''multiple'', JBool True),
                                        (''singularName'', JStr ''ariaLabel'')]),
                 (''owner'', JObj [(''multiple'', JBool False)]),
                 (''labelFor'', JObj [(''visibility'', JStr ''hidden'')])]),
        (''events'',
           JObj [(''press'', JObj [(''visibility'', JStr ''hidden'')]),
                 (''change'', JStr ''whatever''),
                 (''select'', JObj [(''parameters'', JObj [(''item'', JStr ''sap.m.Item'')])])])]"

text \<open>The members that a call of \<open>collectClassInfo\<close> returned, by name.\<close>

definition property_of :: "ClassInfo outcome \<Rightarrow> string \<Rightarrow> Property option" where
  "property_of r n =
     (case r of (lg, Inr classInfo) \<Rightarrow> map_of (ClassInfo.properties classInfo) n
              | (lg, Inl e) \<Rightarrow> None)"

definition aggregation_of :: "ClassInfo outcome \<Rightarrow> string \<Rightarrow> Aggregation option" where
  "aggregation_of r n =
     (case r of (lg, Inr classInfo) \<Rightarrow> map_of (ClassInfo.aggregations classInfo) n
              | (lg, Inl e) \<Rightarrow> None)"

definition association_of :: "ClassInfo outcome \<Rightarrow> string \<Rightarrow> Association option" where
  "association_of r n =
     (case r of (lg, Inr classInfo) \<Rightarrow> map_of (ClassInfo.associations classInfo) n
              | (lg, Inl e) \<Rightarrow> None)"

definition event_of :: "ClassInfo outcome \<Rightarrow> string \<Rightarrow> UI5Event option" where
  "event_of r n =
     (case r of (lg, Inr classInfo) \<Rightarrow> map_of (ClassInfo.events classInfo) n
              | (lg, Inl e) \<Rightarrow> None)"

text \<open>
  The settings with which \<^verbatim>\<open>each\<close> calls the callback for the name \<open>n\<close> of the
  map \<open>kind\<close> of the metadata, when its loop reaches the name: the name is one of
  the map's and the expanded entry is not \<^verbatim>\<open>null\<close>.
\<close>

definition processed_settings :: "jsval \<Rightarrow> string \<Rightarrow> string option \<Rightarrow> string \<Rightarrow> jsval option" where
  "processed_settings metadata kind defaultKey n =
     (if n \<in> set (own_keys (getp metadata kind)) \<and>
         \<not> nullish (expandDefaultKey (getp (getp metadata kind) n) defaultKey)
      then Some (expandDefaultKey (getp (getp metadata kind) n) defaultKey)
      else None)"

text \<open>
  The warnings for the entries of a member map that are \<^verbatim>\<open>null\<close> or
  \<^verbatim>\<open>undefined\<close>, in the order of the names; for the events, the warnings for
  the parameters of an event stand in the place of the event.
\<close>

definition null_warnings :: "jsval \<Rightarrow> string list" where
  "null_warnings m =
     concat (map (\<lambda>k. if nullish (getp m k) then [warning_text k (getp m k)] else [])
               (own_keys m))"

definition event_warnings :: "jsval \<Rightarrow> string list" where
  "event_warnings m =
     concat (map (\<lambda>k. if nullish (getp m k) then [warning_text k (getp m k)]
                       else null_warnings (getp (getp m k) ''parameters''))
               (own_keys m))"

text \<open>
  The member maps that \<^verbatim>\<open>each\<close> enumerates for a metadata object: the five maps
  and the parameter maps of the events that are not \<^verbatim>\<open>null\<close>.
\<close>

definition enumerated_maps :: "jsval \<Rightarrow> jsval list" where
  "enumerated_maps metadata =
     [getp metadata ''specialSettings'', getp metadata ''properties'',
      getp metadata ''aggregations'', getp metadata ''associations'',
      getp metadata ''events''] @
     map (\<lambda>k. getp (getp (getp metadata ''events'') k) ''parameters'')
       (filter (\<lambda>k. \<not> nullish (getp (getp metadata ''events'') k))
          (own_keys (getp metadata ''events'')))"

text \<open>
  Whether \<^verbatim>\<open>upper\<close> can capitalize the singular name that the settings give: the
  explicit one is a string, or there is none (then the guessed one is used).
\<close>

definition singular_is_string :: "jsval \<Rightarrow> bool" where
  "singular_is_string settings =
     (case getp settings ''singularName'' of
        JStr sn \<Rightarrow> True
      | v \<Rightarrow> \<not> truthy v)"

text \<open>
  A capitalization for an example with a letter outside ASCII: like the runtime's
  it maps the code unit 0xF6 (o with diaeresis) to 0xD6 (the capital letter). The
  metadata of the example has one aggregation, named by that letter and \<open>ls\<close>.
\<close>

definition latin_toUpperCase :: "string \<Rightarrow> string" where
  "latin_toUpperCase s = map (\<lambda>c. if c = CHR 0xF6 then CHR 0xD6 else toUpperChar c) s"

definition oils_metadata :: jsval where
  "oils_metadata = JObj [(''aggregations'', JObj [(CHR 0xF6 # ''ls'', JObj [])])]"

section \<open>What each leaves in a member map\<close>

lemma first_keys_set: "set (first_keys ks) = set ks"
  by (induction ks) auto

lemma first_keys_distinct: "distinct (first_keys ks)"
  by (induction ks) (auto simp: first_keys_set)

lemma own_keys_distinct: "distinct (own_keys m)"
  by (simp add: own_keys_def first_keys_distinct)

lemma falsy_no_property: "\<not> truthy v \<Longrightarrow> getp v k = JUndefined"
  by (cases v) (simp_all add: getp_def)

lemma own_keys_undefined: "own_keys JUndefined = []"
  by (simp add: own_keys_def)

lemma each_loop_shadowed:
  "shadows_hasOwnProperty m \<Longrightarrow> each_loop m dk callback (n # ns) mp lg = (lg, Inl TypeError)"
  by simp

lemma each_loop_step:
  "\<not> shadows_hasOwnProperty m \<Longrightarrow>
   each_loop m dk callback (n # ns) mp lg =
     (if nullish (expandDefaultKey (getp m n) dk) then
        each_loop m dk callback ns mp (lg @ [warning_text n (getp m n)])
      else
        bind_outcome (callback n (expandDefaultKey (getp m n) dk) JNull mp lg)
          (each_loop m dk callback ns))"
  by (simp add: Let_def)

lemma each_loop_Inr_not_shadowed:
  "each_loop m dk callback (n # ns) mp lg = (lg', Inr mp') \<Longrightarrow> \<not> shadows_hasOwnProperty m"
  by (auto split: if_splits)

text \<open>
  A callback that, when it returns, has assigned under the name it was called with
  a value that \<open>Q\<close> relates to the name and the settings, and that only adds to
  the log.
\<close>

lemma each_loop_result:
  assumes assign: "\<And>n s mp lg lg' mp'. callback n s JNull mp lg = (lg', Inr mp') \<Longrightarrow>
                     \<exists>v. mp' = AList.update n v mp \<and> Q n s v"
    and adds: "\<And>n s mp lg lg' r. callback n s JNull mp lg = (lg', r) \<Longrightarrow> set lg \<subseteq> set lg'"
  shows "each_loop m dk callback ns mp lg = (lg', Inr mp') \<Longrightarrow> distinct ns \<Longrightarrow>
         set lg \<subseteq> set lg' \<and>
         (\<forall>n. n \<notin> set ns \<longrightarrow> map_of mp' n = map_of mp n) \<and>
         (\<forall>n \<in> set ns.
            if nullish (expandDefaultKey (getp m n) dk)
            then map_of mp' n = map_of mp n \<and> warning_text n (getp m n) \<in> set lg'
            else \<exists>v. map_of mp' n = Some v \<and> Q n (expandDefaultKey (getp m n) dk) v)"
proof (induction ns arbitrary: mp lg)
  case Nil
  then show ?case by simp
next
  case (Cons k ks)
  let ?s = "expandDefaultKey (getp m k) dk"
  from Cons.prems(2) have k_new: "k \<notin> set ks" and dist: "distinct ks" by simp_all
  from Cons.prems(1) have ns: "\<not> shadows_hasOwnProperty m"
    by (rule each_loop_Inr_not_shadowed)
  note step = each_loop_step [OF ns, of dk callback k ks]
  show ?case
  proof (cases "nullish ?s")
    case True
    with Cons.prems(1)
    have loop: "each_loop m dk callback ks mp (lg @ [warning_text k (getp m k)]) = (lg', Inr mp')"
      by (simp add: ns Let_def)
    from Cons.IH [OF loop dist] True k_new show ?thesis
      by auto
  next
    case False
    obtain lg1 r1 where cb: "callback k ?s JNull mp lg = (lg1, r1)"
      by (cases "callback k ?s JNull mp lg")
    with Cons.prems(1) False obtain mp1 where r1: "r1 = Inr mp1"
      and loop: "each_loop m dk callback ks mp1 lg1 = (lg', Inr mp')"
      by (cases r1) (simp_all add: ns Let_def bind_outcome_def)
    from assign cb r1 obtain v where mp1: "mp1 = AList.update k v mp" and q: "Q k ?s v"
      by blast
    from adds [OF cb] have lg1: "set lg \<subseteq> set lg1" .
    from Cons.IH [OF loop dist]
    have ih1: "set lg1 \<subseteq> set lg'"
      and ih2: "\<forall>n. n \<notin> set ks \<longrightarrow> map_of mp' n = map_of mp1 n"
      and ih3: "\<forall>n \<in> set ks.
            if nullish (expandDefaultKey (getp m n) dk)
            then map_of mp' n = map_of mp1 n \<and> warning_text n (getp m n) \<in> set lg'
            else \<exists>v. map_of mp' n = Some v \<and> Q n (expandDefaultKey (getp m n) dk) v"
      by simp_all
    have at_k: "map_of mp' k = Some v"
      using ih2 k_new mp1 by (simp add: update_conv')
    have other: "map_of mp1 n = map_of mp n" if "n \<noteq> k" for n
      using that mp1 by (simp add: update_conv')
    have "set lg \<subseteq> set lg'"
      using lg1 ih1 by blast
    moreover have "\<forall>n. n \<notin> set (k # ks) \<longrightarrow> map_of mp' n = map_of mp n"
      using ih2 other by simp
    moreover have "\<forall>n \<in> set (k # ks).
            if nullish (expandDefaultKey (getp m n) dk)
            then map_of mp' n = map_of mp n \<and> warning_text n (getp m n) \<in> set lg'
            else \<exists>v. map_of mp' n = Some v \<and> Q n (expandDefaultKey (getp m n) dk) v"
    proof
      fix n assume "n \<in> set (k # ks)"
      then consider "n = k" | "n \<in> set ks" "n \<noteq> k"
        using k_new by auto
      then show "if nullish (expandDefaultKey (getp m n) dk)
            then map_of mp' n = map_of mp n \<and> warning_text n (getp m n) \<in> set lg'
            else \<exists>v. map_of mp' n = Some v \<and> Q n (expandDefaultKey (getp m n) dk) v"
      proof cases
        case 1
        with False at_k q show ?thesis by simp
      next
        case 2
        with ih3 other show ?thesis by (auto split: if_splits)
      qed
    qed
    ultimately show ?thesis by blast
  qed
qed

lemma each_result:
  assumes assign: "\<And>n s mp lg lg' mp'. callback n s JNull mp lg = (lg', Inr mp') \<Longrightarrow>
                     \<exists>v. mp' = AList.update n v mp \<and> Q n s v"
    and adds: "\<And>n s mp lg lg' r. callback n s JNull mp lg = (lg', r) \<Longrightarrow> set lg \<subseteq> set lg'"
    and run: "each m dk callback [] lg = (lg', Inr mp')"
  shows "set lg \<subseteq> set lg' \<and>
         (\<forall>n. n \<notin> set (own_keys m) \<longrightarrow> map_of mp' n = None) \<and>
         (\<forall>n \<in> set (own_keys m).
            if nullish (expandDefaultKey (getp m n) dk)
            then map_of mp' n = None \<and> warning_text n (getp m n) \<in> set lg'
            else \<exists>v. map_of mp' n = Some v \<and> Q n (expandDefaultKey (getp m n) dk) v)"
proof (cases "truthy m")
  case True
  with run have "each_loop m dk callback (own_keys m) [] lg = (lg', Inr mp')"
    by (simp add: each_def)
  from each_loop_result [where Q = Q, OF assign adds this own_keys_distinct]
  show ?thesis by simp
next
  case False
  then have "own_keys m = []"
    by (cases m) (simp_all add: own_keys_def)
  with False run show ?thesis
    by (simp add: each_def)
qed

lemma each_adds_to_log:
  assumes adds: "\<And>n s mp lg lg' r. callback n s JNull mp lg = (lg', r) \<Longrightarrow> set lg \<subseteq> set lg'"
  shows "each m dk callback mp lg = (lg', r) \<Longrightarrow> set lg \<subseteq> set lg'"
proof -
  have loop: "each_loop m dk callback ns mp lg = (lg', r) \<Longrightarrow> set lg \<subseteq> set lg'" for ns
  proof (induction ns arbitrary: mp lg)
    case Nil
    then show ?case by simp
  next
    case (Cons k ks)
    let ?s = "expandDefaultKey (getp m k) dk"
    show ?case
    proof (cases "shadows_hasOwnProperty m")
      case True
      with Cons.prems show ?thesis by simp
    next
      case ns: False
      note step = each_loop_step [OF ns, of dk callback k ks]
      show ?thesis
      proof (cases "nullish ?s")
        case True
        with Cons.prems
        have "each_loop m dk callback ks mp (lg @ [warning_text k (getp m k)]) = (lg', r)"
          by (simp add: ns Let_def)
        from Cons.IH [OF this] show ?thesis by simp
      next
        case False
        obtain lg1 r1 where cb: "callback k ?s JNull mp lg = (lg1, r1)"
          by (cases "callback k ?s JNull mp lg")
        from adds [OF cb] have lg1: "set lg \<subseteq> set lg1" .
        show ?thesis
        proof (cases r1)
          case (Inl e)
          with cb Cons.prems False lg1 show ?thesis
            by (simp add: ns Let_def bind_outcome_def)
        next
          case (Inr mp1)
          with cb Cons.prems False have "each_loop m dk callback ks mp1 lg1 = (lg', r)"
            by (simp add: ns Let_def bind_outcome_def)
          from Cons.IH [OF this] lg1 show ?thesis by blast
        qed
      qed
    qed
  qed
  assume "each m dk callback mp lg = (lg', r)"
  then show ?thesis
    using loop by (auto simp: each_def split: if_splits)
qed

text \<open>The log of a loop that returns: what the callbacks log, and the warnings.\<close>

lemma each_loop_log:
  assumes logs: "\<And>n s mp lg lg' mp'. callback n s JNull mp lg = (lg', Inr mp') \<Longrightarrow>
                   lg' = lg @ W n s"
  shows "each_loop m dk callback ns mp lg = (lg', Inr mp') \<Longrightarrow>
         lg' = lg @ concat (map (\<lambda>k. if nullish (expandDefaultKey (getp m k) dk)
                                      then [warning_text k (getp m k)]
                                      else W k (expandDefaultKey (getp m k) dk)) ns)"
proof (induction ns arbitrary: mp lg)
  case Nil
  then show ?case by simp
next
  case (Cons k ks)
  let ?s = "expandDefaultKey (getp m k) dk"
  from Cons.prems have ns: "\<not> shadows_hasOwnProperty m"
    by (rule each_loop_Inr_not_shadowed)
  note step = each_loop_step [OF ns, of dk callback k ks]
  show ?case
  proof (cases "nullish ?s")
    case True
    with Cons.prems
    have "each_loop m dk callback ks mp (lg @ [warning_text k (getp m k)]) = (lg', Inr mp')"
      by (simp add: ns Let_def)
    from Cons.IH [OF this] True show ?thesis by simp
  next
    case False
    obtain lg1 r1 where cb: "callback k ?s JNull mp lg = (lg1, r1)"
      by (cases "callback k ?s JNull mp lg")
    with Cons.prems False obtain mp1 where r1: "r1 = Inr mp1"
      and loop: "each_loop m dk callback ks mp1 lg1 = (lg', Inr mp')"
      by (cases r1) (simp_all add: ns Let_def bind_outcome_def)
    from logs cb r1 have "lg1 = lg @ W k ?s" by blast
    with Cons.IH [OF loop] False show ?thesis by simp
  qed
qed

lemma each_log:
  assumes logs: "\<And>n s mp lg lg' mp'. callback n s JNull mp lg = (lg', Inr mp') \<Longrightarrow>
                   lg' = lg @ W n s"
    and run: "each m dk callback mp lg = (lg', Inr mp')"
  shows "lg' = lg @ concat (map (\<lambda>k. if nullish (expandDefaultKey (getp m k) dk)
                                      then [warning_text k (getp m k)]
                                      else W k (expandDefaultKey (getp m k) dk)) (own_keys m))"
proof (cases "truthy m")
  case True
  with run have "each_loop m dk callback (own_keys m) mp lg = (lg', Inr mp')"
    by (simp add: each_def)
  from each_loop_log [where W = W, OF logs this] show ?thesis .
next
  case False
  then have "own_keys m = []"
    by (cases m) (simp_all add: own_keys_def)
  with False run show ?thesis
    by (simp add: each_def)
qed

text \<open>A loop fails when the map hides \<^verbatim>\<open>hasOwnProperty\<close> or when a callback fails.\<close>

lemma each_loop_failure:
  "each_loop m dk callback ns mp lg = (lg', Inl e) \<Longrightarrow>
   (shadows_hasOwnProperty m \<and> e = TypeError) \<or>
   (\<exists>n \<in> set ns. \<not> nullish (expandDefaultKey (getp m n) dk) \<and>
     (\<exists>mp0 lg0 lg1. callback n (expandDefaultKey (getp m n) dk) JNull mp0 lg0 = (lg1, Inl e)))"
proof (induction ns arbitrary: mp lg)
  case Nil
  then show ?case by simp
next
  case (Cons k ks)
  let ?s = "expandDefaultKey (getp m k) dk"
  show ?case
  proof (cases "shadows_hasOwnProperty m")
    case True
    with Cons.prems show ?thesis by simp
  next
    case ns: False
    note step = each_loop_step [OF ns, of dk callback k ks]
    show ?thesis
    proof (cases "nullish ?s")
      case True
      with Cons.prems
      have "each_loop m dk callback ks mp (lg @ [warning_text k (getp m k)]) = (lg', Inl e)"
        by (simp add: ns Let_def)
      from Cons.IH [OF this] show ?thesis by auto
    next
      case False
      obtain lg1 r1 where cb: "callback k ?s JNull mp lg = (lg1, r1)"
        by (cases "callback k ?s JNull mp lg")
      show ?thesis
      proof (cases r1)
        case (Inl e1)
        with cb Cons.prems False have "e1 = e"
          by (simp add: ns Let_def bind_outcome_def)
        with cb Inl False show ?thesis by auto
      next
        case (Inr mp1)
        with cb Cons.prems False have "each_loop m dk callback ks mp1 lg1 = (lg', Inl e)"
          by (simp add: ns Let_def bind_outcome_def)
        from Cons.IH [OF this] show ?thesis by auto
      qed
    qed
  qed
qed

lemma each_failure:
  assumes "each m dk callback mp lg = (lg', Inl e)"
  shows "(shadows_hasOwnProperty m \<and> e = TypeError) \<or>
   (\<exists>n \<in> set (own_keys m). \<not> nullish (expandDefaultKey (getp m n) dk) \<and>
     (\<exists>mp0 lg0 lg1. callback n (expandDefaultKey (getp m n) dk) JNull mp0 lg0 = (lg1, Inl e)))"
proof -
  from assms have "each_loop m dk callback (own_keys m) mp lg = (lg', Inl e)"
    by (simp add: each_def split: if_splits)
  then show ?thesis by (rule each_loop_failure)
qed

text \<open>A loop returns when the map does not hide the method and no callback fails.\<close>

lemma each_returns:
  assumes "\<not> shadows_hasOwnProperty m"
    and "\<And>n mp0 lg0 lg1 e. n \<in> set (own_keys m) \<Longrightarrow>
           \<not> nullish (expandDefaultKey (getp m n) dk) \<Longrightarrow>
           callback n (expandDefaultKey (getp m n) dk) JNull mp0 lg0 \<noteq> (lg1, Inl e)"
  shows "\<exists>lg' mp'. each m dk callback mp lg = (lg', Inr mp')"
proof -
  obtain lg' r where run: "each m dk callback mp lg = (lg', r)"
    by (cases "each m dk callback mp lg")
  show ?thesis
  proof (cases r)
    case (Inl e)
    with run each_failure [of m dk callback mp lg lg' e] assms show ?thesis
      by blast
  next
    case (Inr mp')
    with run show ?thesis by blast
  qed
qed

section \<open>The callbacks of collectClassInfo\<close>

lemma nullish_expandDefaultKey: "nullish (expandDefaultKey v dk) \<longleftrightarrow> nullish v"
  by (cases v; cases dk) (simp_all add: expandDefaultKey_def)

lemma expandDefaultKey_None: "expandDefaultKey v None = v"
  by (cases v) (simp_all add: expandDefaultKey_def)

lemma specialSetting_cb_assigns:
  "specialSetting_cb n s JNull mp lg = (lg', Inr mp') \<Longrightarrow>
   \<exists>v. mp' = AList.update n v mp \<and> v = new_specialSetting n s JNull"
  by (auto simp: specialSetting_cb_def)

lemma specialSetting_cb_adds: "specialSetting_cb n s JNull mp lg = (lg', r) \<Longrightarrow> set lg \<subseteq> set lg'"
  by (auto simp: specialSetting_cb_def)

lemma specialSetting_cb_logs: "specialSetting_cb n s JNull mp lg = (lg', Inr mp') \<Longrightarrow> lg' = lg @ []"
  by (auto simp: specialSetting_cb_def)

lemma property_cb_assigns:
  "property_cb ucase n s JNull mp lg = (lg', Inr mp') \<Longrightarrow>
   \<exists>v. mp' = AList.update n v mp \<and> v = new_property ucase n s JNull"
  by (auto simp: property_cb_def)

lemma property_cb_adds: "property_cb ucase n s JNull mp lg = (lg', r) \<Longrightarrow> set lg \<subseteq> set lg'"
  by (auto simp: property_cb_def)

lemma property_cb_logs: "property_cb ucase n s JNull mp lg = (lg', Inr mp') \<Longrightarrow> lg' = lg @ []"
  by (auto simp: property_cb_def)

lemma aggregation_cb_assigns:
  "aggregation_cb ucase n s JNull mp lg = (lg', Inr mp') \<Longrightarrow>
   \<exists>v. mp' = AList.update n v mp \<and> new_aggregation ucase n s JNull = Inr v"
  by (auto simp: aggregation_cb_def split: sum.splits)

lemma aggregation_cb_adds: "aggregation_cb ucase n s JNull mp lg = (lg', r) \<Longrightarrow> set lg \<subseteq> set lg'"
  by (auto simp: aggregation_cb_def split: sum.splits)

lemma aggregation_cb_logs: "aggregation_cb ucase n s JNull mp lg = (lg', Inr mp') \<Longrightarrow> lg' = lg @ []"
  by (auto simp: aggregation_cb_def split: sum.splits)

lemma aggregation_cb_failure:
  "aggregation_cb ucase n s d mp lg = (lg1, Inl e) \<Longrightarrow> new_aggregation ucase n s d = Inl e"
  by (cases "new_aggregation ucase n s d") (simp_all add: aggregation_cb_def)

lemma association_cb_assigns:
  "association_cb ucase n s JNull mp lg = (lg', Inr mp') \<Longrightarrow>
   \<exists>v. mp' = AList.update n v mp \<and> new_association ucase n s JNull = Inr v"
  by (auto simp: association_cb_def split: sum.splits)

lemma association_cb_adds: "association_cb ucase n s JNull mp lg = (lg', r) \<Longrightarrow> set lg \<subseteq> set lg'"
  by (auto simp: association_cb_def split: sum.splits)

lemma association_cb_logs: "association_cb ucase n s JNull mp lg = (lg', Inr mp') \<Longrightarrow> lg' = lg @ []"
  by (auto simp: association_cb_def split: sum.splits)

lemma association_cb_failure:
  "association_cb ucase n s d mp lg = (lg1, Inl e) \<Longrightarrow> new_association ucase n s d = Inl e"
  by (cases "new_association ucase n s d") (simp_all add: association_cb_def)

lemma parameter_cb_adds: "parameter_cb n s JNull mp lg = (lg', r) \<Longrightarrow> set lg \<subseteq> set lg'"
  by (auto simp: parameter_cb_def)

lemma parameter_cb_logs: "parameter_cb n s JNull mp lg = (lg', Inr mp') \<Longrightarrow> lg' = lg @ []"
  by (auto simp: parameter_cb_def)

lemma each_parameter_log:
  assumes "each m (Some ''type'') parameter_cb mp lg = (lg', Inr mp')"
  shows "lg' = lg @ null_warnings m"
proof -
  have "lg' = lg @ concat (map (\<lambda>k. if nullish (expandDefaultKey (getp m k) (Some ''type''))
                                      then [warning_text k (getp m k)]
                                      else (\<lambda>n s. []) k (expandDefaultKey (getp m k) (Some ''type'')))
                                (own_keys m))"
    by (rule each_log [where callback = parameter_cb, OF _ assms]) (erule parameter_cb_logs)
  then show ?thesis
    by (simp add: null_warnings_def nullish_expandDefaultKey)
qed

lemma each_parameter_failure:
  assumes "each m dk parameter_cb mp lg = (lg', Inl e)"
  shows "shadows_hasOwnProperty m \<and> e = TypeError"
  using each_failure [OF assms] by (auto simp: parameter_cb_def)

lemma event_cb_assigns:
  "event_cb ucase n s JNull mp lg = (lg', Inr mp') \<Longrightarrow>
   \<exists>v. mp' = AList.update n v mp \<and>
       (\<exists>params. v = (new_event ucase n s JNull)\<lparr> UI5Event.parameters := params \<rparr>)"
  by (auto simp: event_cb_def bind_outcome_def Let_def split: prod.splits sum.splits)

lemma event_cb_Inr:
  assumes "event_cb ucase n s d mp lg = (lg', Inr mp')"
  shows "\<exists>params. each (getp s ''parameters'') (Some ''type'') parameter_cb [] lg = (lg', Inr params)"
proof -
  obtain lg1 r1 where e: "each (getp s ''parameters'') (Some ''type'') parameter_cb [] lg = (lg1, r1)"
    by (cases "each (getp s ''parameters'') (Some ''type'') parameter_cb [] lg")
  have p: "UI5Event.parameters (new_event ucase n s d) = []"
    by (simp add: new_event_def Let_def)
  from assms e p show ?thesis
    by (cases r1) (auto simp: event_cb_def bind_outcome_def Let_def)
qed

lemma event_cb_Inl:
  assumes "event_cb ucase n s d mp lg = (lg', Inl e)"
  shows "each (getp s ''parameters'') (Some ''type'') parameter_cb [] lg = (lg', Inl e)"
proof -
  obtain lg1 r1 where e: "each (getp s ''parameters'') (Some ''type'') parameter_cb [] lg = (lg1, r1)"
    by (cases "each (getp s ''parameters'') (Some ''type'') parameter_cb [] lg")
  have p: "UI5Event.parameters (new_event ucase n s d) = []"
    by (simp add: new_event_def Let_def)
  from assms e p show ?thesis
    by (cases r1) (auto simp: event_cb_def bind_outcome_def Let_def)
qed

lemma event_cb_adds: "event_cb ucase n s JNull mp lg = (lg', r) \<Longrightarrow> set lg \<subseteq> set lg'"
proof -
  assume run: "event_cb ucase n s JNull mp lg = (lg', r)"
  have "\<exists>r1. each (getp s ''parameters'') (Some ''type'') parameter_cb [] lg = (lg', r1)"
  proof (cases r)
    case (Inl e)
    with run event_cb_Inl show ?thesis by blast
  next
    case (Inr mp')
    with run event_cb_Inr show ?thesis by blast
  qed
  then obtain r1 where
    e: "each (getp s ''parameters'') (Some ''type'') parameter_cb [] lg = (lg', r1)"
    by blast
  show ?thesis
    by (rule each_adds_to_log [OF _ e]) (erule parameter_cb_adds)
qed

lemma event_cb_logs:
  "event_cb ucase n s JNull mp lg = (lg', Inr mp') \<Longrightarrow>
   lg' = lg @ null_warnings (getp s ''parameters'')"
  using event_cb_Inr each_parameter_log by blast

lemma event_cb_failure:
  assumes "event_cb ucase n s d mp lg = (lg', Inl e)"
  shows "shadows_hasOwnProperty (getp s ''parameters'') \<and> e = TypeError"
  using event_cb_Inl [OF assms] each_parameter_failure by blast

lemma each_specialSetting_adds:
  "each m dk (specialSetting_cb) mp lg = (lg', r) \<Longrightarrow> set lg \<subseteq> set lg'"
  by (erule each_adds_to_log [rotated]) (erule specialSetting_cb_adds)

lemma each_specialSetting_result:
  assumes "each m dk (specialSetting_cb) [] lg = (lg', Inr mp')"
  shows "set lg \<subseteq> set lg' \<and>
         (\<forall>n. n \<notin> set (own_keys m) \<longrightarrow> map_of mp' n = None) \<and>
         (\<forall>n \<in> set (own_keys m).
            if nullish (expandDefaultKey (getp m n) dk)
            then map_of mp' n = None \<and> warning_text n (getp m n) \<in> set lg'
            else \<exists>v. map_of mp' n = Some v \<and>
                   (\<lambda>n s v. v = new_specialSetting n s JNull) n (expandDefaultKey (getp m n) dk) v)"
  by (rule each_result [where callback = specialSetting_cb, OF _ _ assms])
    (erule specialSetting_cb_assigns, erule specialSetting_cb_adds)

lemma each_property_adds:
  "each m dk (property_cb ucase) mp lg = (lg', r) \<Longrightarrow> set lg \<subseteq> set lg'"
  by (erule each_adds_to_log [rotated]) (erule property_cb_adds)

lemma each_property_result:
  assumes "each m dk (property_cb ucase) [] lg = (lg', Inr mp')"
  shows "set lg \<subseteq> set lg' \<and>
         (\<forall>n. n \<notin> set (own_keys m) \<longrightarrow> map_of mp' n = None) \<and>
         (\<forall>n \<in> set (own_keys m).
            if nullish (expandDefaultKey (getp m n) dk)
            then map_of mp' n = None \<and> warning_text n (getp m n) \<in> set lg'
            else \<exists>v. map_of mp' n = Some v \<and>
                   (\<lambda>n s v. v = new_property ucase n s JNull) n (expandDefaultKey (getp m n) dk) v)"
  by (rule each_result [where callback = "property_cb ucase", OF _ _ assms])
    (erule property_cb_assigns, erule property_cb_adds)

lemma each_aggregation_adds:
  "each m dk (aggregation_cb ucase) mp lg = (lg', r) \<Longrightarrow> set lg \<subseteq> set lg'"
  by (erule each_adds_to_log [rotated]) (erule aggregation_cb_adds)

lemma each_aggregation_result:
  assumes "each m dk (aggregation_cb ucase) [] lg = (lg', Inr mp')"
  shows "set lg \<subseteq> set lg' \<and>
         (\<forall>n. n \<notin> set (own_keys m) \<longrightarrow> map_of mp' n = None) \<and>
         (\<forall>n \<in> set (own_keys m).
            if nullish (expandDefaultKey (getp m n) dk)
            then map_of mp' n = None \<and> warning_text n (getp m n) \<in> set lg'
            else \<exists>v. map_of mp' n = Some v \<and>
                   (\<lambda>n s v. new_aggregation ucase n s JNull = Inr v) n (expandDefaultKey (getp m n) dk) v)"
  by (rule each_result [where callback = "aggregation_cb ucase", OF _ _ assms])
    (erule aggregation_cb_assigns, erule aggregation_cb_adds)

lemma each_association_adds:
  "each m dk (association_cb ucase) mp lg = (lg', r) \<Longrightarrow> set lg \<subseteq> set lg'"
  by (erule each_adds_to_log [rotated]) (erule association_cb_adds)

lemma each_association_result:
  assumes "each m dk (association_cb ucase) [] lg = (lg', Inr mp')"
  shows "set lg \<subseteq> set lg' \<and>
         (\<forall>n. n \<notin> set (own_keys m) \<longrightarrow> map_of mp' n = None) \<and>
         (\<forall>n \<in> set (own_keys m).
            if nullish (expandDefaultKey (getp m n) dk)
            then map_of mp' n = None \<and> warning_text n (getp m n) \<in> set lg'
            else \<exists>v. map_of mp' n = Some v \<and>
                   (\<lambda>n s v. new_association ucase n s JNull = Inr v) n (expandDefaultKey (getp m n) dk) v)"
  by (rule each_result [where callback = "association_cb ucase", OF _ _ assms])
    (erule association_cb_assigns, erule association_cb_adds)

lemma each_event_adds:
  "each m dk (event_cb ucase) mp lg = (lg', r) \<Longrightarrow> set lg \<subseteq> set lg'"
  by (erule each_adds_to_log [rotated]) (erule event_cb_adds)

lemma each_event_result:
  assumes "each m dk (event_cb ucase) [] lg = (lg', Inr mp')"
  shows "set lg \<subseteq> set lg' \<and>
         (\<forall>n. n \<notin> set (own_keys m) \<longrightarrow> map_of mp' n = None) \<and>
         (\<forall>n \<in> set (own_keys m).
            if nullish (expandDefaultKey (getp m n) dk)
            then map_of mp' n = None \<and> warning_text n (getp m n) \<in> set lg'
            else \<exists>v. map_of mp' n = Some v \<and>
                   (\<lambda>n s v. \<exists>params. v = (new_event ucase n s JNull)\<lparr> UI5Event.parameters := params \<rparr>) n (expandDefaultKey (getp m n) dk) v)"
  by (rule each_result [where callback = "event_cb ucase", OF _ _ assms])
    (erule event_cb_assigns, erule event_cb_adds)

lemma each_specialSetting_log:
  assumes "each m (Some ''type'') (specialSetting_cb) mp lg = (lg', Inr mp')"
  shows "lg' = lg @ null_warnings m"
proof -
  have "lg' = lg @ concat (map (\<lambda>k. if nullish (expandDefaultKey (getp m k) (Some ''type''))
                                      then [warning_text k (getp m k)]
                                      else (\<lambda>n s. []) k (expandDefaultKey (getp m k) (Some ''type'')))
                                (own_keys m))"
    by (rule each_log [where callback = specialSetting_cb, OF _ assms]) (erule specialSetting_cb_logs)
  then show ?thesis
    by (simp add: null_warnings_def nullish_expandDefaultKey)
qed

lemma each_property_log:
  assumes "each m (Some ''type'') (property_cb ucase) mp lg = (lg', Inr mp')"
  shows "lg' = lg @ null_warnings m"
proof -
  have "lg' = lg @ concat (map (\<lambda>k. if nullish (expandDefaultKey (getp m k) (Some ''type''))
                                      then [warning_text k (getp m k)]
                                      else (\<lambda>n s. []) k (expandDefaultKey (getp m k) (Some ''type'')))
                                (own_keys m))"
    by (rule each_log [where callback = "property_cb ucase", OF _ assms]) (erule property_cb_logs)
  then show ?thesis
    by (simp add: null_warnings_def nullish_expandDefaultKey)
qed

lemma each_aggregation_log:
  assumes "each m (Some ''type'') (aggregation_cb ucase) mp lg = (lg', Inr mp')"
  shows "lg' = lg @ null_warnings m"
proof -
  have "lg' = lg @ concat (map (\<lambda>k. if nullish (expandDefaultKey (getp m k) (Some ''type''))
                                      then [warning_text k (getp m k)]
                                      else (\<lambda>n s. []) k (expandDefaultKey (getp m k) (Some ''type'')))
                                (own_keys m))"
    by (rule each_log [where callback = "aggregation_cb ucase", OF _ assms]) (erule aggregation_cb_logs)
  then show ?thesis
    by (simp add: null_warnings_def nullish_expandDefaultKey)
qed

lemma each_association_log:
  assumes "each m (Some ''type'') (association_cb ucase) mp lg = (lg', Inr mp')"
  shows "lg' = lg @ null_warnings m"
proof -
  have "lg' = lg @ concat (map (\<lambda>k. if nullish (expandDefaultKey (getp m k) (Some ''type''))
                                      then [warning_text k (getp m k)]
                                      else (\<lambda>n s. []) k (expandDefaultKey (getp m k) (Some ''type'')))
                                (own_keys m))"
    by (rule each_log [where callback = "association_cb ucase", OF _ assms]) (erule association_cb_logs)
  then show ?thesis
    by (simp add: null_warnings_def nullish_expandDefaultKey)
qed

lemma each_event_log:
  assumes "each m None (event_cb ucase) mp lg = (lg', Inr mp')"
  shows "lg' = lg @ event_warnings m"
proof -
  have "lg' = lg @ concat (map (\<lambda>k. if nullish (expandDefaultKey (getp m k) None)
                                      then [warning_text k (getp m k)]
                                      else (\<lambda>n s. null_warnings (getp s ''parameters'')) k
                                             (expandDefaultKey (getp m k) None))
                                (own_keys m))"
    by (rule each_log [where callback = "event_cb ucase", OF _ assms]) (erule event_cb_logs)
  then show ?thesis
    by (simp add: event_warnings_def expandDefaultKey_None cong: if_cong)
qed

section \<open>The member maps of the class description\<close>

lemma collectClassInfo_maps:
  assumes "collectClassInfo ucase metadata cls = (lg, Inr classInfo)"
  shows "\<exists>lg1 lg2 lg3 lg4.
    each (getp metadata ''specialSettings'') (Some ''type'') specialSetting_cb [] [] =
      (lg1, Inr (ClassInfo.specialSettings classInfo)) \<and>
    each (getp metadata ''properties'') (Some ''type'') (property_cb ucase) [] lg1 =
      (lg2, Inr (ClassInfo.properties classInfo)) \<and>
    each (getp metadata ''aggregations'') (Some ''type'') (aggregation_cb ucase) [] lg2 =
      (lg3, Inr (ClassInfo.aggregations classInfo)) \<and>
    each (getp metadata ''associations'') (Some ''type'') (association_cb ucase) [] lg3 =
      (lg4, Inr (ClassInfo.associations classInfo)) \<and>
    each (getp metadata ''events'') None (event_cb ucase) [] lg4 =
      (lg, Inr (ClassInfo.events classInfo))"
proof (cases "truthy metadata")
  case True
  with assms show ?thesis
    by (auto simp: collectClassInfo_def bind_outcome_def Let_def initialClassInfo_def
        split: prod.splits sum.splits)
next
  case False
  then have "getp metadata k = JUndefined" for k
    by (rule falsy_no_property)
  with False assms show ?thesis
    by (auto simp: collectClassInfo_def Let_def initialClassInfo_def each_def)
qed

lemma collectClassInfo_log:
  assumes "collectClassInfo ucase metadata cls = (lg, Inr classInfo)"
  shows "lg = null_warnings (getp metadata ''specialSettings'') @
              null_warnings (getp metadata ''properties'') @
              null_warnings (getp metadata ''aggregations'') @
              null_warnings (getp metadata ''associations'') @
              event_warnings (getp metadata ''events'')"
proof -
  from collectClassInfo_maps [OF assms] obtain lg1 lg2 lg3 lg4 where
    e1: "each (getp metadata ''specialSettings'') (Some ''type'') specialSetting_cb [] [] =
      (lg1, Inr (ClassInfo.specialSettings classInfo))" and
    e2: "each (getp metadata ''properties'') (Some ''type'') (property_cb ucase) [] lg1 =
      (lg2, Inr (ClassInfo.properties classInfo))" and
    e3: "each (getp metadata ''aggregations'') (Some ''type'') (aggregation_cb ucase) [] lg2 =
      (lg3, Inr (ClassInfo.aggregations classInfo))" and
    e4: "each (getp metadata ''associations'') (Some ''type'') (association_cb ucase) [] lg3 =
      (lg4, Inr (ClassInfo.associations classInfo))" and
    e5: "each (getp metadata ''events'') None (event_cb ucase) [] lg4 =
      (lg, Inr (ClassInfo.events classInfo))"
    by blast
  from each_specialSetting_log [OF e1] each_property_log [OF e2] each_aggregation_log [OF e3]
    each_association_log [OF e4] each_event_log [OF e5]
  show ?thesis by simp
qed

lemma collectClassInfo_specialSettings:
  assumes "collectClassInfo ucase metadata cls = (lg, Inr classInfo)"
    and "n \<in> set (own_keys (getp metadata ''specialSettings''))"
  shows "if nullish (expandDefaultKey (getp (getp metadata ''specialSettings'') n) (Some ''type''))
         then map_of (ClassInfo.specialSettings classInfo) n = None \<and>
              warning_text n (getp (getp metadata ''specialSettings'') n) \<in> set lg
         else map_of (ClassInfo.specialSettings classInfo) n =
              Some (new_specialSetting n
                (expandDefaultKey (getp (getp metadata ''specialSettings'') n) (Some ''type'')) JNull)"
proof -
  from collectClassInfo_maps [OF assms(1)] obtain lg1 lg2 lg3 lg4 where
    e1: "each (getp metadata ''specialSettings'') (Some ''type'') specialSetting_cb [] [] =
      (lg1, Inr (ClassInfo.specialSettings classInfo))" and
    e2: "each (getp metadata ''properties'') (Some ''type'') (property_cb ucase) [] lg1 =
      (lg2, Inr (ClassInfo.properties classInfo))" and
    e3: "each (getp metadata ''aggregations'') (Some ''type'') (aggregation_cb ucase) [] lg2 =
      (lg3, Inr (ClassInfo.aggregations classInfo))" and
    e4: "each (getp metadata ''associations'') (Some ''type'') (association_cb ucase) [] lg3 =
      (lg4, Inr (ClassInfo.associations classInfo))" and
    e5: "each (getp metadata ''events'') None (event_cb ucase) [] lg4 =
      (lg, Inr (ClassInfo.events classInfo))"
    by blast
  have "set lg1 \<subseteq> set lg"
    using each_property_adds [OF e2] each_aggregation_adds [OF e3] each_association_adds [OF e4] each_event_adds [OF e5]
    by blast
  with each_specialSetting_result [OF e1] assms(2)
  show ?thesis by (auto split: if_splits)
qed

lemma collectClassInfo_properties:
  assumes "collectClassInfo ucase metadata cls = (lg, Inr classInfo)"
    and "n \<in> set (own_keys (getp metadata ''properties''))"
  shows "if nullish (expandDefaultKey (getp (getp metadata ''properties'') n) (Some ''type''))
         then map_of (ClassInfo.properties classInfo) n = None \<and>
              warning_text n (getp (getp metadata ''properties'') n) \<in> set lg
         else map_of (ClassInfo.properties classInfo) n =
              Some (new_property ucase n
                (expandDefaultKey (getp (getp metadata ''properties'') n) (Some ''type'')) JNull)"
proof -
  from collectClassInfo_maps [OF assms(1)] obtain lg1 lg2 lg3 lg4 where
    e2: "each (getp metadata ''properties'') (Some ''type'') (property_cb ucase) [] lg1 =
      (lg2, Inr (ClassInfo.properties classInfo))" and
    e3: "each (getp metadata ''aggregations'') (Some ''type'') (aggregation_cb ucase) [] lg2 =
      (lg3, Inr (ClassInfo.aggregations classInfo))" and
    e4: "each (getp metadata ''associations'') (Some ''type'') (association_cb ucase) [] lg3 =
      (lg4, Inr (ClassInfo.associations classInfo))" and
    e5: "each (getp metadata ''events'') None (event_cb ucase) [] lg4 =
      (lg, Inr (ClassInfo.events classInfo))"
    by blast
  have "set lg2 \<subseteq> set lg"
    using each_aggregation_adds [OF e3] each_association_adds [OF e4] each_event_adds [OF e5]
    by blast
  with each_property_result [OF e2] assms(2)
  show ?thesis by (auto split: if_splits)
qed

lemma collectClassInfo_aggregations:
  assumes "collectClassInfo ucase metadata cls = (lg, Inr classInfo)"
    and "n \<in> set (own_keys (getp metadata ''aggregations''))"
  shows "if nullish (expandDefaultKey (getp (getp metadata ''aggregations'') n) (Some ''type''))
         then map_of (ClassInfo.aggregations classInfo) n = None \<and>
              warning_text n (getp (getp metadata ''aggregations'') n) \<in> set lg
         else \<exists>aggr. map_of (ClassInfo.aggregations classInfo) n = Some aggr \<and>
              new_aggregation ucase n
                (expandDefaultKey (getp (getp metadata ''aggregations'') n) (Some ''type'')) JNull =
              Inr aggr"
proof -
  from collectClassInfo_maps [OF assms(1)] obtain lg1 lg2 lg3 lg4 where
    e3: "each (getp metadata ''aggregations'') (Some ''type'') (aggregation_cb ucase) [] lg2 =
      (lg3, Inr (ClassInfo.aggregations classInfo))" and
    e4: "each (getp metadata ''associations'') (Some ''type'') (association_cb ucase) [] lg3 =
      (lg4, Inr (ClassInfo.associations classInfo))" and
    e5: "each (getp metadata ''events'') None (event_cb ucase) [] lg4 =
      (lg, Inr (ClassInfo.events classInfo))"
    by blast
  have "set lg3 \<subseteq> set lg"
    using each_association_adds [OF e4] each_event_adds [OF e5]
    by blast
  with each_aggregation_result [OF e3] assms(2)
  show ?thesis by (auto split: if_splits)
qed

lemma collectClassInfo_associations:
  assumes "collectClassInfo ucase metadata cls = (lg, Inr classInfo)"
    and "n \<in> set (own_keys (getp metadata ''associations''))"
  shows "if nullish (expandDefaultKey (getp (getp metadata ''associations'') n) (Some ''type''))
         then map_of (ClassInfo.associations classInfo) n = None \<and>
              warning_text n (getp (getp metadata ''associations'') n) \<in> set lg
         else \<exists>assoc. map_of (ClassInfo.associations classInfo) n = Some assoc \<and>
              new_association ucase n
                (expandDefaultKey (getp (getp metadata ''associations'') n) (Some ''type'')) JNull =
              Inr assoc"
proof -
  from collectClassInfo_maps [OF assms(1)] obtain lg1 lg2 lg3 lg4 where
    e4: "each (getp metadata ''associations'') (Some ''type'') (association_cb ucase) [] lg3 =
      (lg4, Inr (ClassInfo.associations classInfo))" and
    e5: "each (getp metadata ''events'') None (event_cb ucase) [] lg4 =
      (lg, Inr (ClassInfo.events classInfo))"
    by blast
  have "set lg4 \<subseteq> set lg"
    using each_event_adds [OF e5]
    by blast
  with each_association_result [OF e4] assms(2)
  show ?thesis by (auto split: if_splits)
qed

lemma collectClassInfo_events:
  assumes "collectClassInfo ucase metadata cls = (lg, Inr classInfo)"
    and "n \<in> set (own_keys (getp metadata ''events''))"
  shows "if nullish (expandDefaultKey (getp (getp metadata ''events'') n) (None))
         then map_of (ClassInfo.events classInfo) n = None \<and>
              warning_text n (getp (getp metadata ''events'') n) \<in> set lg
         else \<exists>ev params. map_of (ClassInfo.events classInfo) n = Some ev \<and>
              ev = (new_event ucase n (expandDefaultKey (getp (getp metadata ''events'') n) None) JNull)
                     \<lparr> UI5Event.parameters := params \<rparr>"
proof -
  from collectClassInfo_maps [OF assms(1)] obtain lg1 lg2 lg3 lg4 where
    e5: "each (getp metadata ''events'') None (event_cb ucase) [] lg4 =
      (lg, Inr (ClassInfo.events classInfo))"
    by blast
  from each_event_result [OF e5] assms(2)
  show ?thesis by (auto split: if_splits)
qed


section \<open>Aggregations and associations\<close>

lemma sample_metadata_returns:
  "\<exists>lg classInfo. collectClassInfo toUpperCase sample_metadata ''Widget'' = (lg, Inr classInfo)"
proof -
  have "isl (snd (collectClassInfo toUpperCase sample_metadata ''Widget'')) = False"
    by code_simp
  then show ?thesis
    by (cases "collectClassInfo toUpperCase sample_metadata ''Widget''";
        cases "snd (collectClassInfo toUpperCase sample_metadata ''Widget'')") auto
qed

lemma sample_metadata_keys:
  "own_keys (getp sample_metadata ''properties'') = [''text'', ''width'', ''broken'']"
  "own_keys (getp sample_metadata ''aggregations'') = [''items'', ''content'', ''gone'', ''rows'']"
  "own_keys (getp sample_metadata ''associations'') = [''ariaLabels'', ''owner'', ''labelFor'']"
  "own_keys (getp sample_metadata ''events'') = [''press'', ''change'', ''select'']"
  by code_simp+

lemma singular_value:
  assumes "singular_is_string settings"
  shows "\<exists>sn. (if truthy (getp settings ''singularName'') then getp settings ''singularName''
               else JStr (guessSingularName n)) = JStr sn"
  using assms by (cases "getp settings ''singularName''") (simp_all add: singular_is_string_def)

lemma new_aggregation_built:
  assumes "getp settings ''multiple'' = JBool False \<or> singular_is_string settings"
  shows "\<exists>aggr. new_aggregation ucase n settings d = Inr aggr"
  using assms
proof
  assume "getp settings ''multiple'' = JBool False"
  then show ?thesis
    by (simp add: new_aggregation_def Let_def)
next
  assume "singular_is_string settings"
  from singular_value [OF this, of n] obtain sn where
    "(if truthy (getp settings ''singularName'') then getp settings ''singularName''
      else JStr (guessSingularName n)) = JStr sn"
    by blast
  then show ?thesis
    by (simp add: new_aggregation_def Let_def)
qed

lemma new_association_built:
  assumes "getp settings ''multiple'' = JUndefined \<or> getp settings ''multiple'' = JBool False \<or>
           singular_is_string settings"
  shows "\<exists>assoc. new_association ucase n settings d = Inr assoc"
proof (cases "singular_is_string settings")
  case True
  from singular_value [OF this, of n] obtain sn where
    "(if truthy (getp settings ''singularName'') then getp settings ''singularName''
      else JStr (guessSingularName n)) = JStr sn"
    by blast
  then show ?thesis
    by (simp add: new_association_def Let_def)
next
  case False
  with assms have "getp settings ''multiple'' = JUndefined \<or> getp settings ''multiple'' = JBool False"
    by blast
  then show ?thesis
    by (auto simp: new_association_def Let_def js_and_def)
qed

lemma new_aggregation_methods:
  assumes "new_aggregation ucase n settings JNull = Inr aggr"
  shows "(getp settings ''multiple'' = JUndefined \<or> getp settings ''multiple'' = JBool True \<longrightarrow>
            Aggregation.cardinality aggr = ''0..n'' \<and>
            (\<exists>sn. Aggregation.singularName aggr = JStr sn \<and>
                  (getp settings ''singularName'' = JStr sn \<or>
                   \<not> truthy (getp settings ''singularName'') \<and> sn = guessSingularName n) \<and>
                  Aggregation.methods aggr =
                    [(''get'', ''get'' @ upper ucase n),
                     (''destroy'', ''destroy'' @ upper ucase n),
                     (''insert'', ''insert'' @ upper ucase sn),
                     (''add'', ''add'' @ upper ucase sn),
                     (''remove'', ''remove'' @ upper ucase sn),
                     (''indexOf'', ''indexOf'' @ upper ucase sn),
                     (''removeAll'', ''removeAll'' @ upper ucase n)] @
                    (if truthy (getp settings ''bindable'')
                     then [(''bind'', ''bind'' @ upper ucase n), (''unbind'', ''unbind'' @ upper ucase n)]
                     else []))) \<and>
         (getp settings ''multiple'' = JBool False \<longrightarrow>
            Aggregation.cardinality aggr = ''0..1'' \<and>
            Aggregation.methods aggr =
              [(''get'', ''get'' @ upper ucase n),
               (''destroy'', ''destroy'' @ upper ucase n),
               (''set'', ''set'' @ upper ucase n)] @
              (if truthy (getp settings ''bindable'')
                     then [(''bind'', ''bind'' @ upper ucase n), (''unbind'', ''unbind'' @ upper ucase n)]
                     else []))"
proof (intro conjI impI)
  assume m: "getp settings ''multiple'' = JUndefined \<or> getp settings ''multiple'' = JBool True"
  then have multi: "\<not> (getp settings ''multiple'' \<noteq> JUndefined \<and> \<not> truthy (getp settings ''multiple''))"
    by auto
  let ?sn = "if truthy (getp settings ''singularName'') then getp settings ''singularName''
             else JStr (guessSingularName n)"
  from assms multi obtain S where S: "upper_val ucase ?sn = Inr S"
    by (cases "upper_val ucase ?sn") (simp_all add: new_aggregation_def Let_def)
  then obtain sn where sn: "?sn = JStr sn" "S = upper ucase sn"
    by (cases ?sn) simp_all
  from sn(1) have explicit: "getp settings ''singularName'' = JStr sn \<or>
                   \<not> truthy (getp settings ''singularName'') \<and> sn = guessSingularName n"
    by (auto split: if_splits)
  from assms multi S sn show "Aggregation.cardinality aggr = ''0..n''"
    by (auto simp: new_aggregation_def Let_def)
  from assms multi S sn(2) have "Aggregation.singularName aggr = ?sn"
    by (auto simp: new_aggregation_def Let_def)
  moreover from assms multi S sn(2) have "Aggregation.methods aggr =
                    [(''get'', ''get'' @ upper ucase n),
                     (''destroy'', ''destroy'' @ upper ucase n),
                     (''insert'', ''insert'' @ upper ucase sn),
                     (''add'', ''add'' @ upper ucase sn),
                     (''remove'', ''remove'' @ upper ucase sn),
                     (''indexOf'', ''indexOf'' @ upper ucase sn),
                     (''removeAll'', ''removeAll'' @ upper ucase n)] @
                    (if truthy (getp settings ''bindable'')
                     then [(''bind'', ''bind'' @ upper ucase n), (''unbind'', ''unbind'' @ upper ucase n)]
                     else [])"
    by (auto simp: new_aggregation_def Let_def)
  ultimately show "(\<exists>sn. Aggregation.singularName aggr = JStr sn \<and>
                  (getp settings ''singularName'' = JStr sn \<or>
                   \<not> truthy (getp settings ''singularName'') \<and> sn = guessSingularName n) \<and>
                  Aggregation.methods aggr =
                    [(''get'', ''get'' @ upper ucase n),
                     (''destroy'', ''destroy'' @ upper ucase n),
                     (''insert'', ''insert'' @ upper ucase sn),
                     (''add'', ''add'' @ upper ucase sn),
                     (''remove'', ''remove'' @ upper ucase sn),
                     (''indexOf'', ''indexOf'' @ upper ucase sn),
                     (''removeAll'', ''removeAll'' @ upper ucase n)] @
                    (if truthy (getp settings ''bindable'')
                     then [(''bind'', ''bind'' @ upper ucase n), (''unbind'', ''unbind'' @ upper ucase n)]
                     else []))"
    using sn(1) explicit by metis
next
  assume m: "getp settings ''multiple'' = JBool False"
  with assms show "Aggregation.cardinality aggr = ''0..1''"
    by (auto simp: new_aggregation_def Let_def)
  from m assms show "Aggregation.methods aggr =
              [(''get'', ''get'' @ upper ucase n),
               (''destroy'', ''destroy'' @ upper ucase n),
               (''set'', ''set'' @ upper ucase n)] @
              (if truthy (getp settings ''bindable'')
                     then [(''bind'', ''bind'' @ upper ucase n), (''unbind'', ''unbind'' @ upper ucase n)]
                     else [])"
    by (auto simp: new_aggregation_def Let_def)
qed

section \<open>When the call fails and when it returns\<close>

lemma processed_settingsD:
  "processed_settings metadata kind dk n = Some s \<Longrightarrow>
   n \<in> set (own_keys (getp metadata kind)) \<and>
   s = expandDefaultKey (getp (getp metadata kind) n) dk \<and> \<not> nullish s"
  by (auto simp: processed_settings_def split: if_splits)

lemma each_specialSetting_failure:
  assumes "each m dk specialSetting_cb mp lg = (lg', Inl e)"
  shows "shadows_hasOwnProperty m \<and> e = TypeError"
  using each_failure [OF assms] by (auto simp: specialSetting_cb_def)

lemma each_property_failure:
  assumes "each m dk (property_cb ucase) mp lg = (lg', Inl e)"
  shows "shadows_hasOwnProperty m \<and> e = TypeError"
  using each_failure [OF assms] by (auto simp: property_cb_def)

lemma each_aggregation_failure:
  assumes "each m dk (aggregation_cb ucase) mp lg = (lg', Inl e)"
  shows "(shadows_hasOwnProperty m \<and> e = TypeError) \<or>
         (\<exists>n \<in> set (own_keys m). \<not> nullish (expandDefaultKey (getp m n) dk) \<and>
            new_aggregation ucase n (expandDefaultKey (getp m n) dk) JNull = Inl e)"
  using each_failure [OF assms] by (blast dest: aggregation_cb_failure)

lemma each_association_failure:
  assumes "each m dk (association_cb ucase) mp lg = (lg', Inl e)"
  shows "(shadows_hasOwnProperty m \<and> e = TypeError) \<or>
         (\<exists>n \<in> set (own_keys m). \<not> nullish (expandDefaultKey (getp m n) dk) \<and>
            new_association ucase n (expandDefaultKey (getp m n) dk) JNull = Inl e)"
  using each_failure [OF assms] by (blast dest: association_cb_failure)

lemma each_event_failure:
  assumes "each m None (event_cb ucase) mp lg = (lg', Inl e)"
  shows "e = TypeError \<and>
         (shadows_hasOwnProperty m \<or>
          (\<exists>n \<in> set (own_keys m). \<not> nullish (getp m n) \<and>
             shadows_hasOwnProperty (getp (getp m n) ''parameters'')))"
  using each_failure [OF assms] by (auto simp: expandDefaultKey_None dest: event_cb_failure)

lemma enumerated_maps_members:
  "getp metadata ''specialSettings'' \<in> set (enumerated_maps metadata)"
  "getp metadata ''properties'' \<in> set (enumerated_maps metadata)"
  "getp metadata ''aggregations'' \<in> set (enumerated_maps metadata)"
  "getp metadata ''associations'' \<in> set (enumerated_maps metadata)"
  "getp metadata ''events'' \<in> set (enumerated_maps metadata)"
  "n \<in> set (own_keys (getp metadata ''events'')) \<Longrightarrow> \<not> nullish (getp (getp metadata ''events'') n) \<Longrightarrow>
   getp (getp (getp metadata ''events'') n) ''parameters'' \<in> set (enumerated_maps metadata)"
  by (auto simp: enumerated_maps_def)

lemma collectClassInfo_failure:
  assumes "collectClassInfo ucase metadata cls = (lg, Inl e)"
  shows "(e = TypeError \<and> (\<exists>m \<in> set (enumerated_maps metadata). shadows_hasOwnProperty m)) \<or>
         (\<exists>n s. processed_settings metadata ''aggregations'' (Some ''type'') n = Some s \<and>
                new_aggregation ucase n s JNull = Inl e) \<or>
         (\<exists>n s. processed_settings metadata ''associations'' (Some ''type'') n = Some s \<and>
                new_association ucase n s JNull = Inl e)"
proof -
  from assms have t: "truthy metadata"
    by (auto simp: collectClassInfo_def Let_def split: if_splits)
  obtain lg1 r1 where e1: "each (getp metadata ''specialSettings'') (Some ''type'')
      specialSetting_cb [] [] = (lg1, r1)"
    by (cases "each (getp metadata ''specialSettings'') (Some ''type'') specialSetting_cb [] []")
  show ?thesis
  proof (cases r1)
    case (Inl e1')
    with assms t e1 have "e1' = e"
      by (simp add: collectClassInfo_def Let_def initialClassInfo_def bind_outcome_def)
    with e1 Inl each_specialSetting_failure enumerated_maps_members(1) show ?thesis
      by blast
  next
    case r1: (Inr specials)
    obtain lg2 r2 where e2: "each (getp metadata ''properties'') (Some ''type'')
        (property_cb ucase) [] lg1 = (lg2, r2)"
      by (cases "each (getp metadata ''properties'') (Some ''type'') (property_cb ucase) [] lg1")
    show ?thesis
    proof (cases r2)
      case (Inl e2')
      with assms t e1 r1 e2 have "e2' = e"
        by (simp add: collectClassInfo_def Let_def initialClassInfo_def bind_outcome_def)
      with e2 Inl each_property_failure enumerated_maps_members(2) show ?thesis
        by blast
    next
      case r2: (Inr props)
      obtain lg3 r3 where e3: "each (getp metadata ''aggregations'') (Some ''type'')
          (aggregation_cb ucase) [] lg2 = (lg3, r3)"
        by (cases "each (getp metadata ''aggregations'') (Some ''type'') (aggregation_cb ucase) [] lg2")
      show ?thesis
      proof (cases r3)
        case (Inl e3')
        with assms t e1 r1 e2 r2 e3 have "e3' = e"
          by (simp add: collectClassInfo_def Let_def initialClassInfo_def bind_outcome_def)
        with e3 Inl have "each (getp metadata ''aggregations'') (Some ''type'')
          (aggregation_cb ucase) [] lg2 = (lg3, Inl e)"
          by simp
        from each_aggregation_failure [OF this] show ?thesis
        proof
          assume "shadows_hasOwnProperty (getp metadata ''aggregations'') \<and> e = TypeError"
          with enumerated_maps_members(3) show ?thesis by blast
        next
          assume "\<exists>n \<in> set (own_keys (getp metadata ''aggregations'')).
            \<not> nullish (expandDefaultKey (getp (getp metadata ''aggregations'') n) (Some ''type'')) \<and>
            new_aggregation ucase n
              (expandDefaultKey (getp (getp metadata ''aggregations'') n) (Some ''type'')) JNull = Inl e"
          then obtain n where "processed_settings metadata ''aggregations'' (Some ''type'') n =
              Some (expandDefaultKey (getp (getp metadata ''aggregations'') n) (Some ''type''))"
            "new_aggregation ucase n
              (expandDefaultKey (getp (getp metadata ''aggregations'') n) (Some ''type'')) JNull = Inl e"
            by (auto simp: processed_settings_def)
          then show ?thesis by blast
        qed
      next
        case r3: (Inr aggrs)
        obtain lg4 r4 where e4: "each (getp metadata ''associations'') (Some ''type'')
            (association_cb ucase) [] lg3 = (lg4, r4)"
          by (cases "each (getp metadata ''associations'') (Some ''type'') (association_cb ucase) [] lg3")
        show ?thesis
        proof (cases r4)
          case (Inl e4')
          with assms t e1 r1 e2 r2 e3 r3 e4 have "e4' = e"
            by (simp add: collectClassInfo_def Let_def initialClassInfo_def bind_outcome_def)
          with e4 Inl have "each (getp metadata ''associations'') (Some ''type'')
            (association_cb ucase) [] lg3 = (lg4, Inl e)"
            by simp
          from each_association_failure [OF this] show ?thesis
          proof
            assume "shadows_hasOwnProperty (getp metadata ''associations'') \<and> e = TypeError"
            with enumerated_maps_members(4) show ?thesis by blast
          next
            assume "\<exists>n \<in> set (own_keys (getp metadata ''associations'')).
              \<not> nullish (expandDefaultKey (getp (getp metadata ''associations'') n) (Some ''type'')) \<and>
              new_association ucase n
                (expandDefaultKey (getp (getp metadata ''associations'') n) (Some ''type'')) JNull = Inl e"
            then obtain n where "processed_settings metadata ''associations'' (Some ''type'') n =
                Some (expandDefaultKey (getp (getp metadata ''associations'') n) (Some ''type''))"
              "new_association ucase n
                (expandDefaultKey (getp (getp metadata ''associations'') n) (Some ''type'')) JNull = Inl e"
              by (auto simp: processed_settings_def)
            then show ?thesis by blast
          qed
        next
          case r4: (Inr assocs)
          obtain lg5 r5 where e5: "each (getp metadata ''events'') None (event_cb ucase) [] lg4 =
              (lg5, r5)"
            by (cases "each (getp metadata ''events'') None (event_cb ucase) [] lg4")
          show ?thesis
          proof (cases r5)
            case (Inl e5')
            with assms t e1 r1 e2 r2 e3 r3 e4 r4 e5 have "e5' = e"
              by (simp add: collectClassInfo_def Let_def initialClassInfo_def bind_outcome_def)
            with e5 Inl have "each (getp metadata ''events'') None (event_cb ucase) [] lg4 =
              (lg5, Inl e)"
              by simp
            from each_event_failure [OF this] enumerated_maps_members(5,6)
            show ?thesis by blast
          next
            case (Inr evs)
            with assms t e1 r1 e2 r2 e3 r3 e4 r4 e5 have False
              by (simp add: collectClassInfo_def Let_def initialClassInfo_def bind_outcome_def)
            then show ?thesis ..
          qed
        qed
      qed
    qed
  qed
qed

lemma collectClassInfo_returns:
  assumes "\<forall>m \<in> set (enumerated_maps metadata). \<not> shadows_hasOwnProperty m"
    and "\<forall>k s. processed_settings metadata ''aggregations'' (Some ''type'') k = Some s \<longrightarrow>
               singular_is_string s"
    and "\<forall>k s. processed_settings metadata ''associations'' (Some ''type'') k = Some s \<longrightarrow>
               singular_is_string s"
  shows "\<exists>lg classInfo. collectClassInfo ucase metadata cls = (lg, Inr classInfo)"
proof -
  obtain lg r where run: "collectClassInfo ucase metadata cls = (lg, r)"
    by (cases "collectClassInfo ucase metadata cls")
  show ?thesis
  proof (cases r)
    case (Inl e)
    with run have "collectClassInfo ucase metadata cls = (lg, Inl e)"
      by simp
    from collectClassInfo_failure [OF this] have False
    proof (elim disjE exE conjE)
      fix n s
      assume p: "processed_settings metadata ''aggregations'' (Some ''type'') n = Some s"
        and f: "new_aggregation ucase n s JNull = Inl e"
      from assms(2) p have "singular_is_string s" by blast
      with new_aggregation_built [of s ucase n JNull] f show False by auto
    next
      fix n s
      assume p: "processed_settings metadata ''associations'' (Some ''type'') n = Some s"
        and f: "new_association ucase n s JNull = Inl e"
      from assms(3) p have "singular_is_string s" by blast
      with new_association_built [of s ucase n JNull] f show False by auto
    next
      assume "\<exists>m \<in> set (enumerated_maps metadata). shadows_hasOwnProperty m"
      with assms(1) show False by blast
    qed
    then show ?thesis ..
  next
    case (Inr classInfo)
    with run show ?thesis by blast
  qed
qed

lemma sample_metadata_well_formed:
  "\<forall>m \<in> set (enumerated_maps sample_metadata). \<not> shadows_hasOwnProperty m"
  "\<forall>k s. processed_settings sample_metadata ''aggregations'' (Some ''type'') k = Some s \<longrightarrow>
          singular_is_string s"
  "\<forall>k s. processed_settings sample_metadata ''associations'' (Some ''type'') k = Some s \<longrightarrow>
          singular_is_string s"
proof -
  show "\<forall>m \<in> set (enumerated_maps sample_metadata). \<not> shadows_hasOwnProperty m"
    by code_simp
  show "\<forall>k s. processed_settings sample_metadata ''aggregations'' (Some ''type'') k = Some s \<longrightarrow>
          singular_is_string s"
  proof (intro allI impI)
    fix k s
    assume p: "processed_settings sample_metadata ''aggregations'' (Some ''type'') k = Some s"
    from processed_settingsD [OF p]
    have k: "k \<in> set [''items'', ''content'', ''gone'', ''rows'']"
      and s: "s = expandDefaultKey (getp (getp sample_metadata ''aggregations'') k) (Some ''type'')"
      by (simp_all add: sample_metadata_keys)
    have "\<forall>k \<in> set [''items'', ''content'', ''gone'', ''rows''].
            singular_is_string
              (expandDefaultKey (getp (getp sample_metadata ''aggregations'') k) (Some ''type''))"
      by code_simp
    with k s show "singular_is_string s" by blast
  qed
  show "\<forall>k s. processed_settings sample_metadata ''associations'' (Some ''type'') k = Some s \<longrightarrow>
          singular_is_string s"
  proof (intro allI impI)
    fix k s
    assume p: "processed_settings sample_metadata ''associations'' (Some ''type'') k = Some s"
    from processed_settingsD [OF p]
    have k: "k \<in> set [''ariaLabels'', ''owner'', ''labelFor'']"
      and s: "s = expandDefaultKey (getp (getp sample_metadata ''associations'') k) (Some ''type'')"
      by (simp_all add: sample_metadata_keys)
    have "\<forall>k \<in> set [''ariaLabels'', ''owner'', ''labelFor''].
            singular_is_string
              (expandDefaultKey (getp (getp sample_metadata ''associations'') k) (Some ''type''))"
      by code_simp
    with k s show "singular_is_string s" by blast
  qed
qed


text \<open>
  Claim C1, as stated, fails for two kinds of entry. An entry with \<open>multiple\<close>
  unset whose \<open>singularName\<close> is the number 5 yields no aggregation: capitalizing
  the singular name raises a TypeError, which ends the call. An entry that is
  \<^verbatim>\<open>null\<close> is skipped and yields no aggregation either.
\<close>

theorem aggregation_singularName_counterexample:
  "collectClassInfo toUpperCase
     (JObj [(''aggregations'', JObj [(''items'', JObj [(''singularName'', JNum 5)])])])
     ''Widget'' = ([], Inl TypeError) \<and>
   aggregation_of (collectClassInfo toUpperCase sample_metadata ''Widget'') ''gone'' = None"
proof -
  have "collectClassInfo toUpperCase
     (JObj [(''aggregations'', JObj [(''items'', JObj [(''singularName'', JNum 5)])])])
     ''Widget'' = ([], Inl TypeError)"
    by code_simp
  moreover have "aggregation_of (collectClassInfo toUpperCase sample_metadata ''Widget'') ''gone'' = None"
    by code_simp
  ultimately show ?thesis by (rule conjI)
qed

text \<open>
  Claim C1, amended. For every aggregation entry whose expanded settings are not
  \<^verbatim>\<open>null\<close>: when \<open>multiple\<close> is unset or \<open>true\<close> and the \<open>singularName\<close> of the
  settings is a string or missing (the type that the \<open>Aggregation\<close> interface
  declares), the record of the aggregation is built, it has cardinality \<open>0..n\<close>
  and its methods are exactly get N, destroy N, insert S, add S, remove S,
  indexOf S and removeAll N; when \<open>multiple\<close> is \<open>false\<close>, the record is built, it
  has cardinality \<open>0..1\<close> and its methods are exactly get N, destroy N and set N.
  In both cases bind N and unbind N are added exactly when \<open>bindable\<close> is set to a
  true value, and the record is the aggregation of that name in the class
  description whenever \<open>collectClassInfo\<close> returns one, and the call does return
  one whenever no map that it enumerates has an entry named \<^verbatim>\<open>hasOwnProperty\<close>
  and the \<open>singularName\<close> of every processed aggregation and association entry
  is a string or missing. N is the name and S the singular name (the explicit
  one, or else the guessed one), each with its first code unit capitalized by the
  runtime's \<^verbatim>\<open>toUpperCase\<close>.
\<close>

theorem aggregation_cardinality_and_methods:
  assumes "n \<in> set (own_keys (getp metadata ''aggregations''))"
    and "settings = expandDefaultKey (getp (getp metadata ''aggregations'') n) (Some ''type'')"
    and "\<not> nullish settings"
  shows "((getp settings ''multiple'' = JUndefined \<or> getp settings ''multiple'' = JBool True) \<and>
          singular_is_string settings \<longrightarrow>
            (\<exists>aggr sn.
               new_aggregation ucase n settings JNull = Inr aggr \<and>
               (\<forall>lg classInfo. collectClassInfo ucase metadata cls = (lg, Inr classInfo) \<longrightarrow>
                  map_of (ClassInfo.aggregations classInfo) n = Some aggr) \<and>
               Aggregation.cardinality aggr = ''0..n'' \<and>
               Aggregation.singularName aggr = JStr sn \<and>
               (getp settings ''singularName'' = JStr sn \<or>
                \<not> truthy (getp settings ''singularName'') \<and> sn = guessSingularName n) \<and>
               Aggregation.methods aggr =
                 [(''get'', ''get'' @ upper ucase n),
                  (''destroy'', ''destroy'' @ upper ucase n),
                  (''insert'', ''insert'' @ upper ucase sn),
                  (''add'', ''add'' @ upper ucase sn),
                  (''remove'', ''remove'' @ upper ucase sn),
                  (''indexOf'', ''indexOf'' @ upper ucase sn),
                  (''removeAll'', ''removeAll'' @ upper ucase n)] @
                 (if truthy (getp settings ''bindable'')
                   then [(''bind'', ''bind'' @ upper ucase n), (''unbind'', ''unbind'' @ upper ucase n)]
                   else []))) \<and>
         (getp settings ''multiple'' = JBool False \<longrightarrow>
            (\<exists>aggr.
               new_aggregation ucase n settings JNull = Inr aggr \<and>
               (\<forall>lg classInfo. collectClassInfo ucase metadata cls = (lg, Inr classInfo) \<longrightarrow>
                  map_of (ClassInfo.aggregations classInfo) n = Some aggr) \<and>
               Aggregation.cardinality aggr = ''0..1'' \<and>
               Aggregation.methods aggr =
                 [(''get'', ''get'' @ upper ucase n),
                  (''destroy'', ''destroy'' @ upper ucase n),
                  (''set'', ''set'' @ upper ucase n)] @
                 (if truthy (getp settings ''bindable'')
                   then [(''bind'', ''bind'' @ upper ucase n), (''unbind'', ''unbind'' @ upper ucase n)]
                   else []))) \<and>
         ((\<forall>m \<in> set (enumerated_maps metadata). \<not> shadows_hasOwnProperty m) \<and>
          (\<forall>k s. processed_settings metadata ''aggregations'' (Some ''type'') k = Some s \<longrightarrow>
                 singular_is_string s) \<and>
          (\<forall>k s. processed_settings metadata ''associations'' (Some ''type'') k = Some s \<longrightarrow>
                 singular_is_string s) \<longrightarrow>
            (\<exists>lg classInfo aggr.
               collectClassInfo ucase metadata cls = (lg, Inr classInfo) \<and>
               new_aggregation ucase n settings JNull = Inr aggr \<and>
               map_of (ClassInfo.aggregations classInfo) n = Some aggr))"
proof -
  have placed: "\<forall>lg classInfo. collectClassInfo ucase metadata cls = (lg, Inr classInfo) \<longrightarrow>
                  map_of (ClassInfo.aggregations classInfo) n = Some aggr"
    if "new_aggregation ucase n settings JNull = Inr aggr" for aggr
  proof (intro allI impI)
    fix lg classInfo
    assume "collectClassInfo ucase metadata cls = (lg, Inr classInfo)"
    from collectClassInfo_aggregations [OF this assms(1)] assms(2,3) that
    show "map_of (ClassInfo.aggregations classInfo) n = Some aggr"
      by auto
  qed
  show ?thesis
  proof (intro conjI impI)
    assume a: "(getp settings ''multiple'' = JUndefined \<or> getp settings ''multiple'' = JBool True) \<and>
          singular_is_string settings"
    then obtain aggr where built: "new_aggregation ucase n settings JNull = Inr aggr"
      using new_aggregation_built [of settings ucase n JNull] by blast
    from new_aggregation_methods [OF built] a placed [OF built] built
    show "\<exists>aggr sn.
               new_aggregation ucase n settings JNull = Inr aggr \<and>
               (\<forall>lg classInfo. collectClassInfo ucase metadata cls = (lg, Inr classInfo) \<longrightarrow>
                  map_of (ClassInfo.aggregations classInfo) n = Some aggr) \<and>
               Aggregation.cardinality aggr = ''0..n'' \<and>
               Aggregation.singularName aggr = JStr sn \<and>
               (getp settings ''singularName'' = JStr sn \<or>
                \<not> truthy (getp settings ''singularName'') \<and> sn = guessSingularName n) \<and>
               Aggregation.methods aggr =
                 [(''get'', ''get'' @ upper ucase n),
                  (''destroy'', ''destroy'' @ upper ucase n),
                  (''insert'', ''insert'' @ upper ucase sn),
                  (''add'', ''add'' @ upper ucase sn),
                  (''remove'', ''remove'' @ upper ucase sn),
                  (''indexOf'', ''indexOf'' @ upper ucase sn),
                  (''removeAll'', ''removeAll'' @ upper ucase n)] @
                 (if truthy (getp settings ''bindable'')
                   then [(''bind'', ''bind'' @ upper ucase n), (''unbind'', ''unbind'' @ upper ucase n)]
                   else [])"
      by blast
  next
    assume a: "getp settings ''multiple'' = JBool False"
    then obtain aggr where built: "new_aggregation ucase n settings JNull = Inr aggr"
      using new_aggregation_built [of settings ucase n JNull] by blast
    from new_aggregation_methods [OF built] a placed [OF built] built
    show "\<exists>aggr.
               new_aggregation ucase n settings JNull = Inr aggr \<and>
               (\<forall>lg classInfo. collectClassInfo ucase metadata cls = (lg, Inr classInfo) \<longrightarrow>
                  map_of (ClassInfo.aggregations classInfo) n = Some aggr) \<and>
               Aggregation.cardinality aggr = ''0..1'' \<and>
               Aggregation.methods aggr =
                 [(''get'', ''get'' @ upper ucase n),
                  (''destroy'', ''destroy'' @ upper ucase n),
                  (''set'', ''set'' @ upper ucase n)] @
                 (if truthy (getp settings ''bindable'')
                   then [(''bind'', ''bind'' @ upper ucase n), (''unbind'', ''unbind'' @ upper ucase n)]
                   else [])"
      by blast
  next
    assume a: "(\<forall>m \<in> set (enumerated_maps metadata). \<not> shadows_hasOwnProperty m) \<and>
          (\<forall>k s. processed_settings metadata ''aggregations'' (Some ''type'') k = Some s \<longrightarrow>
                 singular_is_string s) \<and>
          (\<forall>k s. processed_settings metadata ''associations'' (Some ''type'') k = Some s \<longrightarrow>
                 singular_is_string s)"
    from assms have "processed_settings metadata ''aggregations'' (Some ''type'') n = Some settings"
      by (simp add: processed_settings_def)
    with a have "singular_is_string settings"
      by blast
    then obtain aggr where built: "new_aggregation ucase n settings JNull = Inr aggr"
      using new_aggregation_built [of settings ucase n JNull] by blast
    from a collectClassInfo_returns [of metadata ucase cls] obtain lg classInfo where
      run: "collectClassInfo ucase metadata cls = (lg, Inr classInfo)"
      by blast
    from placed [OF built] run have "map_of (ClassInfo.aggregations classInfo) n = Some aggr"
      by blast
    with run built
    show "\<exists>lg classInfo aggr.
               collectClassInfo ucase metadata cls = (lg, Inr classInfo) \<and>
               new_aggregation ucase n settings JNull = Inr aggr \<and>
               map_of (ClassInfo.aggregations classInfo) n = Some aggr"
      by blast
  qed
qed

lemma oils_metadata_returns:
  "\<exists>lg classInfo. collectClassInfo latin_toUpperCase oils_metadata ''Widget'' = (lg, Inr classInfo)"
proof -
  have "isl (snd (collectClassInfo latin_toUpperCase oils_metadata ''Widget'')) = False"
    by code_simp
  then show ?thesis
    by (cases "collectClassInfo latin_toUpperCase oils_metadata ''Widget''";
        cases "snd (collectClassInfo latin_toUpperCase oils_metadata ''Widget'')") auto
qed

theorem aggregation_cardinality_and_methods_witness:
  "(\<exists>aggr. aggregation_of (collectClassInfo toUpperCase sample_metadata ''Widget'') ''items'' = Some aggr \<and>
      new_aggregation toUpperCase ''items'' (JObj [(''type'', JStr ''sap.m.Item'')]) JNull = Inr aggr \<and>
      Aggregation.cardinality aggr = ''0..n'' \<and>
      Aggregation.methods aggr =
        [(''get'', ''getItems''), (''destroy'', ''destroyItems''), (''insert'', ''insertItem''),
         (''add'', ''addItem''), (''remove'', ''removeItem''), (''indexOf'', ''indexOfItem''),
         (''removeAll'', ''removeAllItems'')]) \<and>
   (\<exists>aggr. aggregation_of (collectClassInfo toUpperCase sample_metadata ''Widget'') ''content'' = Some aggr \<and>
      Aggregation.cardinality aggr = ''0..1'' \<and>
      Aggregation.methods aggr =
        [(''get'', ''getContent''), (''destroy'', ''destroyContent''), (''set'', ''setContent''),
         (''bind'', ''bindContent''), (''unbind'', ''unbindContent'')]) \<and>
   (\<exists>aggr. aggregation_of (collectClassInfo latin_toUpperCase oils_metadata ''Widget'')
              (CHR 0xF6 # ''ls'') = Some aggr \<and>
      Aggregation.cardinality aggr = ''0..n'' \<and>
      Aggregation.methods aggr =
        [(''get'', ''get'' @ CHR 0xD6 # ''ls''), (''destroy'', ''destroy'' @ CHR 0xD6 # ''ls''),
         (''insert'', ''insert'' @ CHR 0xD6 # ''l''), (''add'', ''add'' @ CHR 0xD6 # ''l''),
         (''remove'', ''remove'' @ CHR 0xD6 # ''l''), (''indexOf'', ''indexOf'' @ CHR 0xD6 # ''l''),
         (''removeAll'', ''removeAll'' @ CHR 0xD6 # ''ls'')])"
proof -
  have items: "expandDefaultKey (getp (getp sample_metadata ''aggregations'') ''items'') (Some ''type'') =
               JObj [(''type'', JStr ''sap.m.Item'')]"
    by code_simp
  have content: "expandDefaultKey (getp (getp sample_metadata ''aggregations'') ''content'') (Some ''type'') =
               JObj [(''multiple'', JBool False), (''bindable'', JBool True),
                     (''visibility'', JStr ''hidden'')]"
    by code_simp
  have k1: "''items'' \<in> set (own_keys (getp sample_metadata ''aggregations''))"
    and k2: "''content'' \<in> set (own_keys (getp sample_metadata ''aggregations''))"
    by (simp_all add: sample_metadata_keys)
  have items_settings:
    "getp (JObj [(''type'', JStr ''sap.m.Item'')]) ''multiple'' = JUndefined"
    "singular_is_string (JObj [(''type'', JStr ''sap.m.Item'')])"
    "getp (JObj [(''type'', JStr ''sap.m.Item'')]) ''singularName'' = JUndefined"
    "\<not> truthy (getp (JObj [(''type'', JStr ''sap.m.Item'')]) ''bindable'')"
    by code_simp+
  have content_settings:
    "getp (JObj [(''multiple'', JBool False), (''bindable'', JBool True),
                 (''visibility'', JStr ''hidden'')]) ''multiple'' = JBool False"
    "truthy (getp (JObj [(''multiple'', JBool False), (''bindable'', JBool True),
                 (''visibility'', JStr ''hidden'')]) ''bindable'')"
    by code_simp+
  have names: "guessSingularName ''items'' = ''item''"
    "upper toUpperCase ''items'' = ''Items''" "upper toUpperCase ''item'' = ''Item''"
    "upper toUpperCase ''content'' = ''Content''"
    by code_simp+
  have nn: "\<not> nullish (JObj [(''type'', JStr ''sap.m.Item'')])"
    by simp
  from aggregation_cardinality_and_methods [OF k1 items [symmetric] nn, of toUpperCase "''Widget''"]
    sample_metadata_well_formed
  obtain lg classInfo where
    run: "collectClassInfo toUpperCase sample_metadata ''Widget'' = (lg, Inr classInfo)"
    by blast
  from aggregation_cardinality_and_methods [OF k1 items [symmetric], of toUpperCase "''Widget''"]
    items_settings
  obtain aggr sn where
    a1: "new_aggregation toUpperCase ''items'' (JObj [(''type'', JStr ''sap.m.Item'')]) JNull = Inr aggr"
    and a2: "\<forall>lg classInfo. collectClassInfo toUpperCase sample_metadata ''Widget'' = (lg, Inr classInfo) \<longrightarrow>
                  map_of (ClassInfo.aggregations classInfo) ''items'' = Some aggr"
    and a3: "Aggregation.cardinality aggr = ''0..n''"
    and a4: "sn = guessSingularName ''items''"
    and a5: "Aggregation.methods aggr =
                 [(''get'', ''get'' @ upper toUpperCase ''items''),
                  (''destroy'', ''destroy'' @ upper toUpperCase ''items''),
                  (''insert'', ''insert'' @ upper toUpperCase sn),
                  (''add'', ''add'' @ upper toUpperCase sn),
                  (''remove'', ''remove'' @ upper toUpperCase sn),
                  (''indexOf'', ''indexOf'' @ upper toUpperCase sn),
                  (''removeAll'', ''removeAll'' @ upper toUpperCase ''items'')]"
    by auto
  from a2 run have "map_of (ClassInfo.aggregations classInfo) ''items'' = Some aggr"
    by blast
  with a1 a3 a4 a5 have first:
    "\<exists>aggr. aggregation_of (collectClassInfo toUpperCase sample_metadata ''Widget'') ''items'' = Some aggr \<and>
      new_aggregation toUpperCase ''items'' (JObj [(''type'', JStr ''sap.m.Item'')]) JNull = Inr aggr \<and>
      Aggregation.cardinality aggr = ''0..n'' \<and>
      Aggregation.methods aggr =
        [(''get'', ''getItems''), (''destroy'', ''destroyItems''), (''insert'', ''insertItem''),
         (''add'', ''addItem''), (''remove'', ''removeItem''), (''indexOf'', ''indexOfItem''),
         (''removeAll'', ''removeAllItems'')]"
    by (simp add: aggregation_of_def run names)
  from aggregation_cardinality_and_methods [OF k2 content [symmetric], of toUpperCase "''Widget''"]
    content_settings
  obtain aggr2 where
    b2: "\<forall>lg classInfo. collectClassInfo toUpperCase sample_metadata ''Widget'' = (lg, Inr classInfo) \<longrightarrow>
                  map_of (ClassInfo.aggregations classInfo) ''content'' = Some aggr2"
    and b3: "Aggregation.cardinality aggr2 = ''0..1''"
    and b5: "Aggregation.methods aggr2 =
                 [(''get'', ''get'' @ upper toUpperCase ''content''),
                  (''destroy'', ''destroy'' @ upper toUpperCase ''content''),
                  (''set'', ''set'' @ upper toUpperCase ''content''),
                  (''bind'', ''bind'' @ upper toUpperCase ''content''),
                  (''unbind'', ''unbind'' @ upper toUpperCase ''content'')]"
    by auto
  from b2 run have "map_of (ClassInfo.aggregations classInfo) ''content'' = Some aggr2"
    by blast
  with b3 b5 have second:
    "\<exists>aggr. aggregation_of (collectClassInfo toUpperCase sample_metadata ''Widget'') ''content'' = Some aggr \<and>
      Aggregation.cardinality aggr = ''0..1'' \<and>
      Aggregation.methods aggr =
        [(''get'', ''getContent''), (''destroy'', ''destroyContent''), (''set'', ''setContent''),
         (''bind'', ''bindContent''), (''unbind'', ''unbindContent'')]"
    by (simp add: aggregation_of_def run names)
  from oils_metadata_returns obtain lg3 classInfo3 where
    run3: "collectClassInfo latin_toUpperCase oils_metadata ''Widget'' = (lg3, Inr classInfo3)"
    by blast
  have k3: "CHR 0xF6 # ''ls'' \<in> set (own_keys (getp oils_metadata ''aggregations''))"
    by code_simp
  have oils: "expandDefaultKey (getp (getp oils_metadata ''aggregations'') (CHR 0xF6 # ''ls''))
                (Some ''type'') = JObj []"
    by code_simp
  have oils_settings:
    "getp (JObj []) ''multiple'' = JUndefined" "singular_is_string (JObj [])"
    "getp (JObj []) ''singularName'' = JUndefined" "\<not> truthy (getp (JObj []) ''bindable'')"
    by code_simp+
  have oils_names: "guessSingularName (CHR 0xF6 # ''ls'') = CHR 0xF6 # ''l''"
    "upper latin_toUpperCase (CHR 0xF6 # ''ls'') = CHR 0xD6 # ''ls''"
    "upper latin_toUpperCase (CHR 0xF6 # ''l'') = CHR 0xD6 # ''l''"
    by code_simp+
  from aggregation_cardinality_and_methods [OF k3 oils [symmetric], of latin_toUpperCase "''Widget''"]
    oils_settings
  obtain aggr3 sn3 where
    c2: "\<forall>lg classInfo. collectClassInfo latin_toUpperCase oils_metadata ''Widget'' = (lg, Inr classInfo) \<longrightarrow>
                  map_of (ClassInfo.aggregations classInfo) (CHR 0xF6 # ''ls'') = Some aggr3"
    and c3: "Aggregation.cardinality aggr3 = ''0..n''"
    and c4: "sn3 = guessSingularName (CHR 0xF6 # ''ls'')"
    and c5: "Aggregation.methods aggr3 =
                 [(''get'', ''get'' @ upper latin_toUpperCase (CHR 0xF6 # ''ls'')),
                  (''destroy'', ''destroy'' @ upper latin_toUpperCase (CHR 0xF6 # ''ls'')),
                  (''insert'', ''insert'' @ upper latin_toUpperCase sn3),
                  (''add'', ''add'' @ upper latin_toUpperCase sn3),
                  (''remove'', ''remove'' @ upper latin_toUpperCase sn3),
                  (''indexOf'', ''indexOf'' @ upper latin_toUpperCase sn3),
                  (''removeAll'', ''removeAll'' @ upper latin_toUpperCase (CHR 0xF6 # ''ls''))]"
    by auto
  from c2 run3 have "map_of (ClassInfo.aggregations classInfo3) (CHR 0xF6 # ''ls'') = Some aggr3"
    by blast
  with c3 c4 c5 have third:
    "\<exists>aggr. aggregation_of (collectClassInfo latin_toUpperCase oils_metadata ''Widget'')
              (CHR 0xF6 # ''ls'') = Some aggr \<and>
      Aggregation.cardinality aggr = ''0..n'' \<and>
      Aggregation.methods aggr =
        [(''get'', ''get'' @ CHR 0xD6 # ''ls''), (''destroy'', ''destroy'' @ CHR 0xD6 # ''ls''),
         (''insert'', ''insert'' @ CHR 0xD6 # ''l''), (''add'', ''add'' @ CHR 0xD6 # ''l''),
         (''remove'', ''remove'' @ CHR 0xD6 # ''l''), (''indexOf'', ''indexOf'' @ CHR 0xD6 # ''l''),
         (''removeAll'', ''removeAll'' @ CHR 0xD6 # ''ls'')]"
    by (simp add: aggregation_of_def run3 oils_names)
  from first second third show ?thesis by blast
qed
lemma new_association_methods:
  assumes "new_association ucase n settings JNull = Inr assoc"
  shows "(getp settings ''multiple'' = JUndefined \<or> getp settings ''multiple'' = JBool False \<longrightarrow>
            Association.cardinality assoc = ''0..1'' \<and>
            Association.methods assoc =
              [(''get'', ''get'' @ upper ucase n), (''set'', ''set'' @ upper ucase n)]) \<and>
         (getp settings ''multiple'' = JBool True \<longrightarrow>
            Association.cardinality assoc = ''0..n'' \<and>
            (\<exists>sn. Association.singularName assoc = JStr sn \<and>
                  (getp settings ''singularName'' = JStr sn \<or>
                   \<not> truthy (getp settings ''singularName'') \<and> sn = guessSingularName n) \<and>
                  Association.methods assoc =
                    [(''get'', ''get'' @ upper ucase n),
                     (''add'', ''add'' @ upper ucase sn),
                     (''remove'', ''remove'' @ upper ucase sn),
                     (''removeAll'', ''removeAll'' @ upper ucase n)]))"
proof (intro conjI impI)
  assume m: "getp settings ''multiple'' = JBool True"
  let ?sn = "if truthy (getp settings ''singularName'') then getp settings ''singularName''
             else JStr (guessSingularName n)"
  from assms m obtain S where S: "upper_val ucase ?sn = Inr S"
    by (cases "upper_val ucase ?sn") (simp_all add: new_association_def Let_def js_and_def)
  then obtain sn where sn: "?sn = JStr sn" "S = upper ucase sn"
    by (cases ?sn) simp_all
  from sn(1) have explicit: "getp settings ''singularName'' = JStr sn \<or>
                   \<not> truthy (getp settings ''singularName'') \<and> sn = guessSingularName n"
    by (auto split: if_splits)
  from assms m S sn show "Association.cardinality assoc = ''0..n''"
    by (auto simp: new_association_def Let_def js_and_def)
  from assms m S sn(2) have "Association.singularName assoc = ?sn"
    by (auto simp: new_association_def Let_def js_and_def)
  moreover from assms m S sn(2) have "Association.methods assoc =
                    [(''get'', ''get'' @ upper ucase n),
                     (''add'', ''add'' @ upper ucase sn),
                     (''remove'', ''remove'' @ upper ucase sn),
                     (''removeAll'', ''removeAll'' @ upper ucase n)]"
    by (auto simp: new_association_def Let_def js_and_def)
  ultimately show "\<exists>sn. Association.singularName assoc = JStr sn \<and>
                  (getp settings ''singularName'' = JStr sn \<or>
                   \<not> truthy (getp settings ''singularName'') \<and> sn = guessSingularName n) \<and>
                  Association.methods assoc =
                    [(''get'', ''get'' @ upper ucase n),
                     (''add'', ''add'' @ upper ucase sn),
                     (''remove'', ''remove'' @ upper ucase sn),
                     (''removeAll'', ''removeAll'' @ upper ucase n)]"
    using sn(1) explicit by metis
next
  assume m: "getp settings ''multiple'' = JUndefined \<or> getp settings ''multiple'' = JBool False"
  with assms show "Association.cardinality assoc = ''0..1''"
    by (auto simp: new_association_def Let_def js_and_def)
  from m assms show "Association.methods assoc =
              [(''get'', ''get'' @ upper ucase n), (''set'', ''set'' @ upper ucase n)]"
    by (auto simp: new_association_def Let_def js_and_def)
qed

text \<open>
  Claim C2, as stated, fails for an association entry with \<open>multiple\<close> set to
  \<open>true\<close> whose \<open>singularName\<close> is not a string, here the value \<open>true\<close>: no
  association results, since capitalizing the singular name raises a TypeError,
  which ends the call.
\<close>

theorem association_singularName_counterexample:
  "collectClassInfo toUpperCase
     (JObj [(''associations'',
        JObj [(''labels'', JObj [(''multiple'', JBool True), (''singularName'', JBool True)])])])
     ''Widget'' = ([], Inl TypeError)"
  by code_simp

text \<open>
  Claim C2, amended. For every association entry whose expanded settings are not
  \<^verbatim>\<open>null\<close>: when \<open>multiple\<close> is unset or \<open>false\<close>, the record of the association
  is built, it has cardinality \<open>0..1\<close> and its methods are exactly get N and
  set N; when \<open>multiple\<close> is \<open>true\<close> and the \<open>singularName\<close> of the settings is a
  string or missing (the type that the \<open>Association\<close> interface declares), the
  record is built, it has cardinality \<open>0..n\<close> and its methods are exactly get N,
  add S, remove S and removeAll N, with no insert, indexOf, destroy, bind or
  unbind. In both cases the record is the association of that name in the class
  description whenever \<open>collectClassInfo\<close> returns one, and the call does return
  one whenever no map that it enumerates has an entry named \<^verbatim>\<open>hasOwnProperty\<close>
  and the \<open>singularName\<close> of every processed aggregation and association entry
  is a string or missing. The default for an unset
  \<open>multiple\<close> is \<open>0..1\<close>, the opposite of the default of an aggregation. N is the
  name and S the singular name (the explicit one, or else the guessed one), each
  with its first code unit capitalized by the runtime's \<^verbatim>\<open>toUpperCase\<close>.
\<close>

theorem association_cardinality_and_methods:
  assumes "n \<in> set (own_keys (getp metadata ''associations''))"
    and "settings = expandDefaultKey (getp (getp metadata ''associations'') n) (Some ''type'')"
    and "\<not> nullish settings"
  shows "(getp settings ''multiple'' = JUndefined \<or> getp settings ''multiple'' = JBool False \<longrightarrow>
            (\<exists>assoc.
               new_association ucase n settings JNull = Inr assoc \<and>
               (\<forall>lg classInfo. collectClassInfo ucase metadata cls = (lg, Inr classInfo) \<longrightarrow>
                  map_of (ClassInfo.associations classInfo) n = Some assoc) \<and>
               Association.cardinality assoc = ''0..1'' \<and>
               Association.methods assoc =
                 [(''get'', ''get'' @ upper ucase n), (''set'', ''set'' @ upper ucase n)])) \<and>
         (getp settings ''multiple'' = JBool True \<and> singular_is_string settings \<longrightarrow>
            (\<exists>assoc sn.
               new_association ucase n settings JNull = Inr assoc \<and>
               (\<forall>lg classInfo. collectClassInfo ucase metadata cls = (lg, Inr classInfo) \<longrightarrow>
                  map_of (ClassInfo.associations classInfo) n = Some assoc) \<and>
               Association.cardinality assoc = ''0..n'' \<and>
               Association.singularName assoc = JStr sn \<and>
               (getp settings ''singularName'' = JStr sn \<or>
                \<not> truthy (getp settings ''singularName'') \<and> sn = guessSingularName n) \<and>
               Association.methods assoc =
                 [(''get'', ''get'' @ upper ucase n),
                  (''add'', ''add'' @ upper ucase sn),
                  (''remove'', ''remove'' @ upper ucase sn),
                  (''removeAll'', ''removeAll'' @ upper ucase n)])) \<and>
         ((\<forall>m \<in> set (enumerated_maps metadata). \<not> shadows_hasOwnProperty m) \<and>
          (\<forall>k s. processed_settings metadata ''aggregations'' (Some ''type'') k = Some s \<longrightarrow>
                 singular_is_string s) \<and>
          (\<forall>k s. processed_settings metadata ''associations'' (Some ''type'') k = Some s \<longrightarrow>
                 singular_is_string s) \<longrightarrow>
            (\<exists>lg classInfo assoc.
               collectClassInfo ucase metadata cls = (lg, Inr classInfo) \<and>
               new_association ucase n settings JNull = Inr assoc \<and>
               map_of (ClassInfo.associations classInfo) n = Some assoc))"
proof -
  have placed: "\<forall>lg classInfo. collectClassInfo ucase metadata cls = (lg, Inr classInfo) \<longrightarrow>
                  map_of (ClassInfo.associations classInfo) n = Some assoc"
    if "new_association ucase n settings JNull = Inr assoc" for assoc
  proof (intro allI impI)
    fix lg classInfo
    assume "collectClassInfo ucase metadata cls = (lg, Inr classInfo)"
    from collectClassInfo_associations [OF this assms(1)] assms(2,3) that
    show "map_of (ClassInfo.associations classInfo) n = Some assoc"
      by auto
  qed
  show ?thesis
  proof (intro conjI impI)
    assume a: "getp settings ''multiple'' = JUndefined \<or> getp settings ''multiple'' = JBool False"
    then obtain assoc where built: "new_association ucase n settings JNull = Inr assoc"
      using new_association_built [of settings ucase n JNull] by blast
    from new_association_methods [OF built] a placed [OF built] built
    show "\<exists>assoc.
               new_association ucase n settings JNull = Inr assoc \<and>
               (\<forall>lg classInfo. collectClassInfo ucase metadata cls = (lg, Inr classInfo) \<longrightarrow>
                  map_of (ClassInfo.associations classInfo) n = Some assoc) \<and>
               Association.cardinality assoc = ''0..1'' \<and>
               Association.methods assoc =
                 [(''get'', ''get'' @ upper ucase n), (''set'', ''set'' @ upper ucase n)]"
      by blast
  next
    assume a: "getp settings ''multiple'' = JBool True \<and> singular_is_string settings"
    then obtain assoc where built: "new_association ucase n settings JNull = Inr assoc"
      using new_association_built [of settings ucase n JNull] by blast
    from new_association_methods [OF built] a placed [OF built] built
    show "\<exists>assoc sn.
               new_association ucase n settings JNull = Inr assoc \<and>
               (\<forall>lg classInfo. collectClassInfo ucase metadata cls = (lg, Inr classInfo) \<longrightarrow>
                  map_of (ClassInfo.associations classInfo) n = Some assoc) \<and>
               Association.cardinality assoc = ''0..n'' \<and>
               Association.singularName assoc = JStr sn \<and>
               (getp settings ''singularName'' = JStr sn \<or>
                \<not> truthy (getp settings ''singularName'') \<and> sn = guessSingularName n) \<and>
               Association.methods assoc =
                 [(''get'', ''get'' @ upper ucase n),
                  (''add'', ''add'' @ upper ucase sn),
                  (''remove'', ''remove'' @ upper ucase sn),
                  (''removeAll'', ''removeAll'' @ upper ucase n)]"
      by blast
  next
    assume a: "(\<forall>m \<in> set (enumerated_maps metadata). \<not> shadows_hasOwnProperty m) \<and>
          (\<forall>k s. processed_settings metadata ''aggregations'' (Some ''type'') k = Some s \<longrightarrow>
                 singular_is_string s) \<and>
          (\<forall>k s. processed_settings metadata ''associations'' (Some ''type'') k = Some s \<longrightarrow>
                 singular_is_string s)"
    from assms have "processed_settings metadata ''associations'' (Some ''type'') n = Some settings"
      by (simp add: processed_settings_def)
    with a have "singular_is_string settings"
      by blast
    then obtain assoc where built: "new_association ucase n settings JNull = Inr assoc"
      using new_association_built [of settings ucase n JNull] by blast
    from a collectClassInfo_returns [of metadata ucase cls] obtain lg classInfo where
      run: "collectClassInfo ucase metadata cls = (lg, Inr classInfo)"
      by blast
    from placed [OF built] run have "map_of (ClassInfo.associations classInfo) n = Some assoc"
      by blast
    with run built
    show "\<exists>lg classInfo assoc.
               collectClassInfo ucase metadata cls = (lg, Inr classInfo) \<and>
               new_association ucase n settings JNull = Inr assoc \<and>
               map_of (ClassInfo.associations classInfo) n = Some assoc"
      by blast
  qed
qed

theorem association_cardinality_and_methods_witness:
  "(\<exists>assoc. association_of (collectClassInfo toUpperCase sample_metadata ''Widget'') ''ariaLabels'' = Some assoc \<and>
      Association.cardinality assoc = ''0..n'' \<and>
      Association.methods assoc =
        [(''get'', ''getAriaLabels''), (''add'', ''addAriaLabel''),
         (''remove'', ''removeAriaLabel''), (''removeAll'', ''removeAllAriaLabels'')]) \<and>
   (\<exists>assoc. association_of (collectClassInfo toUpperCase sample_metadata ''Widget'') ''labelFor'' = Some assoc \<and>
      Association.cardinality assoc = ''0..1'' \<and>
      Association.methods assoc = [(''get'', ''getLabelFor''), (''set'', ''setLabelFor'')])"
proof -
  have labels: "expandDefaultKey (getp (getp sample_metadata ''associations'') ''ariaLabels'') (Some ''type'') =
               JObj [(''multiple'', JBool True), (''singularName'', JStr ''ariaLabel'')]"
    by code_simp
  have labelFor: "expandDefaultKey (getp (getp sample_metadata ''associations'') ''labelFor'') (Some ''type'') =
               JObj [(''visibility'', JStr ''hidden'')]"
    by code_simp
  have labels_settings:
    "getp (JObj [(''multiple'', JBool True), (''singularName'', JStr ''ariaLabel'')]) ''multiple'' = JBool True"
    "singular_is_string (JObj [(''multiple'', JBool True), (''singularName'', JStr ''ariaLabel'')])"
    "getp (JObj [(''multiple'', JBool True), (''singularName'', JStr ''ariaLabel'')]) ''singularName'' =
       JStr ''ariaLabel''"
    by code_simp+
  have labelFor_settings:
    "getp (JObj [(''visibility'', JStr ''hidden'')]) ''multiple'' = JUndefined"
    by code_simp
  have up: "upper toUpperCase ''ariaLabels'' = ''AriaLabels''"
    "upper toUpperCase ''ariaLabel'' = ''AriaLabel''"
    "upper toUpperCase ''labelFor'' = ''LabelFor''"
    by code_simp+
  have k1: "''ariaLabels'' \<in> set (own_keys (getp sample_metadata ''associations''))"
    and k2: "''labelFor'' \<in> set (own_keys (getp sample_metadata ''associations''))"
    by (simp_all add: sample_metadata_keys)
  have nn: "\<not> nullish (JObj [(''multiple'', JBool True), (''singularName'', JStr ''ariaLabel'')])"
    by simp
  from association_cardinality_and_methods [OF k1 labels [symmetric] nn, of toUpperCase "''Widget''"]
    sample_metadata_well_formed
  obtain lg classInfo where
    run: "collectClassInfo toUpperCase sample_metadata ''Widget'' = (lg, Inr classInfo)"
    by blast
  from association_cardinality_and_methods [OF k1 labels [symmetric], of toUpperCase "''Widget''"]
    labels_settings
  obtain assoc sn where
    a2: "\<forall>lg classInfo. collectClassInfo toUpperCase sample_metadata ''Widget'' = (lg, Inr classInfo) \<longrightarrow>
                  map_of (ClassInfo.associations classInfo) ''ariaLabels'' = Some assoc"
    and a3: "Association.cardinality assoc = ''0..n''"
    and a4: "sn = ''ariaLabel''"
    and a5: "Association.methods assoc =
                 [(''get'', ''get'' @ upper toUpperCase ''ariaLabels''),
                  (''add'', ''add'' @ upper toUpperCase sn),
                  (''remove'', ''remove'' @ upper toUpperCase sn),
                  (''removeAll'', ''removeAll'' @ upper toUpperCase ''ariaLabels'')]"
    by auto
  from a2 run have "map_of (ClassInfo.associations classInfo) ''ariaLabels'' = Some assoc"
    by blast
  with a3 a4 a5 have first:
    "\<exists>assoc. association_of (collectClassInfo toUpperCase sample_metadata ''Widget'') ''ariaLabels'' = Some assoc \<and>
      Association.cardinality assoc = ''0..n'' \<and>
      Association.methods assoc =
        [(''get'', ''getAriaLabels''), (''add'', ''addAriaLabel''),
         (''remove'', ''removeAriaLabel''), (''removeAll'', ''removeAllAriaLabels'')]"
    by (simp add: association_of_def run up)
  from association_cardinality_and_methods [OF k2 labelFor [symmetric], of toUpperCase "''Widget''"]
    labelFor_settings
  obtain assoc2 where
    b2: "\<forall>lg classInfo. collectClassInfo toUpperCase sample_metadata ''Widget'' = (lg, Inr classInfo) \<longrightarrow>
                  map_of (ClassInfo.associations classInfo) ''labelFor'' = Some assoc2"
    and b3: "Association.cardinality assoc2 = ''0..1''"
    and b5: "Association.methods assoc2 =
                 [(''get'', ''get'' @ upper toUpperCase ''labelFor''),
                  (''set'', ''set'' @ upper toUpperCase ''labelFor'')]"
    by auto
  from b2 run have "map_of (ClassInfo.associations classInfo) ''labelFor'' = Some assoc2"
    by blast
  with b3 b5 have second:
    "\<exists>assoc. association_of (collectClassInfo toUpperCase sample_metadata ''Widget'') ''labelFor'' = Some assoc \<and>
      Association.cardinality assoc = ''0..1'' \<and>
      Association.methods assoc = [(''get'', ''getLabelFor''), (''set'', ''setLabelFor'')]"
    by (simp add: association_of_def run up)
  from first second show ?thesis by (rule conjI)
qed

section \<open>Defaults of type and visibility\<close>

lemma collectClassInfo_property:
  assumes "collectClassInfo ucase metadata cls = (lg, Inr classInfo)"
    and "processed_settings metadata ''properties'' (Some ''type'') n = Some s"
  shows "map_of (ClassInfo.properties classInfo) n = Some (new_property ucase n s JNull)"
  using collectClassInfo_properties [OF assms(1), of n] processed_settingsD [OF assms(2)]
  by auto

lemma collectClassInfo_specialSetting:
  assumes "collectClassInfo ucase metadata cls = (lg, Inr classInfo)"
    and "processed_settings metadata ''specialSettings'' (Some ''type'') n = Some s"
  shows "map_of (ClassInfo.specialSettings classInfo) n = Some (new_specialSetting n s JNull)"
  using collectClassInfo_specialSettings [OF assms(1), of n] processed_settingsD [OF assms(2)]
  by auto

lemma collectClassInfo_aggregation:
  assumes "collectClassInfo ucase metadata cls = (lg, Inr classInfo)"
    and "processed_settings metadata ''aggregations'' (Some ''type'') n = Some s"
  shows "\<exists>aggr. map_of (ClassInfo.aggregations classInfo) n = Some aggr \<and>
                new_aggregation ucase n s JNull = Inr aggr"
  using collectClassInfo_aggregations [OF assms(1), of n] processed_settingsD [OF assms(2)]
  by auto

lemma collectClassInfo_association:
  assumes "collectClassInfo ucase metadata cls = (lg, Inr classInfo)"
    and "processed_settings metadata ''associations'' (Some ''type'') n = Some s"
  shows "\<exists>assoc. map_of (ClassInfo.associations classInfo) n = Some assoc \<and>
                new_association ucase n s JNull = Inr assoc"
  using collectClassInfo_associations [OF assms(1), of n] processed_settingsD [OF assms(2)]
  by auto

lemma collectClassInfo_event:
  assumes "collectClassInfo ucase metadata cls = (lg, Inr classInfo)"
    and "processed_settings metadata ''events'' None n = Some s"
  shows "\<exists>ev params. map_of (ClassInfo.events classInfo) n = Some ev \<and>
                ev = (new_event ucase n s JNull)\<lparr> UI5Event.parameters := params \<rparr>"
  using collectClassInfo_events [OF assms(1), of n] processed_settingsD [OF assms(2)]
  by auto

lemma new_aggregation_fields:
  "new_aggregation ucase n s d = Inr aggr \<Longrightarrow>
   Aggregation.type aggr =
     (if truthy (getp s ''type'') then getp s ''type'' else JStr ''sap.ui.core.Control'') \<and>
   Aggregation.visibility aggr =
     (if truthy (getp s ''visibility'') then getp s ''visibility'' else JStr ''public'')"
  by (auto simp: new_aggregation_def Let_def js_or_def js_and_def split: if_splits sum.splits)

lemma new_association_fields:
  "new_association ucase n s d = Inr assoc \<Longrightarrow>
   Association.type assoc =
     (if truthy (getp s ''type'') then getp s ''type'' else JStr ''sap.ui.core.Control'') \<and>
   Association.visibility assoc =
     (if truthy (getp s ''visibility'') then getp s ''visibility'' else JStr ''public'')"
  by (auto simp: new_association_def Let_def js_or_def js_and_def split: if_splits sum.splits)

lemma new_property_fields:
  "Property.type (new_property ucase n s d) =
     (if truthy (getp s ''type'') then getp s ''type'' else JStr ''string'') \<and>
   Property.visibility (new_property ucase n s d) =
     (if truthy (getp s ''visibility'') then getp s ''visibility'' else JStr ''public'')"
  by (simp add: new_property_def Let_def js_or_def)

lemma new_specialSetting_fields:
  "SpecialSetting.visibility (new_specialSetting n s d) =
     (if truthy (getp s ''visibility'') then getp s ''visibility'' else JStr ''public'')"
  by (simp add: new_specialSetting_def js_or_def js_and_def)

lemma new_event_visibility:
  "UI5Event.visibility ((new_event ucase n s d)\<lparr> UI5Event.parameters := params \<rparr>) = JStr ''public''"
  by (simp add: new_event_def Let_def)

text \<open>
  Claim C7, as stated, fails: the default type of an aggregation and of an
  association is a constant of the code. The call has the metadata and the class
  name as its only arguments, and neither holds the name that the result has.
\<close>

theorem default_type_hard_coded_counterexample:
  "map_option Aggregation.type
     (aggregation_of
        (collectClassInfo toUpperCase (JObj [(''aggregations'', JObj [(''content'', JObj [])])]) ''my.Widget'')
        ''content'') = Some (JStr ''sap.ui.core.Control'') \<and>
   map_option Association.type
     (association_of
        (collectClassInfo toUpperCase (JObj [(''associations'', JObj [(''owner'', JObj [])])]) ''other.Thing'')
        ''owner'') = Some (JStr ''sap.ui.core.Control'')"
proof -
  have "map_option Aggregation.type
     (aggregation_of
        (collectClassInfo toUpperCase (JObj [(''aggregations'', JObj [(''content'', JObj [])])]) ''my.Widget'')
        ''content'') = Some (JStr ''sap.ui.core.Control'')"
    by code_simp
  moreover have "map_option Association.type
     (association_of
        (collectClassInfo toUpperCase (JObj [(''associations'', JObj [(''owner'', JObj [])])]) ''other.Thing'')
        ''owner'') = Some (JStr ''sap.ui.core.Control'')"
    by code_simp
  ultimately show ?thesis by (rule conjI)
qed

text \<open>
  Claim C7, amended. For every aggregation or association entry that is processed
  and whose settings have no \<open>type\<close>, the type of the result is the constant
  \<open>sap.ui.core.Control\<close>, which is written in the code; the type of a property
  without a \<open>type\<close> is \<open>string\<close>; and the visibility of a property, an
  aggregation, an association and a special setting without a \<open>visibility\<close> is
  \<open>public\<close>, as is the visibility of every event.
\<close>

theorem default_type_and_visibility:
  assumes "collectClassInfo ucase metadata cls = (lg, Inr classInfo)"
  shows "(processed_settings metadata ''aggregations'' (Some ''type'') n = Some s \<longrightarrow>
            (\<exists>aggr. map_of (ClassInfo.aggregations classInfo) n = Some aggr \<and>
               (getp s ''type'' = JUndefined \<longrightarrow>
                  Aggregation.type aggr = JStr ''sap.ui.core.Control'') \<and>
               (getp s ''visibility'' = JUndefined \<longrightarrow>
                  Aggregation.visibility aggr = JStr ''public''))) \<and>
         (processed_settings metadata ''associations'' (Some ''type'') n = Some s \<longrightarrow>
            (\<exists>assoc. map_of (ClassInfo.associations classInfo) n = Some assoc \<and>
               (getp s ''type'' = JUndefined \<longrightarrow>
                  Association.type assoc = JStr ''sap.ui.core.Control'') \<and>
               (getp s ''visibility'' = JUndefined \<longrightarrow>
                  Association.visibility assoc = JStr ''public''))) \<and>
         (processed_settings metadata ''properties'' (Some ''type'') n = Some s \<longrightarrow>
            (\<exists>p. map_of (ClassInfo.properties classInfo) n = Some p \<and>
               (getp s ''type'' = JUndefined \<longrightarrow> Property.type p = JStr ''string'') \<and>
               (getp s ''visibility'' = JUndefined \<longrightarrow>
                  Property.visibility p = JStr ''public''))) \<and>
         (processed_settings metadata ''specialSettings'' (Some ''type'') n = Some s \<longrightarrow>
            (\<exists>sp. map_of (ClassInfo.specialSettings classInfo) n = Some sp \<and>
               (getp s ''visibility'' = JUndefined \<longrightarrow>
                  SpecialSetting.visibility sp = JStr ''public''))) \<and>
         (processed_settings metadata ''events'' None n = Some s \<longrightarrow>
            (\<exists>ev. map_of (ClassInfo.events classInfo) n = Some ev \<and>
               UI5Event.visibility ev = JStr ''public''))"
proof (intro conjI impI)
  assume "processed_settings metadata ''aggregations'' (Some ''type'') n = Some s"
  from collectClassInfo_aggregation [OF assms this] obtain aggr where
    "map_of (ClassInfo.aggregations classInfo) n = Some aggr" "new_aggregation ucase n s JNull = Inr aggr"
    by blast
  with new_aggregation_fields [of ucase n s JNull aggr]
  show "\<exists>aggr. map_of (ClassInfo.aggregations classInfo) n = Some aggr \<and>
               (getp s ''type'' = JUndefined \<longrightarrow>
                  Aggregation.type aggr = JStr ''sap.ui.core.Control'') \<and>
               (getp s ''visibility'' = JUndefined \<longrightarrow>
                  Aggregation.visibility aggr = JStr ''public'')"
    by auto
next
  assume "processed_settings metadata ''associations'' (Some ''type'') n = Some s"
  from collectClassInfo_association [OF assms this] obtain assoc where
    "map_of (ClassInfo.associations classInfo) n = Some assoc"
    "new_association ucase n s JNull = Inr assoc"
    by blast
  with new_association_fields [of ucase n s JNull assoc]
  show "\<exists>assoc. map_of (ClassInfo.associations classInfo) n = Some assoc \<and>
               (getp s ''type'' = JUndefined \<longrightarrow>
                  Association.type assoc = JStr ''sap.ui.core.Control'') \<and>
               (getp s ''visibility'' = JUndefined \<longrightarrow>
                  Association.visibility assoc = JStr ''public'')"
    by auto
next
  assume "processed_settings metadata ''properties'' (Some ''type'') n = Some s"
  from collectClassInfo_property [OF assms this] new_property_fields [of ucase n s JNull]
  show "\<exists>p. map_of (ClassInfo.properties classInfo) n = Some p \<and>
               (getp s ''type'' = JUndefined \<longrightarrow> Property.type p = JStr ''string'') \<and>
               (getp s ''visibility'' = JUndefined \<longrightarrow>
                  Property.visibility p = JStr ''public'')"
    by auto
next
  assume "processed_settings metadata ''specialSettings'' (Some ''type'') n = Some s"
  from collectClassInfo_specialSetting [OF assms this] new_specialSetting_fields [of n s JNull]
  show "\<exists>sp. map_of (ClassInfo.specialSettings classInfo) n = Some sp \<and>
               (getp s ''visibility'' = JUndefined \<longrightarrow>
                  SpecialSetting.visibility sp = JStr ''public'')"
    by auto
next
  assume "processed_settings metadata ''events'' None n = Some s"
  from collectClassInfo_event [OF assms this] new_event_visibility
  show "\<exists>ev. map_of (ClassInfo.events classInfo) n = Some ev \<and>
               UI5Event.visibility ev = JStr ''public''"
    by auto
qed

lemma sample_processed:
  "processed_settings sample_metadata ''aggregations'' (Some ''type'') ''rows'' = Some (JArr [])"
  "processed_settings sample_metadata ''associations'' (Some ''type'') ''owner'' =
     Some (JObj [(''multiple'', JBool False)])"
  "processed_settings sample_metadata ''associations'' (Some ''type'') ''labelFor'' =
     Some (JObj [(''visibility'', JStr ''hidden'')])"
  "processed_settings sample_metadata ''aggregations'' (Some ''type'') ''content'' =
     Some (JObj [(''multiple'', JBool False), (''bindable'', JBool True),
                 (''visibility'', JStr ''hidden'')])"
  "processed_settings sample_metadata ''properties'' (Some ''type'') ''text'' =
     Some (JObj [(''type'', JStr ''string'')])"
  "processed_settings sample_metadata ''properties'' (Some ''type'') ''width'' =
     Some (JObj [(''type'', JStr ''sap.ui.core.CSSSize''), (''visibility'', JStr ''hidden''),
                 (''bindable'', JBool True)])"
  "processed_settings sample_metadata ''events'' None ''press'' =
     Some (JObj [(''visibility'', JStr ''hidden'')])"
  "processed_settings sample_metadata ''events'' None ''change'' = Some (JStr ''whatever'')"
  by code_simp+

theorem default_type_and_visibility_witness:
  "(\<exists>aggr. aggregation_of (collectClassInfo toUpperCase sample_metadata ''Widget'') ''rows'' = Some aggr \<and>
      Aggregation.type aggr = JStr ''sap.ui.core.Control'' \<and>
      Aggregation.visibility aggr = JStr ''public'') \<and>
   (\<exists>assoc. association_of (collectClassInfo toUpperCase sample_metadata ''Widget'') ''owner'' = Some assoc \<and>
      Association.type assoc = JStr ''sap.ui.core.Control'' \<and>
      Association.visibility assoc = JStr ''public'') \<and>
   (\<exists>p. property_of (collectClassInfo toUpperCase sample_metadata ''Widget'') ''text'' = Some p \<and>
      Property.visibility p = JStr ''public'') \<and>
   (\<exists>ev. event_of (collectClassInfo toUpperCase sample_metadata ''Widget'') ''press'' = Some ev \<and>
      UI5Event.visibility ev = JStr ''public'')"
proof -
  from sample_metadata_returns obtain lg classInfo where
    run: "collectClassInfo toUpperCase sample_metadata ''Widget'' = (lg, Inr classInfo)"
    by blast
  have u: "getp (JArr []) ''type'' = JUndefined" "getp (JArr []) ''visibility'' = JUndefined"
    "getp (JObj [(''multiple'', JBool False)]) ''type'' = JUndefined"
    "getp (JObj [(''multiple'', JBool False)]) ''visibility'' = JUndefined"
    "getp (JObj [(''type'', JStr ''string'')]) ''visibility'' = JUndefined"
    by code_simp+
  from default_type_and_visibility [OF run, of "''rows''" "JArr []"]
  have "\<exists>aggr. aggregation_of (collectClassInfo toUpperCase sample_metadata ''Widget'') ''rows'' = Some aggr \<and>
      Aggregation.type aggr = JStr ''sap.ui.core.Control'' \<and>
      Aggregation.visibility aggr = JStr ''public''"
    by (simp add: sample_processed u run aggregation_of_def)
  moreover from default_type_and_visibility [OF run, of "''owner''" "JObj [(''multiple'', JBool False)]"]
  have "\<exists>assoc. association_of (collectClassInfo toUpperCase sample_metadata ''Widget'') ''owner'' = Some assoc \<and>
      Association.type assoc = JStr ''sap.ui.core.Control'' \<and>
      Association.visibility assoc = JStr ''public''"
    by (simp add: sample_processed u run association_of_def)
  moreover from default_type_and_visibility [OF run, of "''text''" "JObj [(''type'', JStr ''string'')]"]
  have "\<exists>p. property_of (collectClassInfo toUpperCase sample_metadata ''Widget'') ''text'' = Some p \<and>
      Property.visibility p = JStr ''public''"
    by (auto simp add: sample_processed u run property_of_def)
  moreover from default_type_and_visibility [OF run, of "''press''" "JObj [(''visibility'', JStr ''hidden'')]"]
  have "\<exists>ev. event_of (collectClassInfo toUpperCase sample_metadata ''Widget'') ''press'' = Some ev \<and>
      UI5Event.visibility ev = JStr ''public''"
    by (simp add: sample_processed run event_of_def)
  ultimately show ?thesis by blast
qed



section \<open>Skipped entries\<close>

text \<open>
  Claim C8, as stated, fails: an entry that is neither a string with a default key
  nor a record is skipped only when it is \<^verbatim>\<open>null\<close> or \<^verbatim>\<open>undefined\<close>. In the
  sample metadata the aggregation \<open>rows\<close> is an array and the event \<open>change\<close> is a
  string (events have no default key); both get a record with the defaults, and
  the only warnings are those of the two \<^verbatim>\<open>null\<close> entries.
\<close>

theorem unexpandable_entry_not_skipped_counterexample:
  "map_option Aggregation.type
     (aggregation_of (collectClassInfo toUpperCase sample_metadata ''Widget'') ''rows'') =
     Some (JStr ''sap.ui.core.Control'') \<and>
   map_option UI5Event.methods
     (event_of (collectClassInfo toUpperCase sample_metadata ''Widget'') ''change'') =
     Some [(''attach'', ''attachChange''), (''detach'', ''detachChange''), (''fire'', ''fireChange'')] \<and>
   fst (collectClassInfo toUpperCase sample_metadata ''Widget'') =
     [warning_text ''broken'' JNull, warning_text ''gone'' JNull]"
proof -
  have "map_option Aggregation.type
     (aggregation_of (collectClassInfo toUpperCase sample_metadata ''Widget'') ''rows'') =
     Some (JStr ''sap.ui.core.Control'')"
    by code_simp
  moreover have "map_option UI5Event.methods
     (event_of (collectClassInfo toUpperCase sample_metadata ''Widget'') ''change'') =
     Some [(''attach'', ''attachChange''), (''detach'', ''detachChange''), (''fire'', ''fireChange'')]"
    by code_simp
  moreover have "fst (collectClassInfo toUpperCase sample_metadata ''Widget'') =
     [warning_text ''broken'' JNull, warning_text ''gone'' JNull]"
    by code_simp
  ultimately show ?thesis by blast
qed

text \<open>
  Claim C8, amended. A member entry that is \<^verbatim>\<open>null\<close> or \<^verbatim>\<open>undefined\<close> is
  skipped, and only such an entry is. When \<open>collectClassInfo\<close> returns a class
  description: the log holds exactly one warning for each such entry of the five
  member maps and of the parameter maps of the events, in the order of the
  entries, and nothing else; the description has no member for the name of such
  an entry; and every other entry has the record that its callback builds from
  the expanded settings, with the defaults of that kind of member. A skipped
  entry never makes the call fail: when the call fails, either one of the
  enumerated maps has an entry named \<^verbatim>\<open>hasOwnProperty\<close>, which hides the method
  that the loop calls, or the record of a processed aggregation or association
  entry could not be built. So the call returns a class description whenever no
  enumerated map has an entry of that name and the \<open>singularName\<close> of every
  processed aggregation and association entry is a string or missing, however
  many entries are skipped.
\<close>

theorem null_entries_skipped:
  "(collectClassInfo ucase metadata cls = (lg, Inr classInfo) \<longrightarrow>
      lg = null_warnings (getp metadata ''specialSettings'') @
           null_warnings (getp metadata ''properties'') @
           null_warnings (getp metadata ''aggregations'') @
           null_warnings (getp metadata ''associations'') @
           event_warnings (getp metadata ''events'') \<and>
      (n \<in> set (own_keys (getp metadata ''specialSettings'')) \<longrightarrow>
         (if nullish (getp (getp metadata ''specialSettings'') n)
          then map_of (ClassInfo.specialSettings classInfo) n = None \<and>
               warning_text n (getp (getp metadata ''specialSettings'') n) \<in> set lg
          else map_of (ClassInfo.specialSettings classInfo) n =
               Some (new_specialSetting n
                 (expandDefaultKey (getp (getp metadata ''specialSettings'') n) (Some ''type'')) JNull))) \<and>
      (n \<in> set (own_keys (getp metadata ''properties'')) \<longrightarrow>
         (if nullish (getp (getp metadata ''properties'') n)
          then map_of (ClassInfo.properties classInfo) n = None \<and>
               warning_text n (getp (getp metadata ''properties'') n) \<in> set lg
          else map_of (ClassInfo.properties classInfo) n =
               Some (new_property ucase n
                 (expandDefaultKey (getp (getp metadata ''properties'') n) (Some ''type'')) JNull))) \<and>
      (n \<in> set (own_keys (getp metadata ''aggregations'')) \<longrightarrow>
         (if nullish (getp (getp metadata ''aggregations'') n)
          then map_of (ClassInfo.aggregations classInfo) n = None \<and>
               warning_text n (getp (getp metadata ''aggregations'') n) \<in> set lg
          else \<exists>aggr. map_of (ClassInfo.aggregations classInfo) n = Some aggr \<and>
               new_aggregation ucase n
                 (expandDefaultKey (getp (getp metadata ''aggregations'') n) (Some ''type'')) JNull =
               Inr aggr)) \<and>
      (n \<in> set (own_keys (getp metadata ''associations'')) \<longrightarrow>
         (if nullish (getp (getp metadata ''associations'') n)
          then map_of (ClassInfo.associations classInfo) n = None \<and>
               warning_text n (getp (getp metadata ''associations'') n) \<in> set lg
          else \<exists>assoc. map_of (ClassInfo.associations classInfo) n = Some assoc \<and>
               new_association ucase n
                 (expandDefaultKey (getp (getp metadata ''associations'') n) (Some ''type'')) JNull =
               Inr assoc)) \<and>
      (n \<in> set (own_keys (getp metadata ''events'')) \<longrightarrow>
         (if nullish (getp (getp metadata ''events'') n)
          then map_of (ClassInfo.events classInfo) n = None \<and>
               warning_text n (getp (getp metadata ''events'') n) \<in> set lg
          else \<exists>ev params. map_of (ClassInfo.events classInfo) n = Some ev \<and>
               ev = (new_event ucase n (getp (getp metadata ''events'') n) JNull)
                      \<lparr> UI5Event.parameters := params \<rparr>))) \<and>
   (collectClassInfo ucase metadata cls = (lg, Inl e) \<longrightarrow>
      (e = TypeError \<and> (\<exists>m \<in> set (enumerated_maps metadata). shadows_hasOwnProperty m)) \<or>
      (\<exists>k s. processed_settings metadata ''aggregations'' (Some ''type'') k = Some s \<and>
             new_aggregation ucase k s JNull = Inl e) \<or>
      (\<exists>k s. processed_settings metadata ''associations'' (Some ''type'') k = Some s \<and>
             new_association ucase k s JNull = Inl e)) \<and>
   ((\<forall>m \<in> set (enumerated_maps metadata). \<not> shadows_hasOwnProperty m) \<and>
    (\<forall>k s. processed_settings metadata ''aggregations'' (Some ''type'') k = Some s \<longrightarrow>
           singular_is_string s) \<and>
    (\<forall>k s. processed_settings metadata ''associations'' (Some ''type'') k = Some s \<longrightarrow>
           singular_is_string s) \<longrightarrow>
      (\<exists>lg0 classInfo0. collectClassInfo ucase metadata cls = (lg0, Inr classInfo0)))"
proof (intro conjI impI)
  assume run: "collectClassInfo ucase metadata cls = (lg, Inr classInfo)"
  then show "lg = null_warnings (getp metadata ''specialSettings'') @
           null_warnings (getp metadata ''properties'') @
           null_warnings (getp metadata ''aggregations'') @
           null_warnings (getp metadata ''associations'') @
           event_warnings (getp metadata ''events'')"
    by (rule collectClassInfo_log)
next
  assume run: "collectClassInfo ucase metadata cls = (lg, Inr classInfo)"
    and k: "n \<in> set (own_keys (getp metadata ''specialSettings''))"
  from collectClassInfo_specialSettings [OF run k]
  show "if nullish (getp (getp metadata ''specialSettings'') n)
          then map_of (ClassInfo.specialSettings classInfo) n = None \<and>
               warning_text n (getp (getp metadata ''specialSettings'') n) \<in> set lg
          else map_of (ClassInfo.specialSettings classInfo) n =
               Some (new_specialSetting n
                 (expandDefaultKey (getp (getp metadata ''specialSettings'') n) (Some ''type'')) JNull)"
    by (simp add: nullish_expandDefaultKey)
next
  assume run: "collectClassInfo ucase metadata cls = (lg, Inr classInfo)"
    and k: "n \<in> set (own_keys (getp metadata ''properties''))"
  from collectClassInfo_properties [OF run k]
  show "if nullish (getp (getp metadata ''properties'') n)
          then map_of (ClassInfo.properties classInfo) n = None \<and>
               warning_text n (getp (getp metadata ''properties'') n) \<in> set lg
          else map_of (ClassInfo.properties classInfo) n =
               Some (new_property ucase n
                 (expandDefaultKey (getp (getp metadata ''properties'') n) (Some ''type'')) JNull)"
    by (simp add: nullish_expandDefaultKey)
next
  assume run: "collectClassInfo ucase metadata cls = (lg, Inr classInfo)"
    and k: "n \<in> set (own_keys (getp metadata ''aggregations''))"
  from collectClassInfo_aggregations [OF run k]
  show "if nullish (getp (getp metadata ''aggregations'') n)
          then map_of (ClassInfo.aggregations classInfo) n = None \<and>
               warning_text n (getp (getp metadata ''aggregations'') n) \<in> set lg
          else \<exists>aggr. map_of (ClassInfo.aggregations classInfo) n = Some aggr \<and>
               new_aggregation ucase n
                 (expandDefaultKey (getp (getp metadata ''aggregations'') n) (Some ''type'')) JNull =
               Inr aggr"
    by (simp add: nullish_expandDefaultKey)
next
  assume run: "collectClassInfo ucase metadata cls = (lg, Inr classInfo)"
    and k: "n \<in> set (own_keys (getp metadata ''associations''))"
  from collectClassInfo_associations [OF run k]
  show "if nullish (getp (getp metadata ''associations'') n)
          then map_of (ClassInfo.associations classInfo) n = None \<and>
               warning_text n (getp (getp metadata ''associations'') n) \<in> set lg
          else \<exists>assoc. map_of (ClassInfo.associations classInfo) n = Some assoc \<and>
               new_association ucase n
                 (expandDefaultKey (getp (getp metadata ''associations'') n) (Some ''type'')) JNull =
               Inr assoc"
    by (simp add: nullish_expandDefaultKey)
next
  assume run: "collectClassInfo ucase metadata cls = (lg, Inr classInfo)"
    and k: "n \<in> set (own_keys (getp metadata ''events''))"
  show "if nullish (getp (getp metadata ''events'') n)
          then map_of (ClassInfo.events classInfo) n = None \<and>
               warning_text n (getp (getp metadata ''events'') n) \<in> set lg
          else \<exists>ev params. map_of (ClassInfo.events classInfo) n = Some ev \<and>
               ev = (new_event ucase n (getp (getp metadata ''events'') n) JNull)
                      \<lparr> UI5Event.parameters := params \<rparr>"
    by (rule collectClassInfo_events [OF run k, unfolded expandDefaultKey_None])
next
  assume "collectClassInfo ucase metadata cls = (lg, Inl e)"
  then show "(e = TypeError \<and> (\<exists>m \<in> set (enumerated_maps metadata). shadows_hasOwnProperty m)) \<or>
      (\<exists>k s. processed_settings metadata ''aggregations'' (Some ''type'') k = Some s \<and>
             new_aggregation ucase k s JNull = Inl e) \<or>
      (\<exists>k s. processed_settings metadata ''associations'' (Some ''type'') k = Some s \<and>
             new_association ucase k s JNull = Inl e)"
    by (rule collectClassInfo_failure)
next
  assume a: "(\<forall>m \<in> set (enumerated_maps metadata). \<not> shadows_hasOwnProperty m) \<and>
    (\<forall>k s. processed_settings metadata ''aggregations'' (Some ''type'') k = Some s \<longrightarrow>
           singular_is_string s) \<and>
    (\<forall>k s. processed_settings metadata ''associations'' (Some ''type'') k = Some s \<longrightarrow>
           singular_is_string s)"
  show "\<exists>lg0 classInfo0. collectClassInfo ucase metadata cls = (lg0, Inr classInfo0)"
    by (rule collectClassInfo_returns) (use a in blast)+
qed

theorem null_entries_skipped_witness:
  "property_of (collectClassInfo toUpperCase sample_metadata ''Widget'') ''broken'' = None \<and>
   fst (collectClassInfo toUpperCase sample_metadata ''Widget'') =
     [warning_text ''broken'' JNull, warning_text ''gone'' JNull] \<and>
   property_of (collectClassInfo toUpperCase sample_metadata ''Widget'') ''text'' =
     Some (new_property toUpperCase ''text'' (JObj [(''type'', JStr ''string'')]) JNull) \<and>
   (\<exists>aggr. aggregation_of (collectClassInfo toUpperCase sample_metadata ''Widget'') ''rows'' = Some aggr \<and>
      new_aggregation toUpperCase ''rows'' (JArr []) JNull = Inr aggr) \<and>
   (\<exists>lg classInfo. collectClassInfo toUpperCase sample_metadata ''Widget'' = (lg, Inr classInfo)) \<and>
   collectClassInfo toUpperCase
     (JObj [(''properties'', JObj [(''hasOwnProperty'', JNull)])]) ''Widget'' = ([], Inl TypeError) \<and>
   list_ex shadows_hasOwnProperty
     (enumerated_maps (JObj [(''properties'', JObj [(''hasOwnProperty'', JNull)])]))"
proof -
  from null_entries_skipped [of toUpperCase sample_metadata "''Widget''"] sample_metadata_well_formed
  have returns: "\<exists>lg classInfo. collectClassInfo toUpperCase sample_metadata ''Widget'' = (lg, Inr classInfo)"
    by blast
  then obtain lg classInfo where
    run: "collectClassInfo toUpperCase sample_metadata ''Widget'' = (lg, Inr classInfo)"
    by blast
  have entries: "getp (getp sample_metadata ''properties'') ''broken'' = JNull"
    "getp (getp sample_metadata ''properties'') ''text'' = JStr ''string''"
    "getp (getp sample_metadata ''aggregations'') ''rows'' = JArr []"
    "expandDefaultKey (JStr ''string'') (Some ''type'') = JObj [(''type'', JStr ''string'')]"
    "expandDefaultKey (JArr []) (Some ''type'') = JArr []"
    by code_simp+
  have warnings: "null_warnings (getp sample_metadata ''specialSettings'') @
           null_warnings (getp sample_metadata ''properties'') @
           null_warnings (getp sample_metadata ''aggregations'') @
           null_warnings (getp sample_metadata ''associations'') @
           event_warnings (getp sample_metadata ''events'') =
           [warning_text ''broken'' JNull, warning_text ''gone'' JNull]"
    by code_simp
  from null_entries_skipped [of toUpperCase sample_metadata "''Widget''" lg classInfo "''broken''"]
  have first: "property_of (collectClassInfo toUpperCase sample_metadata ''Widget'') ''broken'' = None"
    by (simp add: run sample_metadata_keys entries property_of_def)
  from null_entries_skipped [of toUpperCase sample_metadata "''Widget''" lg classInfo]
  have second: "fst (collectClassInfo toUpperCase sample_metadata ''Widget'') =
     [warning_text ''broken'' JNull, warning_text ''gone'' JNull]"
    by (simp add: run warnings)
  from null_entries_skipped [of toUpperCase sample_metadata "''Widget''" lg classInfo "''text''"]
  have third: "property_of (collectClassInfo toUpperCase sample_metadata ''Widget'') ''text'' =
     Some (new_property toUpperCase ''text'' (JObj [(''type'', JStr ''string'')]) JNull)"
    by (simp add: run sample_metadata_keys entries property_of_def)
  from null_entries_skipped [of toUpperCase sample_metadata "''Widget''" lg classInfo "''rows''"]
  have fourth: "\<exists>aggr. aggregation_of (collectClassInfo toUpperCase sample_metadata ''Widget'') ''rows'' = Some aggr \<and>
      new_aggregation toUpperCase ''rows'' (JArr []) JNull = Inr aggr"
    by (simp add: run sample_metadata_keys entries aggregation_of_def)
  have fails: "collectClassInfo toUpperCase
     (JObj [(''properties'', JObj [(''hasOwnProperty'', JNull)])]) ''Widget'' = ([], Inl TypeError)"
    by code_simp
  have none: "own_keys (getp (JObj [(''properties'', JObj [(''hasOwnProperty'', JNull)])]) ''aggregations'') = []"
    "own_keys (getp (JObj [(''properties'', JObj [(''hasOwnProperty'', JNull)])]) ''associations'') = []"
    by code_simp+
  from null_entries_skipped [of toUpperCase "JObj [(''properties'', JObj [(''hasOwnProperty'', JNull)])]"
      "''Widget''" "[]" _ _ TypeError] fails
  have "\<exists>m \<in> set (enumerated_maps (JObj [(''properties'', JObj [(''hasOwnProperty'', JNull)])])).
          shadows_hasOwnProperty m"
    by (simp add: processed_settings_def none)
  then have fifth: "list_ex shadows_hasOwnProperty
     (enumerated_maps (JObj [(''properties'', JObj [(''hasOwnProperty'', JNull)])]))"
    by (simp add: list_ex_iff)
  from first second third fourth returns fails fifth show ?thesis by blast
qed

section \<open>Letter case\<close>

lemma toLowerChar_toUpperChar: "toLowerChar (toUpperChar c) = toLowerChar c"
  by (simp add: toLowerChar_def toUpperChar_def lowerAZ_def upperAZ_def)

lemma toUpperChar_toLowerChar: "toUpperChar (toLowerChar c) = toUpperChar c"
  by (simp add: toLowerChar_def toUpperChar_def lowerAZ_def upperAZ_def)

lemma toLowerCase_toUpperCase: "toLowerCase (toUpperCase s) = toLowerCase s"
  by (simp add: toLowerCase_def toUpperCase_def toLowerChar_toUpperChar)

lemma toUpperCase_toLowerCase: "toUpperCase (toLowerCase s) = toUpperCase s"
  by (simp add: toLowerCase_def toUpperCase_def toUpperChar_toLowerChar)

lemma same_ignoring_case: "toUpperCase a = toUpperCase b \<longleftrightarrow> toLowerCase a = toLowerCase b"
  by (metis toLowerCase_toUpperCase toUpperCase_toLowerCase)

lemma length_toLowerCase: "length (toLowerCase s) = length s"
  by (simp add: toLowerCase_def)

lemma alternative_lower:
  "alt \<in> set rPlural_alternatives \<Longrightarrow> toLowerCase alt = alt"
  by (auto simp: rPlural_alternatives_def toLowerCase_def toLowerChar_def lowerAZ_def upperAZ_def)

section \<open>The first match of rPlural is the longest matching suffix\<close>

lemma rPlural_at_iff: "rPlural_at m \<longleftrightarrow> toLowerCase m \<in> set rPlural_alternatives"
proof
  assume "rPlural_at m"
  then obtain alt where "alt \<in> set rPlural_alternatives" "toUpperCase m = toUpperCase alt"
    by (auto simp: rPlural_at_def find_None_iff)
  then show "toLowerCase m \<in> set rPlural_alternatives"
    using alternative_lower same_ignoring_case by metis
next
  assume a: "toLowerCase m \<in> set rPlural_alternatives"
  have "toUpperCase m = toUpperCase (toLowerCase m)"
    by (simp add: toUpperCase_toLowerCase)
  with a show "rPlural_at m"
    by (auto simp: rPlural_at_def find_None_iff)
qed

lemma rPlural_exec_Some:
  "rPlural_exec s = Some (pre, m) \<Longrightarrow> s = pre @ m \<and> rPlural_at m"
proof (induction s arbitrary: pre)
  case Nil
  then show ?case by simp
next
  case (Cons c cs)
  show ?case
  proof (cases "rPlural_at (c # cs)")
    case True
    with Cons.prems show ?thesis by auto
  next
    case False
    with Cons.prems obtain pre0 where "rPlural_exec cs = Some (pre0, m)" "pre = c # pre0"
      by auto
    with Cons.IH show ?thesis by auto
  qed
qed

lemma rPlural_exec_leftmost:
  "rPlural_exec s = Some (pre, m) \<Longrightarrow> s = p @ m' \<Longrightarrow> rPlural_at m' \<Longrightarrow> length m' \<le> length m"
proof (induction s arbitrary: pre p)
  case Nil
  then show ?case by simp
next
  case (Cons c cs)
  show ?case
  proof (cases "rPlural_at (c # cs)")
    case True
    with Cons.prems(1) have "m = c # cs" by auto
    moreover have "length m' \<le> length (c # cs)"
      using Cons.prems(2) by (metis length_append le_add2)
    ultimately show ?thesis by simp
  next
    case False
    with Cons.prems(1) obtain pre0 where e: "rPlural_exec cs = Some (pre0, m)"
      by auto
    from False Cons.prems(2,3) have "p \<noteq> []" by auto
    then obtain p0 where "p = c # p0" "cs = p0 @ m'"
      using Cons.prems(2) by (cases p) auto
    with Cons.IH [OF e] Cons.prems(3) show ?thesis by blast
  qed
qed

lemma rPlural_exec_None:
  "rPlural_exec s = None \<Longrightarrow> s = p @ m' \<Longrightarrow> \<not> rPlural_at m'"
proof (induction s arbitrary: p)
  case Nil
  then show ?case by (simp add: rPlural_at_iff rPlural_alternatives_def toLowerCase_def)
next
  case (Cons c cs)
  from Cons.prems(1) have nat: "\<not> rPlural_at (c # cs)" and e: "rPlural_exec cs = None"
    by (auto split: if_splits)
  show ?case
  proof (cases p)
    case Nil
    with Cons.prems(2) nat show ?thesis by simp
  next
    case (Cons d p0)
    with Cons.prems(2) have "cs = p0 @ m'" by simp
    with Cons.IH [OF e] show ?thesis by blast
  qed
qed

section \<open>The specification's choice of a rule\<close>

lemma table_keys: "map fst singular_table = rPlural_alternatives"
  by (simp add: singular_table_def rPlural_alternatives_def)

lemma suffix_applies_at:
  assumes "(suf, r) \<in> set singular_table" "suffix_applies suf s"
  shows "rPlural_at (drop (length s - length suf) s) \<and>
         length (drop (length s - length suf) s) = length suf \<and>
         toLowerCase (drop (length s - length suf) s) = suf"
proof -
  from assms(1) have alt: "suf \<in> set rPlural_alternatives"
    using table_keys by (metis fst_conv image_eqI set_map)
  then have "toLowerCase suf = suf" by (rule alternative_lower)
  with assms(2) alt show ?thesis
    by (simp add: suffix_applies_def rPlural_at_iff)
qed

lemma fold_longest:
  "fold (\<lambda>e best. if length (fst best) < length (fst e) then e else best) rs r \<in> set (r # rs) \<and>
   (\<forall>e \<in> set (r # rs).
      length (fst e) \<le>
      length (fst (fold (\<lambda>e best. if length (fst best) < length (fst e) then e else best) rs r)))"
proof (induction rs arbitrary: r)
  case Nil
  then show ?case by simp
next
  case (Cons x xs)
  show ?case
    using Cons.IH [of x] Cons.IH [of r] by (auto simp: not_less intro: order_trans less_imp_le)
qed

lemma longest_rule_None: "longest_rule rs = None \<longleftrightarrow> rs = []"
  by (simp add: longest_rule_def split: list.splits)

lemma longest_rule_Some:
  "longest_rule rs = Some b \<Longrightarrow> b \<in> set rs \<and> (\<forall>e \<in> set rs. length (fst e) \<le> length (fst b))"
  using fold_longest by (fastforce simp: longest_rule_def split: list.splits)

lemma replacer_rule:
  assumes "(alt, rl) \<in> set singular_table" "toLowerCase m = alt"
  shows "pre @ replacer m =
         (case rl of
            DropLast k \<Rightarrow> take (length (pre @ m) - k) (pre @ m)
          | ReplaceBy r \<Rightarrow> take (length (pre @ m) - length alt) (pre @ m) @ r)"
proof -
  have len: "length m = length alt"
    using assms(2) length_toLowerCase by metis
  from assms(1) have
    "(alt = ''children'' \<and> rl = DropLast 3) \<or>
     (alt = ''ies'' \<and> rl = ReplaceBy ''y'') \<or>
     (alt = ''ves'' \<and> rl = ReplaceBy ''f'') \<or>
     (alt = ''oes'' \<and> rl = DropLast 2) \<or>
     (alt = ''ses'' \<and> rl = DropLast 2) \<or>
     (alt = ''ches'' \<and> rl = DropLast 2) \<or>
     (alt = ''shes'' \<and> rl = DropLast 2) \<or>
     (alt = ''xes'' \<and> rl = DropLast 2) \<or>
     (alt = ''s'' \<and> rl = DropLast 1)"
    by (simp add: singular_table_def)
  then show ?thesis
    using len assms(2)
    by (elim disjE conjE) (simp_all add: replacer_def mSingular_def slice0_def)
qed

lemma singular_table_functional:
  "(alt, r1) \<in> set singular_table \<Longrightarrow> (alt, r2) \<in> set singular_table \<Longrightarrow> r1 = r2"
  by (auto simp: singular_table_def)

lemma guessSingularName_refines: "guessSingularName s = singularOf_spec s"
proof (cases "rPlural_exec s")
  case None
  have "filter (\<lambda>(suf, r). suffix_applies suf s) singular_table = []"
  proof (rule ccontr)
    assume "filter (\<lambda>(suf, r). suffix_applies suf s) singular_table \<noteq> []"
    then obtain suf r where in_t: "(suf, r) \<in> set singular_table" and ap: "suffix_applies suf s"
      by (auto simp: filter_empty_conv)
    from suffix_applies_at [OF in_t ap]
    have "rPlural_at (drop (length s - length suf) s)" by simp
    moreover have "s = take (length s - length suf) s @ drop (length s - length suf) s"
      by simp
    ultimately show False
      using rPlural_exec_None [OF None] by blast
  qed
  with None show ?thesis
    by (simp add: guessSingularName_def singularOf_spec_def longest_rule_def)
next
  case (Some pm)
  obtain pre m where pm: "pm = (pre, m)" by (cases pm)
  with Some have ex: "rPlural_exec s = Some (pre, m)" by simp
  from rPlural_exec_Some [OF ex] have s: "s = pre @ m" and at: "rPlural_at m"
    by simp_all
  define a where "a = toLowerCase m"
  have a_alt: "a \<in> set rPlural_alternatives"
    using at by (simp add: rPlural_at_iff a_def)
  then obtain ra where ra: "(a, ra) \<in> set singular_table"
    using table_keys by (metis (no_types, opaque_lifting) fst_conv imageE set_map surj_pair)
  have len_a: "length a = length m"
    by (simp add: a_def length_toLowerCase)
  have a_applies: "suffix_applies a s"
    using alternative_lower [OF a_alt] by (simp add: suffix_applies_def s len_a) (simp add: a_def)
  let ?A = "filter (\<lambda>(suf, r). suffix_applies suf s) singular_table"
  have a_in: "(a, ra) \<in> set ?A"
    using ra a_applies by simp
  then have "?A \<noteq> []"
    by (metis empty_iff empty_set)
  then have "longest_rule ?A \<noteq> None"
    by (simp only: longest_rule_None not_False_eq_True)
  then obtain suf rl where best: "longest_rule ?A = Some (suf, rl)"
    by auto
  from longest_rule_Some [OF best]
  have b_in: "(suf, rl) \<in> set ?A" and b_max: "\<forall>e \<in> set ?A. length (fst e) \<le> length suf"
    by simp_all
  from b_in have b_tab: "(suf, rl) \<in> set singular_table" and b_ap: "suffix_applies suf s"
    by simp_all
  let ?m' = "drop (length s - length suf) s"
  from suffix_applies_at [OF b_tab b_ap]
  have m'_at: "rPlural_at ?m'" and m'_len: "length ?m' = length suf"
    and m'_low: "toLowerCase ?m' = suf"
    by simp_all
  have "s = take (length s - length suf) s @ ?m'" by simp
  from rPlural_exec_leftmost [OF ex this m'_at] have "length ?m' \<le> length m" .
  moreover from b_max a_in have "length a \<le> length suf" by fastforce
  ultimately have len_eq: "length suf = length m"
    using m'_len len_a by simp
  then have "?m' = m"
    by (simp add: s)
  with m'_low have "suf = a"
    by (simp add: a_def)
  with b_tab have tab: "(a, rl) \<in> set singular_table" by simp
  have "guessSingularName s = pre @ replacer m"
    using ex by (simp add: guessSingularName_def)
  also have "\<dots> = (case rl of
            DropLast k \<Rightarrow> take (length (pre @ m) - k) (pre @ m)
          | ReplaceBy r \<Rightarrow> take (length (pre @ m) - length a) (pre @ m) @ r)"
    using replacer_rule [OF tab] by (simp add: a_def)
  also have "\<dots> = singularOf_spec s"
    using best \<open>suf = a\<close> by (simp add: singularOf_spec_def s split: suffix_rule.splits)
  finally show ?thesis .
qed

text \<open>
  Claim C3. For every name, \<open>guessSingularName\<close> rewrites the longest suffix of the
  table that the name ends with: \<open>children\<close> loses its last three characters,
  \<open>ies\<close> becomes \<open>y\<close>, \<open>ves\<close> becomes \<open>f\<close>, each of \<open>oes\<close>, \<open>ses\<close>, \<open>ches\<close>,
  \<open>shes\<close>, \<open>xes\<close> loses its last two, and \<open>s\<close> its last one. The suffix is matched
  ignoring case, the text before it is kept as it is, and a name with no such
  suffix is returned unchanged. The examples of the specification follow.
\<close>

theorem guessSingularName_longest_suffix:
  "guessSingularName s = singularOf_spec s \<and>
   guessSingularName ''buttons'' = ''button'' \<and>
   guessSingularName ''categories'' = ''category'' \<and>
   guessSingularName ''leaves'' = ''leaf'' \<and>
   guessSingularName ''heroes'' = ''hero'' \<and>
   guessSingularName ''classes'' = ''class'' \<and>
   guessSingularName ''children'' = ''child'' \<and>
   guessSingularName ''boxes'' = ''box'' \<and>
   guessSingularName ''Branches'' = ''Branch'' \<and>
   guessSingularName ''dishes'' = ''dish'' \<and>
   guessSingularName ''CHILDREN'' = ''CHILD'' \<and>
   guessSingularName ''ListITEMS'' = ''ListITEM'' \<and>
   guessSingularName ''content'' = ''content''"
proof -
  have "guessSingularName ''buttons'' = ''button''" by code_simp
  moreover have "guessSingularName ''categories'' = ''category''" by code_simp
  moreover have "guessSingularName ''leaves'' = ''leaf''" by code_simp
  moreover have "guessSingularName ''heroes'' = ''hero''" by code_simp
  moreover have "guessSingularName ''classes'' = ''class''" by code_simp
  moreover have "guessSingularName ''children'' = ''child''" by code_simp
  moreover have "guessSingularName ''boxes'' = ''box''" by code_simp
  moreover have "guessSingularName ''Branches'' = ''Branch''" by code_simp
  moreover have "guessSingularName ''dishes'' = ''dish''" by code_simp
  moreover have "guessSingularName ''CHILDREN'' = ''CHILD''" by code_simp
  moreover have "guessSingularName ''ListITEMS'' = ''ListITEM''" by code_simp
  moreover have "guessSingularName ''content'' = ''content''" by code_simp
  ultimately show ?thesis
    using guessSingularName_refines [of s] by simp
qed

theorem guessSingularName_longest_suffix_witness:
  "guessSingularName ''Categories'' = ''Category'' \<and>
   singularOf_spec ''Categories'' = ''Category''"
proof -
  have "singularOf_spec ''Categories'' = ''Category''" by code_simp
  then show ?thesis
    using guessSingularName_longest_suffix [of "''Categories''"] by simp
qed

section \<open>expandDefaultKey\<close>

text \<open>
  Claim C4, as stated, fails for a scalar that is not a string: the number \<open>5\<close>
  with the default key \<open>type\<close> is returned as it is, not wrapped.
\<close>

theorem expandDefaultKey_number_counterexample:
  "expandDefaultKey (JNum 5) (Some ''type'') = JNum 5 \<and>
   expandDefaultKey (JNum 5) (Some ''type'') \<noteq> JObj [(''type'', JNum 5)] \<and>
   expandDefaultKey (JBool True) (Some ''type'') = JBool True"
  by (simp add: expandDefaultKey_def)

text \<open>
  Claim C4, amended. A string entry with a default key is wrapped as the record
  that binds the default key to it. Every other entry is returned unchanged: a
  string when no default key is given, a record, a number, a boolean, an array,
  and an absent entry (\<^verbatim>\<open>undefined\<close> or \<^verbatim>\<open>null\<close>). In particular
  \<^verbatim>\<open>expand("string", "type")\<close> is \<^verbatim>\<open>{type: "string"}\<close>, \<^verbatim>\<open>expand({a: 1}, "type")\<close> is
  \<^verbatim>\<open>{a: 1}\<close> and \<^verbatim>\<open>expand(undefined, "type")\<close> is \<^verbatim>\<open>undefined\<close>.
\<close>

theorem expandDefaultKey_cases:
  "expandDefaultKey (JStr s) (Some k) = JObj [(k, JStr s)] \<and>
   expandDefaultKey (JStr s) None = JStr s \<and>
   expandDefaultKey (JObj kvs) defaultKey = JObj kvs \<and>
   expandDefaultKey (JNum r) defaultKey = JNum r \<and>
   expandDefaultKey (JBool b) defaultKey = JBool b \<and>
   expandDefaultKey (JArr xs) defaultKey = JArr xs \<and>
   expandDefaultKey JUndefined defaultKey = JUndefined \<and>
   expandDefaultKey JNull defaultKey = JNull \<and>
   expandDefaultKey (JStr ''string'') (Some ''type'') = JObj [(''type'', JStr ''string'')] \<and>
   expandDefaultKey (JObj [(''a'', JNum 1)]) (Some ''type'') = JObj [(''a'', JNum 1)] \<and>
   expandDefaultKey JUndefined (Some ''type'') = JUndefined"
  by (simp add: expandDefaultKey_def split: option.splits)

theorem expandDefaultKey_cases_witness:
  "expandDefaultKey (JStr ''sap.m.Button'') (Some ''type'') = JObj [(''type'', JStr ''sap.m.Button'')] \<and>
   expandDefaultKey (JObj [(''multiple'', JBool False)]) (Some ''type'') = JObj [(''multiple'', JBool False)]"
  using expandDefaultKey_cases [of "''sap.m.Button''" "''type''" "[(''multiple'', JBool False)]" "Some ''type''"]
  by simp

section \<open>Parse failures and classes with nothing to generate\<close>

lemma generateInterfaces_loop_append:
  "generateInterfaces_loop env f (xs @ ys) out =
     (case generateInterfaces_loop env f xs out of
        (out', None) \<Rightarrow> generateInterfaces_loop env f ys out'
      | (out', Some e) \<Rightarrow> (out', Some e))"
  by (induction xs arbitrary: out) (simp_all split: sum.splits option.splits)

lemma generateInterface_parse_failure:
  assumes "static_metadata_members (classDeclaration mo) = Inr [member]"
    and "initializer member = Some text"
    and "hjson_parse env text = Inl message"
  shows "generateInterface env mo =
         Inl (Error (parse_error_text (className mo) (fileName mo) message))"
  using assms by (simp add: generateInterface_def)

lemma sample_members:
  "static_metadata_members (classDeclaration (sample_class cls [metadata_member text])) =
     Inr [metadata_member text]"
  "static_metadata_members (classDeclaration (sample_class cls [])) = Inr []"
  "static_metadata_members
     (classDeclaration (sample_class cls [metadata_member text, metadata_member text'])) =
     Inr [metadata_member text, metadata_member text']"
  by (simp_all add: sample_class_def metadata_member_def is_static_metadata_def)

text \<open>
  Claim C5, as stated, fails: the error of one class ends \<^verbatim>\<open>forEach\<close>. A module
  with a class whose metadata does not parse, followed by a class that alone
  yields an interface, yields nothing for the second class.
\<close>

theorem generateInterfaces_sibling_counterexample:
  "generateInterfaces sample_collaborators ''src/control/Controls.ts''
     [sample_class ''Good'' [metadata_member properties_text]] =
     ([(''src/control/Controls.ts'', ''Good'', ''interface Good'')], None) \<and>
   generateInterfaces sample_collaborators ''src/control/Controls.ts''
     [sample_class ''Bad'' [metadata_member annotated_text],
      sample_class ''Good'' [metadata_member properties_text]] =
     ([], Some (Error (parse_error_text ''Bad'' ''src/control/Controls.ts''
                         ''End of input while parsing an object'')))"
proof -
  have "generateInterfaces sample_collaborators ''src/control/Controls.ts''
     [sample_class ''Good'' [metadata_member properties_text]] =
     ([(''src/control/Controls.ts'', ''Good'', ''interface Good'')], None)"
    by code_simp
  moreover have "generateInterfaces sample_collaborators ''src/control/Controls.ts''
     [sample_class ''Bad'' [metadata_member annotated_text],
      sample_class ''Good'' [metadata_member properties_text]] =
     ([], Some (Error (parse_error_text ''Bad'' ''src/control/Controls.ts''
                         ''End of input while parsing an object'')))"
    by code_simp
  ultimately show ?thesis by (rule conjI)
qed

text \<open>
  Claim C5, amended. A parse failure of the metadata block of a class is an error
  thrown to the caller of \<^verbatim>\<open>generateInterfaces\<close>, and its message names the class
  and the source file. The classes before it in the module are unaffected: what
  they gave to the sink stays. The error ends the loop over the module, and the
  classes after it are not processed.
\<close>

theorem generateInterfaces_parse_failure:
  assumes "static_metadata_members (classDeclaration bad) = Inr [member]"
    and "initializer member = Some text"
    and "hjson_parse env text = Inl message"
    and "generateInterfaces env f before = (out, None)"
  shows "generateInterface env bad =
           Inl (Error (parse_error_text (className bad) (fileName bad) message)) \<and>
         generateInterfaces env f (before @ bad # after) =
           (out, Some (Error (parse_error_text (className bad) (fileName bad) message)))"
proof -
  have g: "generateInterface env bad =
           Inl (Error (parse_error_text (className bad) (fileName bad) message))"
    using assms(1-3) by (rule generateInterface_parse_failure)
  have "generateInterfaces env f (before @ bad # after) =
        generateInterfaces_loop env f (bad # after) out"
    using assms(4) by (simp add: generateInterfaces_def generateInterfaces_loop_append)
  with g show ?thesis
    by simp
qed

theorem generateInterfaces_parse_failure_witness:
  "generateInterfaces sample_collaborators ''src/control/Controls.ts''
     [sample_class ''Good'' [metadata_member properties_text],
      sample_class ''Bad'' [metadata_member annotated_text],
      sample_class ''Later'' [metadata_member properties_text]] =
     ([(''src/control/Controls.ts'', ''Good'', ''interface Good'')],
      Some (Error (parse_error_text ''Bad'' ''src/control/Controls.ts''
                     ''End of input while parsing an object'')))"
proof -
  let ?bad = "sample_class ''Bad'' [metadata_member annotated_text]"
  let ?member = "metadata_member annotated_text"
  have 1: "static_metadata_members (classDeclaration ?bad) = Inr [?member]"
    by (rule sample_members)
  have 2: "initializer ?member = Some annotated_text"
    by (simp add: metadata_member_def)
  have 3: "hjson_parse sample_collaborators annotated_text =
           Inl ''End of input while parsing an object''"
    by code_simp
  have 4: "generateInterfaces sample_collaborators ''src/control/Controls.ts''
             [sample_class ''Good'' [metadata_member properties_text]] =
           ([(''src/control/Controls.ts'', ''Good'', ''interface Good'')], None)"
    by code_simp
  have 5: "className ?bad = ''Bad''" "fileName ?bad = ''src/control/Controls.ts''"
    by (simp_all add: sample_class_def)
  from generateInterfaces_parse_failure [OF 1 2 3 4,
      of "[sample_class ''Later'' [metadata_member properties_text]]"]
  show ?thesis
    by (simp only: 5 append.simps)
qed

text \<open>
  Where \<^verbatim>\<open>generateInterface\<close> does return \<^verbatim>\<open>undefined\<close>: every member named
  \<open>metadata\<close> has modifiers, so that the filter returns, and either the number of
  static ones is not one, or the metadata block of the only one parses to a value
  other than \<^verbatim>\<open>null\<close> that has none of the four maps. The loop over the module
  then goes on with the next class, the sink unchanged.
\<close>

lemma generateInterface_returns_undefined:
  assumes "static_metadata_members (classDeclaration mo) = Inr members"
    and "length members \<noteq> 1 \<or>
           (\<exists>member text parsed.
              members = [member] \<and>
              initializer member = Some text \<and>
              hjson_parse env text = Inr parsed \<and>
              \<not> nullish parsed \<and>
              \<not> truthy (getp parsed ''properties'') \<and>
              \<not> truthy (getp parsed ''aggregations'') \<and>
              \<not> truthy (getp parsed ''associations'') \<and>
              \<not> truthy (getp parsed ''events''))"
  shows "generateInterface env mo = Inr None \<and>
         generateInterfaces_loop env f (mo # mos) out = generateInterfaces_loop env f mos out"
proof -
  have "generateInterface env mo = Inr None"
    using assms(2)
  proof
    assume "length members \<noteq> 1"
    with assms(1) show ?thesis
      by (cases members) (simp_all add: generateInterface_def split: list.splits)
  next
    assume "\<exists>member text parsed.
              members = [member] \<and>
              initializer member = Some text \<and>
              hjson_parse env text = Inr parsed \<and>
              \<not> nullish parsed \<and>
              \<not> truthy (getp parsed ''properties'') \<and>
              \<not> truthy (getp parsed ''aggregations'') \<and>
              \<not> truthy (getp parsed ''associations'') \<and>
              \<not> truthy (getp parsed ''events'')"
    with assms(1) show ?thesis
      by (auto simp: generateInterface_def)
  qed
  then show ?thesis by simp
qed

lemma generateInterface_returns_undefined_examples:
  "generateInterface sample_collaborators
     (sample_class ''Two'' [metadata_member properties_text, metadata_member library_text]) =
     Inr None \<and>
   generateInterface sample_collaborators (sample_class ''Zero'' []) = Inr None \<and>
   generateInterface sample_collaborators
     (sample_class ''Lib'' [metadata_member library_text]) = Inr None \<and>
   generateInterfaces sample_collaborators ''src/control/Controls.ts''
     [sample_class ''Lib'' [metadata_member library_text],
      sample_class ''Good'' [metadata_member properties_text]] =
     ([(''src/control/Controls.ts'', ''Good'', ''interface Good'')], None)"
proof -
  let ?two = "sample_class ''Two'' [metadata_member properties_text, metadata_member library_text]"
  let ?zero = "sample_class ''Zero'' []"
  let ?lib = "sample_class ''Lib'' [metadata_member library_text]"
  have parsed: "hjson_parse sample_collaborators library_text = Inr (JObj [(''library'', JStr ''my.lib'')])"
    by code_simp
  have none: "\<not> nullish (JObj [(''library'', JStr ''my.lib'')])"
    "\<not> truthy (getp (JObj [(''library'', JStr ''my.lib'')]) ''properties'')"
    "\<not> truthy (getp (JObj [(''library'', JStr ''my.lib'')]) ''aggregations'')"
    "\<not> truthy (getp (JObj [(''library'', JStr ''my.lib'')]) ''associations'')"
    "\<not> truthy (getp (JObj [(''library'', JStr ''my.lib'')]) ''events'')"
    by code_simp+
  have init: "initializer (metadata_member library_text) = Some library_text"
    by (simp add: metadata_member_def)
  have good: "generateInterfaces_loop sample_collaborators ''src/control/Controls.ts''
     [sample_class ''Good'' [metadata_member properties_text]] [] =
     ([(''src/control/Controls.ts'', ''Good'', ''interface Good'')], None)"
    by code_simp
  from generateInterface_returns_undefined [OF sample_members(3), where env = sample_collaborators]
  have "generateInterface sample_collaborators ?two = Inr None" by simp
  moreover from generateInterface_returns_undefined [OF sample_members(2), where env = sample_collaborators]
  have "generateInterface sample_collaborators ?zero = Inr None" by simp
  moreover from generateInterface_returns_undefined [OF sample_members(1),
      where env = sample_collaborators and f = "''src/control/Controls.ts''" and
        mos = "[sample_class ''Good'' [metadata_member properties_text]]" and out = "[]"] parsed none init
  have "generateInterface sample_collaborators ?lib = Inr None \<and>
        generateInterfaces_loop sample_collaborators ''src/control/Controls.ts''
          [?lib, sample_class ''Good'' [metadata_member properties_text]] [] =
        generateInterfaces_loop sample_collaborators ''src/control/Controls.ts''
          [sample_class ''Good'' [metadata_member properties_text]] []"
    by blast
  ultimately show ?thesis
    using good by (simp add: generateInterfaces_def)
qed

text \<open>
  Claim C9 does not hold of the code, which raises an error for two kinds of class
  that have nothing to generate. A class whose only member named \<open>metadata\<close> is a
  property of the instances, written without any modifier, has no static metadata
  property; the filter reads \<^verbatim>\<open>member.modifiers.some\<close>, \<^verbatim>\<open>modifiers\<close> is
  \<^verbatim>\<open>undefined\<close> for that member, and a TypeError is raised instead of the return
  that the comment in the code announces. A class whose static metadata is the
  text \<^verbatim>\<open>null\<close> parses to \<^verbatim>\<open>null\<close>, which has none of the four maps, and reading
  \<^verbatim>\<open>metadataObject.properties\<close> raises a TypeError. In both cases the error ends
  the loop over the module, so that a class after it gets no interface.
\<close>

theorem generateInterface_nothing_to_generate_error:
  "generateInterface sample_collaborators
     (sample_class ''Inst'' [instance_metadata_member properties_text]) = Inl TypeError \<and>
   generateInterface sample_collaborators
     (sample_class ''Null'' [metadata_member ''null'']) = Inl TypeError \<and>
   generateInterfaces sample_collaborators ''src/control/Controls.ts''
     [sample_class ''Inst'' [instance_metadata_member properties_text],
      sample_class ''Good'' [metadata_member properties_text]] = ([], Some TypeError) \<and>
   generateInterfaces sample_collaborators ''src/control/Controls.ts''
     [sample_class ''Good'' [metadata_member properties_text]] =
     ([(''src/control/Controls.ts'', ''Good'', ''interface Good'')], None)"
proof -
  have "generateInterface sample_collaborators
     (sample_class ''Inst'' [instance_metadata_member properties_text]) = Inl TypeError"
    by code_simp
  moreover have "generateInterface sample_collaborators
     (sample_class ''Null'' [metadata_member ''null'']) = Inl TypeError"
    by code_simp
  moreover have "generateInterfaces sample_collaborators ''src/control/Controls.ts''
     [sample_class ''Inst'' [instance_metadata_member properties_text],
      sample_class ''Good'' [metadata_member properties_text]] = ([], Some TypeError)"
    by code_simp
  moreover have "generateInterfaces sample_collaborators ''src/control/Controls.ts''
     [sample_class ''Good'' [metadata_member properties_text]] =
     ([(''src/control/Controls.ts'', ''Good'', ''interface Good'')], None)"
    by code_simp
  ultimately show ?thesis by blast
qed

section \<open>The base-class walk\<close>












end
